theory Spec2Isabelle
  imports Main "HOL-Library.Word"
begin

unbundle bit_operations_syntax

section \<open>Failures\<close>

text \<open>
  The source has two build flavours. In a checked (debug) build every \<^verbatim>\<open>assert\<close>
  that fails aborts the compilation; in a release build \<^verbatim>\<open>assert\<close> compiles to
  nothing. \<^verbatim>\<open>unreached()\<close> aborts in both. Every such abort is a value of
  \<open>error\<close>, and a function that can abort returns \<open>error + 'a\<close>.
\<close>

datatype build = Debug | Release

datatype error =
    AssertFailed string
  | Unreached
  | NullDereference
  | StackUnderflow
  | BadNodeCast
  | OutOfBounds
  | DivideByZero

section \<open>Capability catalog\<close>

datatype (plugins only: code) CORINFO_InstructionSet =
    InstructionSet_ILLEGAL
  | InstructionSet_NONE
  | InstructionSet_X86Base
  | InstructionSet_SSE
  | InstructionSet_SSE2
  | InstructionSet_SSE3
  | InstructionSet_SSSE3
  | InstructionSet_SSE41
  | InstructionSet_SSE42
  | InstructionSet_AVX
  | InstructionSet_AVX2
  | InstructionSet_AES
  | InstructionSet_BMI1
  | InstructionSet_BMI2
  | InstructionSet_FMA
  | InstructionSet_LZCNT
  | InstructionSet_PCLMULQDQ
  | InstructionSet_POPCNT
  | InstructionSet_Vector128
  | InstructionSet_Vector256
  | InstructionSet_Vector512
  | InstructionSet_AVXVNNI
  | InstructionSet_X86Serialize
  | InstructionSet_AVX512F
  | InstructionSet_AVX512F_VL
  | InstructionSet_AVX512BW
  | InstructionSet_AVX512BW_VL
  | InstructionSet_AVX512CD
  | InstructionSet_AVX512CD_VL
  | InstructionSet_AVX512DQ
  | InstructionSet_AVX512DQ_VL
  | InstructionSet_X86Base_X64
  | InstructionSet_SSE_X64
  | InstructionSet_SSE2_X64
  | InstructionSet_SSE3_X64
  | InstructionSet_SSSE3_X64
  | InstructionSet_SSE41_X64
  | InstructionSet_SSE42_X64
  | InstructionSet_AVX_X64
  | InstructionSet_AVX2_X64
  | InstructionSet_AES_X64
  | InstructionSet_BMI1_X64
  | InstructionSet_BMI2_X64
  | InstructionSet_FMA_X64
  | InstructionSet_LZCNT_X64
  | InstructionSet_PCLMULQDQ_X64
  | InstructionSet_POPCNT_X64
  | InstructionSet_AVXVNNI_X64
  | InstructionSet_X86Serialize_X64
  | InstructionSet_AVX512F_X64
  | InstructionSet_AVX512F_VL_X64
  | InstructionSet_AVX512BW_X64
  | InstructionSet_AVX512BW_VL_X64
  | InstructionSet_AVX512CD_X64
  | InstructionSet_AVX512CD_VL_X64
  | InstructionSet_AVX512DQ_X64
  | InstructionSet_AVX512DQ_VL_X64

definition X64VersionOfIsa :: "CORINFO_InstructionSet \<Rightarrow> CORINFO_InstructionSet" where
  "X64VersionOfIsa isa =
     (case isa of
        InstructionSet_X86Base \<Rightarrow> InstructionSet_X86Base_X64
      | InstructionSet_SSE \<Rightarrow> InstructionSet_SSE_X64
      | InstructionSet_SSE2 \<Rightarrow> InstructionSet_SSE2_X64
      | InstructionSet_SSE3 \<Rightarrow> InstructionSet_SSE3_X64
      | InstructionSet_SSSE3 \<Rightarrow> InstructionSet_SSSE3_X64
      | InstructionSet_SSE41 \<Rightarrow> InstructionSet_SSE41_X64
      | InstructionSet_SSE42 \<Rightarrow> InstructionSet_SSE42_X64
      | InstructionSet_AVX \<Rightarrow> InstructionSet_AVX_X64
      | InstructionSet_AVX2 \<Rightarrow> InstructionSet_AVX2_X64
      | InstructionSet_AVX512BW \<Rightarrow> InstructionSet_AVX512BW_X64
      | InstructionSet_AVX512BW_VL \<Rightarrow> InstructionSet_AVX512BW_VL_X64
      | InstructionSet_AVX512CD \<Rightarrow> InstructionSet_AVX512CD_X64
      | InstructionSet_AVX512CD_VL \<Rightarrow> InstructionSet_AVX512CD_VL_X64
      | InstructionSet_AVX512DQ \<Rightarrow> InstructionSet_AVX512DQ_X64
      | InstructionSet_AVX512DQ_VL \<Rightarrow> InstructionSet_AVX512DQ_VL_X64
      | InstructionSet_AVX512F \<Rightarrow> InstructionSet_AVX512F_X64
      | InstructionSet_AVX512F_VL \<Rightarrow> InstructionSet_AVX512F_VL_X64
      | InstructionSet_AVXVNNI \<Rightarrow> InstructionSet_AVXVNNI_X64
      | InstructionSet_AES \<Rightarrow> InstructionSet_AES_X64
      | InstructionSet_BMI1 \<Rightarrow> InstructionSet_BMI1_X64
      | InstructionSet_BMI2 \<Rightarrow> InstructionSet_BMI2_X64
      | InstructionSet_FMA \<Rightarrow> InstructionSet_FMA_X64
      | InstructionSet_LZCNT \<Rightarrow> InstructionSet_LZCNT_X64
      | InstructionSet_PCLMULQDQ \<Rightarrow> InstructionSet_PCLMULQDQ_X64
      | InstructionSet_POPCNT \<Rightarrow> InstructionSet_POPCNT_X64
      | InstructionSet_X86Serialize \<Rightarrow> InstructionSet_X86Serialize_X64
      | _ \<Rightarrow> InstructionSet_NONE)"

definition VLVersionOfIsa :: "CORINFO_InstructionSet \<Rightarrow> CORINFO_InstructionSet" where
  "VLVersionOfIsa isa =
     (case isa of
        InstructionSet_AVX512BW \<Rightarrow> InstructionSet_AVX512BW_VL
      | InstructionSet_AVX512CD \<Rightarrow> InstructionSet_AVX512CD_VL
      | InstructionSet_AVX512DQ \<Rightarrow> InstructionSet_AVX512DQ_VL
      | InstructionSet_AVX512F \<Rightarrow> InstructionSet_AVX512F_VL
      | _ \<Rightarrow> InstructionSet_NONE)"

text \<open>
  A \<^verbatim>\<open>const char*\<close> is \<open>string option\<close>: \<open>None\<close> is the null pointer, and
  \<open>Some s\<close> points at the characters \<open>s\<close> that precede the terminating NUL.
  \<open>cstr_at s i\<close> is \<^verbatim>\<open>s[i]\<close> for \<open>i \<le> length s\<close>: position \<open>length s\<close> holds
  the terminator. \<open>strcmp\<close> and \<open>strncmp\<close> compare as the C library does, on
  unsigned character codes; only the sign of the result is specified by C.
\<close>

definition cstr_at :: "string \<Rightarrow> nat \<Rightarrow> char" where
  "cstr_at s i = (if i < length s then s ! i else CHR 0x00)"

fun strcmp :: "string \<Rightarrow> string \<Rightarrow> int" where
  "strcmp [] [] = 0"
| "strcmp [] (y # ys) = -1"
| "strcmp (x # xs) [] = 1"
| "strcmp (x # xs) (y # ys) =
     (if x = y then strcmp xs ys
      else if (of_char x :: nat) < of_char y then -1 else 1)"

definition strncmp :: "string \<Rightarrow> string \<Rightarrow> nat \<Rightarrow> int" where
  "strncmp s t n = strcmp (take n s) (take n t)"

definition VL_X64_message :: string where
  "VL_X64_message =
     ''VL.X64 support doesn't exist in the managed libraries and so is not yet implemented''"

definition lookupInstructionSet ::
  "build \<Rightarrow> string option \<Rightarrow> error + CORINFO_InstructionSet" where
  "lookupInstructionSet b className =
     (case className of
        None \<Rightarrow>
          (if b = Debug then Inl (AssertFailed ''className != nullptr'')
           else Inl NullDereference)
      | Some name \<Rightarrow>
          if cstr_at name 0 = CHR ''A'' then
            (if strcmp name ''Aes'' = 0 then Inr InstructionSet_AES
             else if strcmp name ''Avx'' = 0 then Inr InstructionSet_AVX
             else if strcmp name ''Avx2'' = 0 then Inr InstructionSet_AVX2
             else if strcmp name ''Avx512BW'' = 0 then Inr InstructionSet_AVX512BW
             else if strcmp name ''Avx512CD'' = 0 then Inr InstructionSet_AVX512CD
             else if strcmp name ''Avx512DQ'' = 0 then Inr InstructionSet_AVX512DQ
             else if strcmp name ''Avx512F'' = 0 then Inr InstructionSet_AVX512F
             else if strcmp name ''AvxVnni'' = 0 then Inr InstructionSet_AVXVNNI
             else Inr InstructionSet_ILLEGAL)
          else if cstr_at name 0 = CHR ''S'' then
            (if strcmp name ''Sse'' = 0 then Inr InstructionSet_SSE
             else if strcmp name ''Sse2'' = 0 then Inr InstructionSet_SSE2
             else if strcmp name ''Sse3'' = 0 then Inr InstructionSet_SSE3
             else if strcmp name ''Ssse3'' = 0 then Inr InstructionSet_SSSE3
             else if strcmp name ''Sse41'' = 0 then Inr InstructionSet_SSE41
             else if strcmp name ''Sse42'' = 0 then Inr InstructionSet_SSE42
             else Inr InstructionSet_ILLEGAL)
          else if cstr_at name 0 = CHR ''B'' then
            (if strcmp name ''Bmi1'' = 0 then Inr InstructionSet_BMI1
             else if strcmp name ''Bmi2'' = 0 then Inr InstructionSet_BMI2
             else Inr InstructionSet_ILLEGAL)
          else if cstr_at name 0 = CHR ''P'' then
            (if strcmp name ''Pclmulqdq'' = 0 then Inr InstructionSet_PCLMULQDQ
             else if strcmp name ''Popcnt'' = 0 then Inr InstructionSet_POPCNT
             else Inr InstructionSet_ILLEGAL)
          else if cstr_at name 0 = CHR ''V'' then
            (if strncmp name ''Vector128'' 9 = 0 then Inr InstructionSet_Vector128
             else if strncmp name ''Vector256'' 9 = 0 then Inr InstructionSet_Vector256
             else if strncmp name ''Vector512'' 9 = 0 then Inr InstructionSet_Vector512
             else if strcmp name ''VL'' = 0 then
               (if b = Debug then Inl (AssertFailed VL_X64_message)
                else Inr InstructionSet_ILLEGAL)
             else Inr InstructionSet_ILLEGAL)
          else if strcmp name ''Fma'' = 0 then Inr InstructionSet_FMA
          else if strcmp name ''Lzcnt'' = 0 then Inr InstructionSet_LZCNT
          else if strcmp name ''X86Base'' = 0 then Inr InstructionSet_X86Base
          else if strcmp name ''X86Serialize'' = 0 then Inr InstructionSet_X86Serialize
          else Inr InstructionSet_ILLEGAL)"

definition lookupIsa ::
  "build \<Rightarrow> string option \<Rightarrow> string option \<Rightarrow> error + CORINFO_InstructionSet" where
  "lookupIsa b className enclosingClassName =
     (case className of
        None \<Rightarrow>
          (if b = Debug then Inl (AssertFailed ''className != nullptr'')
           else Inl NullDereference)
      | Some name \<Rightarrow>
          if strcmp name ''X64'' = 0 then
            (if b = Debug \<and> enclosingClassName = None
             then Inl (AssertFailed ''enclosingClassName != nullptr'')
             else map_sum id X64VersionOfIsa (lookupInstructionSet b enclosingClassName))
          else if strcmp name ''VL'' = 0 then
            (if b = Debug \<and> enclosingClassName = None
             then Inl (AssertFailed ''enclosingClassName != nullptr'')
             else map_sum id VLVersionOfIsa (lookupInstructionSet b enclosingClassName))
          else lookupInstructionSet b className)"

text \<open>The class names that \<open>lookupInstructionSet\<close> compares with \<^verbatim>\<open>strcmp\<close>.\<close>

definition exact_class_names :: "string list" where
  "exact_class_names =
     [''Aes'', ''Avx'', ''Avx2'', ''Avx512BW'', ''Avx512CD'', ''Avx512DQ'', ''Avx512F'',
      ''AvxVnni'', ''Sse'', ''Sse2'', ''Sse3'', ''Ssse3'', ''Sse41'', ''Sse42'', ''Bmi1'',
      ''Bmi2'', ''Pclmulqdq'', ''Popcnt'', ''Fma'', ''Lzcnt'', ''X86Base'', ''X86Serialize'']"

text \<open>The prefixes that \<open>lookupInstructionSet\<close> compares with \<^verbatim>\<open>strncmp\<close>.\<close>

definition vector_class_prefixes :: "string list" where
  "vector_class_prefixes = [''Vector128'', ''Vector256'', ''Vector512'']"

definition recognized_class_name :: "string \<Rightarrow> bool" where
  "recognized_class_name name \<longleftrightarrow>
     name \<in> set exact_class_names \<or> take 9 name \<in> set vector_class_prefixes"

section \<open>Intrinsic metadata\<close>

text \<open>
  The enumeration \<^verbatim>\<open>NamedIntrinsic\<close> is declared outside this file, by a macro
  that names each hardware intrinsic \<^verbatim>\<open>NI_<isa>_<method>\<close>. An identifier is
  therefore the pair of its instruction set and its method name; the identifiers that
  the file mentions get their source names below, and every other pair stands for an
  intrinsic the file does not mention.
\<close>

datatype NamedIntrinsic = NI_Illegal | NI CORINFO_InstructionSet string

abbreviation NI_AVX_Compare :: NamedIntrinsic where
  "NI_AVX_Compare \<equiv> NI InstructionSet_AVX ''Compare''"

abbreviation NI_AVX_CompareScalar :: NamedIntrinsic where
  "NI_AVX_CompareScalar \<equiv> NI InstructionSet_AVX ''CompareScalar''"

abbreviation NI_AVX2_GatherVector128 :: NamedIntrinsic where
  "NI_AVX2_GatherVector128 \<equiv> NI InstructionSet_AVX2 ''GatherVector128''"

abbreviation NI_AVX2_GatherVector256 :: NamedIntrinsic where
  "NI_AVX2_GatherVector256 \<equiv> NI InstructionSet_AVX2 ''GatherVector256''"

abbreviation NI_AVX2_GatherMaskVector128 :: NamedIntrinsic where
  "NI_AVX2_GatherMaskVector128 \<equiv> NI InstructionSet_AVX2 ''GatherMaskVector128''"

abbreviation NI_AVX2_GatherMaskVector256 :: NamedIntrinsic where
  "NI_AVX2_GatherMaskVector256 \<equiv> NI InstructionSet_AVX2 ''GatherMaskVector256''"

abbreviation NI_SSE2_ShiftLeftLogical :: NamedIntrinsic where
  "NI_SSE2_ShiftLeftLogical \<equiv> NI InstructionSet_SSE2 ''ShiftLeftLogical''"














abbreviation NI_Vector128_Abs :: NamedIntrinsic where
  "NI_Vector128_Abs \<equiv> NI InstructionSet_Vector128 ''Abs''"

abbreviation NI_Vector256_Abs :: NamedIntrinsic where
  "NI_Vector256_Abs \<equiv> NI InstructionSet_Vector256 ''Abs''"

abbreviation NI_Vector128_Add :: NamedIntrinsic where
  "NI_Vector128_Add \<equiv> NI InstructionSet_Vector128 ''Add''"

abbreviation NI_Vector256_Add :: NamedIntrinsic where
  "NI_Vector256_Add \<equiv> NI InstructionSet_Vector256 ''Add''"

abbreviation NI_Vector512_Add :: NamedIntrinsic where
  "NI_Vector512_Add \<equiv> NI InstructionSet_Vector512 ''Add''"

abbreviation NI_Vector128_op_Addition :: NamedIntrinsic where
  "NI_Vector128_op_Addition \<equiv> NI InstructionSet_Vector128 ''op_Addition''"

abbreviation NI_Vector256_op_Addition :: NamedIntrinsic where
  "NI_Vector256_op_Addition \<equiv> NI InstructionSet_Vector256 ''op_Addition''"

abbreviation NI_Vector512_op_Addition :: NamedIntrinsic where
  "NI_Vector512_op_Addition \<equiv> NI InstructionSet_Vector512 ''op_Addition''"

abbreviation NI_Vector128_AndNot :: NamedIntrinsic where
  "NI_Vector128_AndNot \<equiv> NI InstructionSet_Vector128 ''AndNot''"

abbreviation NI_Vector256_AndNot :: NamedIntrinsic where
  "NI_Vector256_AndNot \<equiv> NI InstructionSet_Vector256 ''AndNot''"

abbreviation NI_Vector512_AndNot :: NamedIntrinsic where
  "NI_Vector512_AndNot \<equiv> NI InstructionSet_Vector512 ''AndNot''"

abbreviation NI_Vector128_As :: NamedIntrinsic where
  "NI_Vector128_As \<equiv> NI InstructionSet_Vector128 ''As''"

abbreviation NI_Vector128_AsByte :: NamedIntrinsic where
  "NI_Vector128_AsByte \<equiv> NI InstructionSet_Vector128 ''AsByte''"

abbreviation NI_Vector128_AsDouble :: NamedIntrinsic where
  "NI_Vector128_AsDouble \<equiv> NI InstructionSet_Vector128 ''AsDouble''"

abbreviation NI_Vector128_AsInt16 :: NamedIntrinsic where
  "NI_Vector128_AsInt16 \<equiv> NI InstructionSet_Vector128 ''AsInt16''"

abbreviation NI_Vector128_AsInt32 :: NamedIntrinsic where
  "NI_Vector128_AsInt32 \<equiv> NI InstructionSet_Vector128 ''AsInt32''"

abbreviation NI_Vector128_AsInt64 :: NamedIntrinsic where
  "NI_Vector128_AsInt64 \<equiv> NI InstructionSet_Vector128 ''AsInt64''"

abbreviation NI_Vector128_AsNInt :: NamedIntrinsic where
  "NI_Vector128_AsNInt \<equiv> NI InstructionSet_Vector128 ''AsNInt''"

abbreviation NI_Vector128_AsNUInt :: NamedIntrinsic where
  "NI_Vector128_AsNUInt \<equiv> NI InstructionSet_Vector128 ''AsNUInt''"

abbreviation NI_Vector128_AsSByte :: NamedIntrinsic where
  "NI_Vector128_AsSByte \<equiv> NI InstructionSet_Vector128 ''AsSByte''"

abbreviation NI_Vector128_AsSingle :: NamedIntrinsic where
  "NI_Vector128_AsSingle \<equiv> NI InstructionSet_Vector128 ''AsSingle''"

abbreviation NI_Vector128_AsUInt16 :: NamedIntrinsic where
  "NI_Vector128_AsUInt16 \<equiv> NI InstructionSet_Vector128 ''AsUInt16''"

abbreviation NI_Vector128_AsUInt32 :: NamedIntrinsic where
  "NI_Vector128_AsUInt32 \<equiv> NI InstructionSet_Vector128 ''AsUInt32''"

abbreviation NI_Vector128_AsUInt64 :: NamedIntrinsic where
  "NI_Vector128_AsUInt64 \<equiv> NI InstructionSet_Vector128 ''AsUInt64''"

abbreviation NI_Vector128_AsVector4 :: NamedIntrinsic where
  "NI_Vector128_AsVector4 \<equiv> NI InstructionSet_Vector128 ''AsVector4''"

abbreviation NI_Vector256_As :: NamedIntrinsic where
  "NI_Vector256_As \<equiv> NI InstructionSet_Vector256 ''As''"

abbreviation NI_Vector256_AsByte :: NamedIntrinsic where
  "NI_Vector256_AsByte \<equiv> NI InstructionSet_Vector256 ''AsByte''"

abbreviation NI_Vector256_AsDouble :: NamedIntrinsic where
  "NI_Vector256_AsDouble \<equiv> NI InstructionSet_Vector256 ''AsDouble''"

abbreviation NI_Vector256_AsInt16 :: NamedIntrinsic where
  "NI_Vector256_AsInt16 \<equiv> NI InstructionSet_Vector256 ''AsInt16''"

abbreviation NI_Vector256_AsInt32 :: NamedIntrinsic where
  "NI_Vector256_AsInt32 \<equiv> NI InstructionSet_Vector256 ''AsInt32''"

abbreviation NI_Vector256_AsInt64 :: NamedIntrinsic where
  "NI_Vector256_AsInt64 \<equiv> NI InstructionSet_Vector256 ''AsInt64''"

abbreviation NI_Vector256_AsNInt :: NamedIntrinsic where
  "NI_Vector256_AsNInt \<equiv> NI InstructionSet_Vector256 ''AsNInt''"

abbreviation NI_Vector256_AsNUInt :: NamedIntrinsic where
  "NI_Vector256_AsNUInt \<equiv> NI InstructionSet_Vector256 ''AsNUInt''"

abbreviation NI_Vector256_AsSByte :: NamedIntrinsic where
  "NI_Vector256_AsSByte \<equiv> NI InstructionSet_Vector256 ''AsSByte''"

abbreviation NI_Vector256_AsSingle :: NamedIntrinsic where
  "NI_Vector256_AsSingle \<equiv> NI InstructionSet_Vector256 ''AsSingle''"

abbreviation NI_Vector256_AsUInt16 :: NamedIntrinsic where
  "NI_Vector256_AsUInt16 \<equiv> NI InstructionSet_Vector256 ''AsUInt16''"

abbreviation NI_Vector256_AsUInt32 :: NamedIntrinsic where
  "NI_Vector256_AsUInt32 \<equiv> NI InstructionSet_Vector256 ''AsUInt32''"

abbreviation NI_Vector256_AsUInt64 :: NamedIntrinsic where
  "NI_Vector256_AsUInt64 \<equiv> NI InstructionSet_Vector256 ''AsUInt64''"

abbreviation NI_Vector512_As :: NamedIntrinsic where
  "NI_Vector512_As \<equiv> NI InstructionSet_Vector512 ''As''"

abbreviation NI_Vector512_AsByte :: NamedIntrinsic where
  "NI_Vector512_AsByte \<equiv> NI InstructionSet_Vector512 ''AsByte''"

abbreviation NI_Vector512_AsDouble :: NamedIntrinsic where
  "NI_Vector512_AsDouble \<equiv> NI InstructionSet_Vector512 ''AsDouble''"

abbreviation NI_Vector512_AsInt16 :: NamedIntrinsic where
  "NI_Vector512_AsInt16 \<equiv> NI InstructionSet_Vector512 ''AsInt16''"

abbreviation NI_Vector512_AsInt32 :: NamedIntrinsic where
  "NI_Vector512_AsInt32 \<equiv> NI InstructionSet_Vector512 ''AsInt32''"

abbreviation NI_Vector512_AsInt64 :: NamedIntrinsic where
  "NI_Vector512_AsInt64 \<equiv> NI InstructionSet_Vector512 ''AsInt64''"

abbreviation NI_Vector512_AsNInt :: NamedIntrinsic where
  "NI_Vector512_AsNInt \<equiv> NI InstructionSet_Vector512 ''AsNInt''"

abbreviation NI_Vector512_AsNUInt :: NamedIntrinsic where
  "NI_Vector512_AsNUInt \<equiv> NI InstructionSet_Vector512 ''AsNUInt''"

abbreviation NI_Vector512_AsSByte :: NamedIntrinsic where
  "NI_Vector512_AsSByte \<equiv> NI InstructionSet_Vector512 ''AsSByte''"

abbreviation NI_Vector512_AsSingle :: NamedIntrinsic where
  "NI_Vector512_AsSingle \<equiv> NI InstructionSet_Vector512 ''AsSingle''"

abbreviation NI_Vector512_AsUInt16 :: NamedIntrinsic where
  "NI_Vector512_AsUInt16 \<equiv> NI InstructionSet_Vector512 ''AsUInt16''"

abbreviation NI_Vector512_AsUInt32 :: NamedIntrinsic where
  "NI_Vector512_AsUInt32 \<equiv> NI InstructionSet_Vector512 ''AsUInt32''"

abbreviation NI_Vector512_AsUInt64 :: NamedIntrinsic where
  "NI_Vector512_AsUInt64 \<equiv> NI InstructionSet_Vector512 ''AsUInt64''"

abbreviation NI_Vector128_AsVector :: NamedIntrinsic where
  "NI_Vector128_AsVector \<equiv> NI InstructionSet_Vector128 ''AsVector''"

abbreviation NI_Vector128_ToVector256 :: NamedIntrinsic where
  "NI_Vector128_ToVector256 \<equiv> NI InstructionSet_Vector128 ''ToVector256''"

abbreviation NI_Vector128_AsVector2 :: NamedIntrinsic where
  "NI_Vector128_AsVector2 \<equiv> NI InstructionSet_Vector128 ''AsVector2''"

abbreviation NI_Vector128_AsVector3 :: NamedIntrinsic where
  "NI_Vector128_AsVector3 \<equiv> NI InstructionSet_Vector128 ''AsVector3''"

abbreviation NI_Vector128_AsVector128 :: NamedIntrinsic where
  "NI_Vector128_AsVector128 \<equiv> NI InstructionSet_Vector128 ''AsVector128''"

abbreviation NI_Vector256_GetLower :: NamedIntrinsic where
  "NI_Vector256_GetLower \<equiv> NI InstructionSet_Vector256 ''GetLower''"

abbreviation NI_Vector256_AsVector :: NamedIntrinsic where
  "NI_Vector256_AsVector \<equiv> NI InstructionSet_Vector256 ''AsVector''"

abbreviation NI_Vector256_AsVector256 :: NamedIntrinsic where
  "NI_Vector256_AsVector256 \<equiv> NI InstructionSet_Vector256 ''AsVector256''"

abbreviation NI_Vector512_AsVector :: NamedIntrinsic where
  "NI_Vector512_AsVector \<equiv> NI InstructionSet_Vector512 ''AsVector''"

abbreviation NI_Vector512_AsVector512 :: NamedIntrinsic where
  "NI_Vector512_AsVector512 \<equiv> NI InstructionSet_Vector512 ''AsVector512''"

abbreviation NI_Vector512_GetLower :: NamedIntrinsic where
  "NI_Vector512_GetLower \<equiv> NI InstructionSet_Vector512 ''GetLower''"

abbreviation NI_Vector256_ToVector512 :: NamedIntrinsic where
  "NI_Vector256_ToVector512 \<equiv> NI InstructionSet_Vector256 ''ToVector512''"

abbreviation NI_Vector512_GetLower128 :: NamedIntrinsic where
  "NI_Vector512_GetLower128 \<equiv> NI InstructionSet_Vector512 ''GetLower128''"

abbreviation NI_Vector128_ToVector512 :: NamedIntrinsic where
  "NI_Vector128_ToVector512 \<equiv> NI InstructionSet_Vector128 ''ToVector512''"

abbreviation NI_Vector128_BitwiseAnd :: NamedIntrinsic where
  "NI_Vector128_BitwiseAnd \<equiv> NI InstructionSet_Vector128 ''BitwiseAnd''"

abbreviation NI_Vector256_BitwiseAnd :: NamedIntrinsic where
  "NI_Vector256_BitwiseAnd \<equiv> NI InstructionSet_Vector256 ''BitwiseAnd''"

abbreviation NI_Vector512_BitwiseAnd :: NamedIntrinsic where
  "NI_Vector512_BitwiseAnd \<equiv> NI InstructionSet_Vector512 ''BitwiseAnd''"

abbreviation NI_Vector128_op_BitwiseAnd :: NamedIntrinsic where
  "NI_Vector128_op_BitwiseAnd \<equiv> NI InstructionSet_Vector128 ''op_BitwiseAnd''"

abbreviation NI_Vector256_op_BitwiseAnd :: NamedIntrinsic where
  "NI_Vector256_op_BitwiseAnd \<equiv> NI InstructionSet_Vector256 ''op_BitwiseAnd''"

abbreviation NI_Vector512_op_BitwiseAnd :: NamedIntrinsic where
  "NI_Vector512_op_BitwiseAnd \<equiv> NI InstructionSet_Vector512 ''op_BitwiseAnd''"

abbreviation NI_Vector128_BitwiseOr :: NamedIntrinsic where
  "NI_Vector128_BitwiseOr \<equiv> NI InstructionSet_Vector128 ''BitwiseOr''"

abbreviation NI_Vector256_BitwiseOr :: NamedIntrinsic where
  "NI_Vector256_BitwiseOr \<equiv> NI InstructionSet_Vector256 ''BitwiseOr''"

abbreviation NI_Vector512_BitwiseOr :: NamedIntrinsic where
  "NI_Vector512_BitwiseOr \<equiv> NI InstructionSet_Vector512 ''BitwiseOr''"

abbreviation NI_Vector128_op_BitwiseOr :: NamedIntrinsic where
  "NI_Vector128_op_BitwiseOr \<equiv> NI InstructionSet_Vector128 ''op_BitwiseOr''"

abbreviation NI_Vector256_op_BitwiseOr :: NamedIntrinsic where
  "NI_Vector256_op_BitwiseOr \<equiv> NI InstructionSet_Vector256 ''op_BitwiseOr''"

abbreviation NI_Vector512_op_BitwiseOr :: NamedIntrinsic where
  "NI_Vector512_op_BitwiseOr \<equiv> NI InstructionSet_Vector512 ''op_BitwiseOr''"

abbreviation NI_Vector128_Ceiling :: NamedIntrinsic where
  "NI_Vector128_Ceiling \<equiv> NI InstructionSet_Vector128 ''Ceiling''"

abbreviation NI_Vector256_Ceiling :: NamedIntrinsic where
  "NI_Vector256_Ceiling \<equiv> NI InstructionSet_Vector256 ''Ceiling''"

abbreviation NI_Vector128_ConditionalSelect :: NamedIntrinsic where
  "NI_Vector128_ConditionalSelect \<equiv> NI InstructionSet_Vector128 ''ConditionalSelect''"

abbreviation NI_Vector256_ConditionalSelect :: NamedIntrinsic where
  "NI_Vector256_ConditionalSelect \<equiv> NI InstructionSet_Vector256 ''ConditionalSelect''"

abbreviation NI_Vector128_ConvertToDouble :: NamedIntrinsic where
  "NI_Vector128_ConvertToDouble \<equiv> NI InstructionSet_Vector128 ''ConvertToDouble''"

abbreviation NI_Vector256_ConvertToDouble :: NamedIntrinsic where
  "NI_Vector256_ConvertToDouble \<equiv> NI InstructionSet_Vector256 ''ConvertToDouble''"

abbreviation NI_Vector128_ConvertToInt64 :: NamedIntrinsic where
  "NI_Vector128_ConvertToInt64 \<equiv> NI InstructionSet_Vector128 ''ConvertToInt64''"

abbreviation NI_Vector256_ConvertToInt64 :: NamedIntrinsic where
  "NI_Vector256_ConvertToInt64 \<equiv> NI InstructionSet_Vector256 ''ConvertToInt64''"

abbreviation NI_Vector128_ConvertToUInt32 :: NamedIntrinsic where
  "NI_Vector128_ConvertToUInt32 \<equiv> NI InstructionSet_Vector128 ''ConvertToUInt32''"

abbreviation NI_Vector256_ConvertToUInt32 :: NamedIntrinsic where
  "NI_Vector256_ConvertToUInt32 \<equiv> NI InstructionSet_Vector256 ''ConvertToUInt32''"

abbreviation NI_Vector128_ConvertToUInt64 :: NamedIntrinsic where
  "NI_Vector128_ConvertToUInt64 \<equiv> NI InstructionSet_Vector128 ''ConvertToUInt64''"

abbreviation NI_Vector256_ConvertToUInt64 :: NamedIntrinsic where
  "NI_Vector256_ConvertToUInt64 \<equiv> NI InstructionSet_Vector256 ''ConvertToUInt64''"

abbreviation NI_Vector128_ConvertToInt32 :: NamedIntrinsic where
  "NI_Vector128_ConvertToInt32 \<equiv> NI InstructionSet_Vector128 ''ConvertToInt32''"

abbreviation NI_Vector256_ConvertToInt32 :: NamedIntrinsic where
  "NI_Vector256_ConvertToInt32 \<equiv> NI InstructionSet_Vector256 ''ConvertToInt32''"

abbreviation NI_AVX_ConvertToVector256Int32WithTruncation :: NamedIntrinsic where
  "NI_AVX_ConvertToVector256Int32WithTruncation \<equiv> NI InstructionSet_AVX ''ConvertToVector256Int32WithTruncation''"

abbreviation NI_SSE2_ConvertToVector128Int32WithTruncation :: NamedIntrinsic where
  "NI_SSE2_ConvertToVector128Int32WithTruncation \<equiv> NI InstructionSet_SSE2 ''ConvertToVector128Int32WithTruncation''"

abbreviation NI_Vector128_ConvertToSingle :: NamedIntrinsic where
  "NI_Vector128_ConvertToSingle \<equiv> NI InstructionSet_Vector128 ''ConvertToSingle''"

abbreviation NI_Vector256_ConvertToSingle :: NamedIntrinsic where
  "NI_Vector256_ConvertToSingle \<equiv> NI InstructionSet_Vector256 ''ConvertToSingle''"

abbreviation NI_AVX_ConvertToVector256Single :: NamedIntrinsic where
  "NI_AVX_ConvertToVector256Single \<equiv> NI InstructionSet_AVX ''ConvertToVector256Single''"

abbreviation NI_SSE2_ConvertToVector128Single :: NamedIntrinsic where
  "NI_SSE2_ConvertToVector128Single \<equiv> NI InstructionSet_SSE2 ''ConvertToVector128Single''"

abbreviation NI_Vector128_Create :: NamedIntrinsic where
  "NI_Vector128_Create \<equiv> NI InstructionSet_Vector128 ''Create''"

abbreviation NI_Vector256_Create :: NamedIntrinsic where
  "NI_Vector256_Create \<equiv> NI InstructionSet_Vector256 ''Create''"

abbreviation NI_Vector512_Create :: NamedIntrinsic where
  "NI_Vector512_Create \<equiv> NI InstructionSet_Vector512 ''Create''"

abbreviation NI_Vector128_CreateScalar :: NamedIntrinsic where
  "NI_Vector128_CreateScalar \<equiv> NI InstructionSet_Vector128 ''CreateScalar''"

abbreviation NI_Vector256_CreateScalar :: NamedIntrinsic where
  "NI_Vector256_CreateScalar \<equiv> NI InstructionSet_Vector256 ''CreateScalar''"

abbreviation NI_Vector512_CreateScalar :: NamedIntrinsic where
  "NI_Vector512_CreateScalar \<equiv> NI InstructionSet_Vector512 ''CreateScalar''"

abbreviation NI_Vector128_CreateScalarUnsafe :: NamedIntrinsic where
  "NI_Vector128_CreateScalarUnsafe \<equiv> NI InstructionSet_Vector128 ''CreateScalarUnsafe''"

abbreviation NI_Vector256_CreateScalarUnsafe :: NamedIntrinsic where
  "NI_Vector256_CreateScalarUnsafe \<equiv> NI InstructionSet_Vector256 ''CreateScalarUnsafe''"

abbreviation NI_Vector512_CreateScalarUnsafe :: NamedIntrinsic where
  "NI_Vector512_CreateScalarUnsafe \<equiv> NI InstructionSet_Vector512 ''CreateScalarUnsafe''"

abbreviation NI_Vector128_Divide :: NamedIntrinsic where
  "NI_Vector128_Divide \<equiv> NI InstructionSet_Vector128 ''Divide''"

abbreviation NI_Vector256_Divide :: NamedIntrinsic where
  "NI_Vector256_Divide \<equiv> NI InstructionSet_Vector256 ''Divide''"

abbreviation NI_Vector128_op_Division :: NamedIntrinsic where
  "NI_Vector128_op_Division \<equiv> NI InstructionSet_Vector128 ''op_Division''"

abbreviation NI_Vector256_op_Division :: NamedIntrinsic where
  "NI_Vector256_op_Division \<equiv> NI InstructionSet_Vector256 ''op_Division''"

abbreviation NI_Vector128_Dot :: NamedIntrinsic where
  "NI_Vector128_Dot \<equiv> NI InstructionSet_Vector128 ''Dot''"

abbreviation NI_Vector256_Dot :: NamedIntrinsic where
  "NI_Vector256_Dot \<equiv> NI InstructionSet_Vector256 ''Dot''"

abbreviation NI_Vector128_Equals :: NamedIntrinsic where
  "NI_Vector128_Equals \<equiv> NI InstructionSet_Vector128 ''Equals''"

abbreviation NI_Vector256_Equals :: NamedIntrinsic where
  "NI_Vector256_Equals \<equiv> NI InstructionSet_Vector256 ''Equals''"

abbreviation NI_Vector512_Equals :: NamedIntrinsic where
  "NI_Vector512_Equals \<equiv> NI InstructionSet_Vector512 ''Equals''"

abbreviation NI_Vector512_EqualsAll :: NamedIntrinsic where
  "NI_Vector512_EqualsAll \<equiv> NI InstructionSet_Vector512 ''EqualsAll''"

abbreviation NI_Vector512_op_Equality :: NamedIntrinsic where
  "NI_Vector512_op_Equality \<equiv> NI InstructionSet_Vector512 ''op_Equality''"

abbreviation NI_Vector128_EqualsAll :: NamedIntrinsic where
  "NI_Vector128_EqualsAll \<equiv> NI InstructionSet_Vector128 ''EqualsAll''"

abbreviation NI_Vector256_EqualsAll :: NamedIntrinsic where
  "NI_Vector256_EqualsAll \<equiv> NI InstructionSet_Vector256 ''EqualsAll''"

abbreviation NI_Vector128_op_Equality :: NamedIntrinsic where
  "NI_Vector128_op_Equality \<equiv> NI InstructionSet_Vector128 ''op_Equality''"

abbreviation NI_Vector256_op_Equality :: NamedIntrinsic where
  "NI_Vector256_op_Equality \<equiv> NI InstructionSet_Vector256 ''op_Equality''"

abbreviation NI_Vector512_EqualsAny :: NamedIntrinsic where
  "NI_Vector512_EqualsAny \<equiv> NI InstructionSet_Vector512 ''EqualsAny''"

abbreviation NI_Vector128_EqualsAny :: NamedIntrinsic where
  "NI_Vector128_EqualsAny \<equiv> NI InstructionSet_Vector128 ''EqualsAny''"

abbreviation NI_Vector256_EqualsAny :: NamedIntrinsic where
  "NI_Vector256_EqualsAny \<equiv> NI InstructionSet_Vector256 ''EqualsAny''"

abbreviation NI_Vector512_ExtractMostSignificantBits :: NamedIntrinsic where
  "NI_Vector512_ExtractMostSignificantBits \<equiv> NI InstructionSet_Vector512 ''ExtractMostSignificantBits''"

abbreviation NI_AVX512F_MoveMaskSpecial :: NamedIntrinsic where
  "NI_AVX512F_MoveMaskSpecial \<equiv> NI InstructionSet_AVX512F ''MoveMaskSpecial''"

abbreviation NI_Vector128_ExtractMostSignificantBits :: NamedIntrinsic where
  "NI_Vector128_ExtractMostSignificantBits \<equiv> NI InstructionSet_Vector128 ''ExtractMostSignificantBits''"

abbreviation NI_Vector256_ExtractMostSignificantBits :: NamedIntrinsic where
  "NI_Vector256_ExtractMostSignificantBits \<equiv> NI InstructionSet_Vector256 ''ExtractMostSignificantBits''"

abbreviation NI_AVX2_MoveMask :: NamedIntrinsic where
  "NI_AVX2_MoveMask \<equiv> NI InstructionSet_AVX2 ''MoveMask''"

abbreviation NI_SSE2_MoveMask :: NamedIntrinsic where
  "NI_SSE2_MoveMask \<equiv> NI InstructionSet_SSE2 ''MoveMask''"

abbreviation NI_AVX2_Shuffle :: NamedIntrinsic where
  "NI_AVX2_Shuffle \<equiv> NI InstructionSet_AVX2 ''Shuffle''"

abbreviation NI_SSSE3_Shuffle :: NamedIntrinsic where
  "NI_SSSE3_Shuffle \<equiv> NI InstructionSet_SSSE3 ''Shuffle''"

abbreviation NI_AVX2_Permute4x64 :: NamedIntrinsic where
  "NI_AVX2_Permute4x64 \<equiv> NI InstructionSet_AVX2 ''Permute4x64''"

abbreviation NI_AVX_MoveMask :: NamedIntrinsic where
  "NI_AVX_MoveMask \<equiv> NI InstructionSet_AVX ''MoveMask''"

abbreviation NI_SSE_MoveMask :: NamedIntrinsic where
  "NI_SSE_MoveMask \<equiv> NI InstructionSet_SSE ''MoveMask''"

abbreviation NI_Vector128_Floor :: NamedIntrinsic where
  "NI_Vector128_Floor \<equiv> NI InstructionSet_Vector128 ''Floor''"

abbreviation NI_Vector256_Floor :: NamedIntrinsic where
  "NI_Vector256_Floor \<equiv> NI InstructionSet_Vector256 ''Floor''"

abbreviation NI_Vector128_get_AllBitsSet :: NamedIntrinsic where
  "NI_Vector128_get_AllBitsSet \<equiv> NI InstructionSet_Vector128 ''get_AllBitsSet''"

abbreviation NI_Vector256_get_AllBitsSet :: NamedIntrinsic where
  "NI_Vector256_get_AllBitsSet \<equiv> NI InstructionSet_Vector256 ''get_AllBitsSet''"

abbreviation NI_Vector512_get_AllBitsSet :: NamedIntrinsic where
  "NI_Vector512_get_AllBitsSet \<equiv> NI InstructionSet_Vector512 ''get_AllBitsSet''"

abbreviation NI_Vector128_get_One :: NamedIntrinsic where
  "NI_Vector128_get_One \<equiv> NI InstructionSet_Vector128 ''get_One''"

abbreviation NI_Vector256_get_One :: NamedIntrinsic where
  "NI_Vector256_get_One \<equiv> NI InstructionSet_Vector256 ''get_One''"

abbreviation NI_Vector512_get_One :: NamedIntrinsic where
  "NI_Vector512_get_One \<equiv> NI InstructionSet_Vector512 ''get_One''"

abbreviation NI_Vector128_get_Zero :: NamedIntrinsic where
  "NI_Vector128_get_Zero \<equiv> NI InstructionSet_Vector128 ''get_Zero''"

abbreviation NI_Vector256_get_Zero :: NamedIntrinsic where
  "NI_Vector256_get_Zero \<equiv> NI InstructionSet_Vector256 ''get_Zero''"

abbreviation NI_Vector512_get_Zero :: NamedIntrinsic where
  "NI_Vector512_get_Zero \<equiv> NI InstructionSet_Vector512 ''get_Zero''"

abbreviation NI_Vector128_GetElement :: NamedIntrinsic where
  "NI_Vector128_GetElement \<equiv> NI InstructionSet_Vector128 ''GetElement''"

abbreviation NI_Vector256_GetElement :: NamedIntrinsic where
  "NI_Vector256_GetElement \<equiv> NI InstructionSet_Vector256 ''GetElement''"

abbreviation NI_Vector512_GetElement :: NamedIntrinsic where
  "NI_Vector512_GetElement \<equiv> NI InstructionSet_Vector512 ''GetElement''"

abbreviation NI_Vector128_GreaterThan :: NamedIntrinsic where
  "NI_Vector128_GreaterThan \<equiv> NI InstructionSet_Vector128 ''GreaterThan''"

abbreviation NI_Vector256_GreaterThan :: NamedIntrinsic where
  "NI_Vector256_GreaterThan \<equiv> NI InstructionSet_Vector256 ''GreaterThan''"

abbreviation NI_Vector128_GreaterThanAll :: NamedIntrinsic where
  "NI_Vector128_GreaterThanAll \<equiv> NI InstructionSet_Vector128 ''GreaterThanAll''"

abbreviation NI_Vector256_GreaterThanAll :: NamedIntrinsic where
  "NI_Vector256_GreaterThanAll \<equiv> NI InstructionSet_Vector256 ''GreaterThanAll''"

abbreviation NI_Vector128_GreaterThanAny :: NamedIntrinsic where
  "NI_Vector128_GreaterThanAny \<equiv> NI InstructionSet_Vector128 ''GreaterThanAny''"

abbreviation NI_Vector256_GreaterThanAny :: NamedIntrinsic where
  "NI_Vector256_GreaterThanAny \<equiv> NI InstructionSet_Vector256 ''GreaterThanAny''"

abbreviation NI_Vector128_GreaterThanOrEqual :: NamedIntrinsic where
  "NI_Vector128_GreaterThanOrEqual \<equiv> NI InstructionSet_Vector128 ''GreaterThanOrEqual''"

abbreviation NI_Vector256_GreaterThanOrEqual :: NamedIntrinsic where
  "NI_Vector256_GreaterThanOrEqual \<equiv> NI InstructionSet_Vector256 ''GreaterThanOrEqual''"

abbreviation NI_Vector128_GreaterThanOrEqualAll :: NamedIntrinsic where
  "NI_Vector128_GreaterThanOrEqualAll \<equiv> NI InstructionSet_Vector128 ''GreaterThanOrEqualAll''"

abbreviation NI_Vector256_GreaterThanOrEqualAll :: NamedIntrinsic where
  "NI_Vector256_GreaterThanOrEqualAll \<equiv> NI InstructionSet_Vector256 ''GreaterThanOrEqualAll''"

abbreviation NI_Vector128_GreaterThanOrEqualAny :: NamedIntrinsic where
  "NI_Vector128_GreaterThanOrEqualAny \<equiv> NI InstructionSet_Vector128 ''GreaterThanOrEqualAny''"

abbreviation NI_Vector256_GreaterThanOrEqualAny :: NamedIntrinsic where
  "NI_Vector256_GreaterThanOrEqualAny \<equiv> NI InstructionSet_Vector256 ''GreaterThanOrEqualAny''"

abbreviation NI_Vector128_LessThan :: NamedIntrinsic where
  "NI_Vector128_LessThan \<equiv> NI InstructionSet_Vector128 ''LessThan''"

abbreviation NI_Vector256_LessThan :: NamedIntrinsic where
  "NI_Vector256_LessThan \<equiv> NI InstructionSet_Vector256 ''LessThan''"

abbreviation NI_Vector128_LessThanAll :: NamedIntrinsic where
  "NI_Vector128_LessThanAll \<equiv> NI InstructionSet_Vector128 ''LessThanAll''"

abbreviation NI_Vector256_LessThanAll :: NamedIntrinsic where
  "NI_Vector256_LessThanAll \<equiv> NI InstructionSet_Vector256 ''LessThanAll''"

abbreviation NI_Vector128_LessThanAny :: NamedIntrinsic where
  "NI_Vector128_LessThanAny \<equiv> NI InstructionSet_Vector128 ''LessThanAny''"

abbreviation NI_Vector256_LessThanAny :: NamedIntrinsic where
  "NI_Vector256_LessThanAny \<equiv> NI InstructionSet_Vector256 ''LessThanAny''"

abbreviation NI_Vector128_LessThanOrEqual :: NamedIntrinsic where
  "NI_Vector128_LessThanOrEqual \<equiv> NI InstructionSet_Vector128 ''LessThanOrEqual''"

abbreviation NI_Vector256_LessThanOrEqual :: NamedIntrinsic where
  "NI_Vector256_LessThanOrEqual \<equiv> NI InstructionSet_Vector256 ''LessThanOrEqual''"

abbreviation NI_Vector128_LessThanOrEqualAll :: NamedIntrinsic where
  "NI_Vector128_LessThanOrEqualAll \<equiv> NI InstructionSet_Vector128 ''LessThanOrEqualAll''"

abbreviation NI_Vector256_LessThanOrEqualAll :: NamedIntrinsic where
  "NI_Vector256_LessThanOrEqualAll \<equiv> NI InstructionSet_Vector256 ''LessThanOrEqualAll''"

abbreviation NI_Vector128_LessThanOrEqualAny :: NamedIntrinsic where
  "NI_Vector128_LessThanOrEqualAny \<equiv> NI InstructionSet_Vector128 ''LessThanOrEqualAny''"

abbreviation NI_Vector256_LessThanOrEqualAny :: NamedIntrinsic where
  "NI_Vector256_LessThanOrEqualAny \<equiv> NI InstructionSet_Vector256 ''LessThanOrEqualAny''"

abbreviation NI_SSE_LoadVector128 :: NamedIntrinsic where
  "NI_SSE_LoadVector128 \<equiv> NI InstructionSet_SSE ''LoadVector128''"

abbreviation NI_SSE2_LoadVector128 :: NamedIntrinsic where
  "NI_SSE2_LoadVector128 \<equiv> NI InstructionSet_SSE2 ''LoadVector128''"

abbreviation NI_AVX_LoadVector256 :: NamedIntrinsic where
  "NI_AVX_LoadVector256 \<equiv> NI InstructionSet_AVX ''LoadVector256''"

abbreviation NI_AVX512F_LoadVector512 :: NamedIntrinsic where
  "NI_AVX512F_LoadVector512 \<equiv> NI InstructionSet_AVX512F ''LoadVector512''"

abbreviation NI_AVX512BW_LoadVector512 :: NamedIntrinsic where
  "NI_AVX512BW_LoadVector512 \<equiv> NI InstructionSet_AVX512BW ''LoadVector512''"

abbreviation NI_Vector128_Load :: NamedIntrinsic where
  "NI_Vector128_Load \<equiv> NI InstructionSet_Vector128 ''Load''"

abbreviation NI_Vector256_Load :: NamedIntrinsic where
  "NI_Vector256_Load \<equiv> NI InstructionSet_Vector256 ''Load''"

abbreviation NI_Vector512_Load :: NamedIntrinsic where
  "NI_Vector512_Load \<equiv> NI InstructionSet_Vector512 ''Load''"

abbreviation NI_Vector128_LoadUnsafe :: NamedIntrinsic where
  "NI_Vector128_LoadUnsafe \<equiv> NI InstructionSet_Vector128 ''LoadUnsafe''"

abbreviation NI_Vector256_LoadUnsafe :: NamedIntrinsic where
  "NI_Vector256_LoadUnsafe \<equiv> NI InstructionSet_Vector256 ''LoadUnsafe''"

abbreviation NI_Vector512_LoadUnsafe :: NamedIntrinsic where
  "NI_Vector512_LoadUnsafe \<equiv> NI InstructionSet_Vector512 ''LoadUnsafe''"

abbreviation NI_Vector128_LoadAligned :: NamedIntrinsic where
  "NI_Vector128_LoadAligned \<equiv> NI InstructionSet_Vector128 ''LoadAligned''"

abbreviation NI_Vector256_LoadAligned :: NamedIntrinsic where
  "NI_Vector256_LoadAligned \<equiv> NI InstructionSet_Vector256 ''LoadAligned''"

abbreviation NI_Vector512_LoadAligned :: NamedIntrinsic where
  "NI_Vector512_LoadAligned \<equiv> NI InstructionSet_Vector512 ''LoadAligned''"

abbreviation NI_Vector128_LoadAlignedNonTemporal :: NamedIntrinsic where
  "NI_Vector128_LoadAlignedNonTemporal \<equiv> NI InstructionSet_Vector128 ''LoadAlignedNonTemporal''"

abbreviation NI_Vector256_LoadAlignedNonTemporal :: NamedIntrinsic where
  "NI_Vector256_LoadAlignedNonTemporal \<equiv> NI InstructionSet_Vector256 ''LoadAlignedNonTemporal''"

abbreviation NI_Vector512_LoadAlignedNonTemporal :: NamedIntrinsic where
  "NI_Vector512_LoadAlignedNonTemporal \<equiv> NI InstructionSet_Vector512 ''LoadAlignedNonTemporal''"

abbreviation NI_Vector128_Max :: NamedIntrinsic where
  "NI_Vector128_Max \<equiv> NI InstructionSet_Vector128 ''Max''"

abbreviation NI_Vector256_Max :: NamedIntrinsic where
  "NI_Vector256_Max \<equiv> NI InstructionSet_Vector256 ''Max''"

abbreviation NI_Vector128_Min :: NamedIntrinsic where
  "NI_Vector128_Min \<equiv> NI InstructionSet_Vector128 ''Min''"

abbreviation NI_Vector256_Min :: NamedIntrinsic where
  "NI_Vector256_Min \<equiv> NI InstructionSet_Vector256 ''Min''"

abbreviation NI_Vector128_Multiply :: NamedIntrinsic where
  "NI_Vector128_Multiply \<equiv> NI InstructionSet_Vector128 ''Multiply''"

abbreviation NI_Vector256_Multiply :: NamedIntrinsic where
  "NI_Vector256_Multiply \<equiv> NI InstructionSet_Vector256 ''Multiply''"

abbreviation NI_Vector128_op_Multiply :: NamedIntrinsic where
  "NI_Vector128_op_Multiply \<equiv> NI InstructionSet_Vector128 ''op_Multiply''"

abbreviation NI_Vector256_op_Multiply :: NamedIntrinsic where
  "NI_Vector256_op_Multiply \<equiv> NI InstructionSet_Vector256 ''op_Multiply''"

abbreviation NI_Vector128_Narrow :: NamedIntrinsic where
  "NI_Vector128_Narrow \<equiv> NI InstructionSet_Vector128 ''Narrow''"

abbreviation NI_Vector256_Narrow :: NamedIntrinsic where
  "NI_Vector256_Narrow \<equiv> NI InstructionSet_Vector256 ''Narrow''"

abbreviation NI_Vector512_Narrow :: NamedIntrinsic where
  "NI_Vector512_Narrow \<equiv> NI InstructionSet_Vector512 ''Narrow''"

abbreviation NI_Vector128_Negate :: NamedIntrinsic where
  "NI_Vector128_Negate \<equiv> NI InstructionSet_Vector128 ''Negate''"

abbreviation NI_Vector256_Negate :: NamedIntrinsic where
  "NI_Vector256_Negate \<equiv> NI InstructionSet_Vector256 ''Negate''"

abbreviation NI_Vector128_op_UnaryNegation :: NamedIntrinsic where
  "NI_Vector128_op_UnaryNegation \<equiv> NI InstructionSet_Vector128 ''op_UnaryNegation''"

abbreviation NI_Vector256_op_UnaryNegation :: NamedIntrinsic where
  "NI_Vector256_op_UnaryNegation \<equiv> NI InstructionSet_Vector256 ''op_UnaryNegation''"

abbreviation NI_Vector128_OnesComplement :: NamedIntrinsic where
  "NI_Vector128_OnesComplement \<equiv> NI InstructionSet_Vector128 ''OnesComplement''"

abbreviation NI_Vector256_OnesComplement :: NamedIntrinsic where
  "NI_Vector256_OnesComplement \<equiv> NI InstructionSet_Vector256 ''OnesComplement''"

abbreviation NI_Vector512_OnesComplement :: NamedIntrinsic where
  "NI_Vector512_OnesComplement \<equiv> NI InstructionSet_Vector512 ''OnesComplement''"

abbreviation NI_Vector128_op_OnesComplement :: NamedIntrinsic where
  "NI_Vector128_op_OnesComplement \<equiv> NI InstructionSet_Vector128 ''op_OnesComplement''"

abbreviation NI_Vector256_op_OnesComplement :: NamedIntrinsic where
  "NI_Vector256_op_OnesComplement \<equiv> NI InstructionSet_Vector256 ''op_OnesComplement''"

abbreviation NI_Vector512_op_OnesComplement :: NamedIntrinsic where
  "NI_Vector512_op_OnesComplement \<equiv> NI InstructionSet_Vector512 ''op_OnesComplement''"

abbreviation NI_Vector128_op_Inequality :: NamedIntrinsic where
  "NI_Vector128_op_Inequality \<equiv> NI InstructionSet_Vector128 ''op_Inequality''"

abbreviation NI_Vector256_op_Inequality :: NamedIntrinsic where
  "NI_Vector256_op_Inequality \<equiv> NI InstructionSet_Vector256 ''op_Inequality''"

abbreviation NI_Vector512_op_Inequality :: NamedIntrinsic where
  "NI_Vector512_op_Inequality \<equiv> NI InstructionSet_Vector512 ''op_Inequality''"

abbreviation NI_Vector128_op_UnaryPlus :: NamedIntrinsic where
  "NI_Vector128_op_UnaryPlus \<equiv> NI InstructionSet_Vector128 ''op_UnaryPlus''"

abbreviation NI_Vector256_op_UnaryPlus :: NamedIntrinsic where
  "NI_Vector256_op_UnaryPlus \<equiv> NI InstructionSet_Vector256 ''op_UnaryPlus''"

abbreviation NI_Vector128_Subtract :: NamedIntrinsic where
  "NI_Vector128_Subtract \<equiv> NI InstructionSet_Vector128 ''Subtract''"

abbreviation NI_Vector256_Subtract :: NamedIntrinsic where
  "NI_Vector256_Subtract \<equiv> NI InstructionSet_Vector256 ''Subtract''"

abbreviation NI_Vector512_Subtract :: NamedIntrinsic where
  "NI_Vector512_Subtract \<equiv> NI InstructionSet_Vector512 ''Subtract''"

abbreviation NI_Vector128_op_Subtraction :: NamedIntrinsic where
  "NI_Vector128_op_Subtraction \<equiv> NI InstructionSet_Vector128 ''op_Subtraction''"

abbreviation NI_Vector256_op_Subtraction :: NamedIntrinsic where
  "NI_Vector256_op_Subtraction \<equiv> NI InstructionSet_Vector256 ''op_Subtraction''"

abbreviation NI_Vector512_op_Subtraction :: NamedIntrinsic where
  "NI_Vector512_op_Subtraction \<equiv> NI InstructionSet_Vector512 ''op_Subtraction''"

abbreviation NI_Vector128_ShiftLeft :: NamedIntrinsic where
  "NI_Vector128_ShiftLeft \<equiv> NI InstructionSet_Vector128 ''ShiftLeft''"

abbreviation NI_Vector256_ShiftLeft :: NamedIntrinsic where
  "NI_Vector256_ShiftLeft \<equiv> NI InstructionSet_Vector256 ''ShiftLeft''"

abbreviation NI_Vector128_op_LeftShift :: NamedIntrinsic where
  "NI_Vector128_op_LeftShift \<equiv> NI InstructionSet_Vector128 ''op_LeftShift''"

abbreviation NI_Vector256_op_LeftShift :: NamedIntrinsic where
  "NI_Vector256_op_LeftShift \<equiv> NI InstructionSet_Vector256 ''op_LeftShift''"

abbreviation NI_Vector128_ShiftRightArithmetic :: NamedIntrinsic where
  "NI_Vector128_ShiftRightArithmetic \<equiv> NI InstructionSet_Vector128 ''ShiftRightArithmetic''"

abbreviation NI_Vector256_ShiftRightArithmetic :: NamedIntrinsic where
  "NI_Vector256_ShiftRightArithmetic \<equiv> NI InstructionSet_Vector256 ''ShiftRightArithmetic''"

abbreviation NI_Vector128_op_RightShift :: NamedIntrinsic where
  "NI_Vector128_op_RightShift \<equiv> NI InstructionSet_Vector128 ''op_RightShift''"

abbreviation NI_Vector256_op_RightShift :: NamedIntrinsic where
  "NI_Vector256_op_RightShift \<equiv> NI InstructionSet_Vector256 ''op_RightShift''"

abbreviation NI_Vector128_ShiftRightLogical :: NamedIntrinsic where
  "NI_Vector128_ShiftRightLogical \<equiv> NI InstructionSet_Vector128 ''ShiftRightLogical''"

abbreviation NI_Vector256_ShiftRightLogical :: NamedIntrinsic where
  "NI_Vector256_ShiftRightLogical \<equiv> NI InstructionSet_Vector256 ''ShiftRightLogical''"

abbreviation NI_Vector128_op_UnsignedRightShift :: NamedIntrinsic where
  "NI_Vector128_op_UnsignedRightShift \<equiv> NI InstructionSet_Vector128 ''op_UnsignedRightShift''"

abbreviation NI_Vector256_op_UnsignedRightShift :: NamedIntrinsic where
  "NI_Vector256_op_UnsignedRightShift \<equiv> NI InstructionSet_Vector256 ''op_UnsignedRightShift''"

abbreviation NI_Vector128_Shuffle :: NamedIntrinsic where
  "NI_Vector128_Shuffle \<equiv> NI InstructionSet_Vector128 ''Shuffle''"

abbreviation NI_Vector256_Shuffle :: NamedIntrinsic where
  "NI_Vector256_Shuffle \<equiv> NI InstructionSet_Vector256 ''Shuffle''"

abbreviation NI_Vector128_Sqrt :: NamedIntrinsic where
  "NI_Vector128_Sqrt \<equiv> NI InstructionSet_Vector128 ''Sqrt''"

abbreviation NI_Vector256_Sqrt :: NamedIntrinsic where
  "NI_Vector256_Sqrt \<equiv> NI InstructionSet_Vector256 ''Sqrt''"

abbreviation NI_SSE_Store :: NamedIntrinsic where
  "NI_SSE_Store \<equiv> NI InstructionSet_SSE ''Store''"

abbreviation NI_SSE2_Store :: NamedIntrinsic where
  "NI_SSE2_Store \<equiv> NI InstructionSet_SSE2 ''Store''"

abbreviation NI_AVX_Store :: NamedIntrinsic where
  "NI_AVX_Store \<equiv> NI InstructionSet_AVX ''Store''"

abbreviation NI_AVX512F_Store :: NamedIntrinsic where
  "NI_AVX512F_Store \<equiv> NI InstructionSet_AVX512F ''Store''"

abbreviation NI_AVX512BW_Store :: NamedIntrinsic where
  "NI_AVX512BW_Store \<equiv> NI InstructionSet_AVX512BW ''Store''"

abbreviation NI_Vector128_Store :: NamedIntrinsic where
  "NI_Vector128_Store \<equiv> NI InstructionSet_Vector128 ''Store''"

abbreviation NI_Vector256_Store :: NamedIntrinsic where
  "NI_Vector256_Store \<equiv> NI InstructionSet_Vector256 ''Store''"

abbreviation NI_Vector512_Store :: NamedIntrinsic where
  "NI_Vector512_Store \<equiv> NI InstructionSet_Vector512 ''Store''"

abbreviation NI_Vector128_StoreUnsafe :: NamedIntrinsic where
  "NI_Vector128_StoreUnsafe \<equiv> NI InstructionSet_Vector128 ''StoreUnsafe''"

abbreviation NI_Vector256_StoreUnsafe :: NamedIntrinsic where
  "NI_Vector256_StoreUnsafe \<equiv> NI InstructionSet_Vector256 ''StoreUnsafe''"

abbreviation NI_Vector512_StoreUnsafe :: NamedIntrinsic where
  "NI_Vector512_StoreUnsafe \<equiv> NI InstructionSet_Vector512 ''StoreUnsafe''"

abbreviation NI_Vector128_StoreAligned :: NamedIntrinsic where
  "NI_Vector128_StoreAligned \<equiv> NI InstructionSet_Vector128 ''StoreAligned''"

abbreviation NI_Vector256_StoreAligned :: NamedIntrinsic where
  "NI_Vector256_StoreAligned \<equiv> NI InstructionSet_Vector256 ''StoreAligned''"

abbreviation NI_Vector512_StoreAligned :: NamedIntrinsic where
  "NI_Vector512_StoreAligned \<equiv> NI InstructionSet_Vector512 ''StoreAligned''"

abbreviation NI_Vector128_StoreAlignedNonTemporal :: NamedIntrinsic where
  "NI_Vector128_StoreAlignedNonTemporal \<equiv> NI InstructionSet_Vector128 ''StoreAlignedNonTemporal''"

abbreviation NI_Vector256_StoreAlignedNonTemporal :: NamedIntrinsic where
  "NI_Vector256_StoreAlignedNonTemporal \<equiv> NI InstructionSet_Vector256 ''StoreAlignedNonTemporal''"

abbreviation NI_Vector512_StoreAlignedNonTemporal :: NamedIntrinsic where
  "NI_Vector512_StoreAlignedNonTemporal \<equiv> NI InstructionSet_Vector512 ''StoreAlignedNonTemporal''"

abbreviation NI_Vector128_Sum :: NamedIntrinsic where
  "NI_Vector128_Sum \<equiv> NI InstructionSet_Vector128 ''Sum''"

abbreviation NI_Vector256_Sum :: NamedIntrinsic where
  "NI_Vector256_Sum \<equiv> NI InstructionSet_Vector256 ''Sum''"

abbreviation NI_Vector128_ToScalar :: NamedIntrinsic where
  "NI_Vector128_ToScalar \<equiv> NI InstructionSet_Vector128 ''ToScalar''"

abbreviation NI_Vector256_ToScalar :: NamedIntrinsic where
  "NI_Vector256_ToScalar \<equiv> NI InstructionSet_Vector256 ''ToScalar''"

abbreviation NI_Vector512_ToScalar :: NamedIntrinsic where
  "NI_Vector512_ToScalar \<equiv> NI InstructionSet_Vector512 ''ToScalar''"

abbreviation NI_Vector128_ToVector256Unsafe :: NamedIntrinsic where
  "NI_Vector128_ToVector256Unsafe \<equiv> NI InstructionSet_Vector128 ''ToVector256Unsafe''"

abbreviation NI_Vector256_GetUpper :: NamedIntrinsic where
  "NI_Vector256_GetUpper \<equiv> NI InstructionSet_Vector256 ''GetUpper''"

abbreviation NI_Vector512_GetUpper :: NamedIntrinsic where
  "NI_Vector512_GetUpper \<equiv> NI InstructionSet_Vector512 ''GetUpper''"

abbreviation NI_Vector256_ToVector512Unsafe :: NamedIntrinsic where
  "NI_Vector256_ToVector512Unsafe \<equiv> NI InstructionSet_Vector256 ''ToVector512Unsafe''"

abbreviation NI_Vector128_WidenLower :: NamedIntrinsic where
  "NI_Vector128_WidenLower \<equiv> NI InstructionSet_Vector128 ''WidenLower''"

abbreviation NI_Vector256_WidenLower :: NamedIntrinsic where
  "NI_Vector256_WidenLower \<equiv> NI InstructionSet_Vector256 ''WidenLower''"

abbreviation NI_Vector512_WidenLower :: NamedIntrinsic where
  "NI_Vector512_WidenLower \<equiv> NI InstructionSet_Vector512 ''WidenLower''"

abbreviation NI_Vector128_WidenUpper :: NamedIntrinsic where
  "NI_Vector128_WidenUpper \<equiv> NI InstructionSet_Vector128 ''WidenUpper''"

abbreviation NI_Vector256_WidenUpper :: NamedIntrinsic where
  "NI_Vector256_WidenUpper \<equiv> NI InstructionSet_Vector256 ''WidenUpper''"

abbreviation NI_Vector512_WidenUpper :: NamedIntrinsic where
  "NI_Vector512_WidenUpper \<equiv> NI InstructionSet_Vector512 ''WidenUpper''"

abbreviation NI_Vector128_WithElement :: NamedIntrinsic where
  "NI_Vector128_WithElement \<equiv> NI InstructionSet_Vector128 ''WithElement''"

abbreviation NI_Vector256_WithElement :: NamedIntrinsic where
  "NI_Vector256_WithElement \<equiv> NI InstructionSet_Vector256 ''WithElement''"

abbreviation NI_Vector512_WithElement :: NamedIntrinsic where
  "NI_Vector512_WithElement \<equiv> NI InstructionSet_Vector512 ''WithElement''"

abbreviation NI_Vector256_WithLower :: NamedIntrinsic where
  "NI_Vector256_WithLower \<equiv> NI InstructionSet_Vector256 ''WithLower''"

abbreviation NI_Vector256_WithUpper :: NamedIntrinsic where
  "NI_Vector256_WithUpper \<equiv> NI InstructionSet_Vector256 ''WithUpper''"

abbreviation NI_Vector512_WithLower :: NamedIntrinsic where
  "NI_Vector512_WithLower \<equiv> NI InstructionSet_Vector512 ''WithLower''"

abbreviation NI_Vector512_WithUpper :: NamedIntrinsic where
  "NI_Vector512_WithUpper \<equiv> NI InstructionSet_Vector512 ''WithUpper''"

abbreviation NI_Vector128_Xor :: NamedIntrinsic where
  "NI_Vector128_Xor \<equiv> NI InstructionSet_Vector128 ''Xor''"

abbreviation NI_Vector256_Xor :: NamedIntrinsic where
  "NI_Vector256_Xor \<equiv> NI InstructionSet_Vector256 ''Xor''"

abbreviation NI_Vector512_Xor :: NamedIntrinsic where
  "NI_Vector512_Xor \<equiv> NI InstructionSet_Vector512 ''Xor''"

abbreviation NI_Vector128_op_ExclusiveOr :: NamedIntrinsic where
  "NI_Vector128_op_ExclusiveOr \<equiv> NI InstructionSet_Vector128 ''op_ExclusiveOr''"

abbreviation NI_Vector256_op_ExclusiveOr :: NamedIntrinsic where
  "NI_Vector256_op_ExclusiveOr \<equiv> NI InstructionSet_Vector256 ''op_ExclusiveOr''"

abbreviation NI_Vector512_op_ExclusiveOr :: NamedIntrinsic where
  "NI_Vector512_op_ExclusiveOr \<equiv> NI InstructionSet_Vector512 ''op_ExclusiveOr''"

abbreviation NI_X86Base_Pause :: NamedIntrinsic where
  "NI_X86Base_Pause \<equiv> NI InstructionSet_X86Base ''Pause''"

abbreviation NI_X86Serialize_Serialize :: NamedIntrinsic where
  "NI_X86Serialize_Serialize \<equiv> NI InstructionSet_X86Serialize ''Serialize''"

abbreviation NI_X86Base_DivRem :: NamedIntrinsic where
  "NI_X86Base_DivRem \<equiv> NI InstructionSet_X86Base ''DivRem''"

abbreviation NI_X86Base_X64_DivRem :: NamedIntrinsic where
  "NI_X86Base_X64_DivRem \<equiv> NI InstructionSet_X86Base_X64 ''DivRem''"

abbreviation NI_SSE_CompareScalarGreaterThan :: NamedIntrinsic where
  "NI_SSE_CompareScalarGreaterThan \<equiv> NI InstructionSet_SSE ''CompareScalarGreaterThan''"

abbreviation NI_SSE_CompareScalarGreaterThanOrEqual :: NamedIntrinsic where
  "NI_SSE_CompareScalarGreaterThanOrEqual \<equiv> NI InstructionSet_SSE ''CompareScalarGreaterThanOrEqual''"

abbreviation NI_SSE_CompareScalarNotGreaterThan :: NamedIntrinsic where
  "NI_SSE_CompareScalarNotGreaterThan \<equiv> NI InstructionSet_SSE ''CompareScalarNotGreaterThan''"

abbreviation NI_SSE_CompareScalarNotGreaterThanOrEqual :: NamedIntrinsic where
  "NI_SSE_CompareScalarNotGreaterThanOrEqual \<equiv> NI InstructionSet_SSE ''CompareScalarNotGreaterThanOrEqual''"

abbreviation NI_SSE_MoveScalar :: NamedIntrinsic where
  "NI_SSE_MoveScalar \<equiv> NI InstructionSet_SSE ''MoveScalar''"

abbreviation NI_SSE_Prefetch0 :: NamedIntrinsic where
  "NI_SSE_Prefetch0 \<equiv> NI InstructionSet_SSE ''Prefetch0''"

abbreviation NI_SSE_Prefetch1 :: NamedIntrinsic where
  "NI_SSE_Prefetch1 \<equiv> NI InstructionSet_SSE ''Prefetch1''"

abbreviation NI_SSE_Prefetch2 :: NamedIntrinsic where
  "NI_SSE_Prefetch2 \<equiv> NI InstructionSet_SSE ''Prefetch2''"

abbreviation NI_SSE_PrefetchNonTemporal :: NamedIntrinsic where
  "NI_SSE_PrefetchNonTemporal \<equiv> NI InstructionSet_SSE ''PrefetchNonTemporal''"

abbreviation NI_SSE_StoreFence :: NamedIntrinsic where
  "NI_SSE_StoreFence \<equiv> NI InstructionSet_SSE ''StoreFence''"

abbreviation NI_SSE2_CompareScalarGreaterThan :: NamedIntrinsic where
  "NI_SSE2_CompareScalarGreaterThan \<equiv> NI InstructionSet_SSE2 ''CompareScalarGreaterThan''"

abbreviation NI_SSE2_CompareScalarGreaterThanOrEqual :: NamedIntrinsic where
  "NI_SSE2_CompareScalarGreaterThanOrEqual \<equiv> NI InstructionSet_SSE2 ''CompareScalarGreaterThanOrEqual''"

abbreviation NI_SSE2_CompareScalarNotGreaterThan :: NamedIntrinsic where
  "NI_SSE2_CompareScalarNotGreaterThan \<equiv> NI InstructionSet_SSE2 ''CompareScalarNotGreaterThan''"

abbreviation NI_SSE2_CompareScalarNotGreaterThanOrEqual :: NamedIntrinsic where
  "NI_SSE2_CompareScalarNotGreaterThanOrEqual \<equiv> NI InstructionSet_SSE2 ''CompareScalarNotGreaterThanOrEqual''"

abbreviation NI_SSE2_MoveScalar :: NamedIntrinsic where
  "NI_SSE2_MoveScalar \<equiv> NI InstructionSet_SSE2 ''MoveScalar''"

abbreviation NI_SSE2_LoadFence :: NamedIntrinsic where
  "NI_SSE2_LoadFence \<equiv> NI InstructionSet_SSE2 ''LoadFence''"

abbreviation NI_SSE2_MemoryFence :: NamedIntrinsic where
  "NI_SSE2_MemoryFence \<equiv> NI InstructionSet_SSE2 ''MemoryFence''"

abbreviation NI_SSE2_StoreNonTemporal :: NamedIntrinsic where
  "NI_SSE2_StoreNonTemporal \<equiv> NI InstructionSet_SSE2 ''StoreNonTemporal''"

abbreviation NI_AVX2_PermuteVar8x32 :: NamedIntrinsic where
  "NI_AVX2_PermuteVar8x32 \<equiv> NI InstructionSet_AVX2 ''PermuteVar8x32''"

abbreviation NI_BMI2_ZeroHighBits :: NamedIntrinsic where
  "NI_BMI2_ZeroHighBits \<equiv> NI InstructionSet_BMI2 ''ZeroHighBits''"

abbreviation NI_BMI2_X64_ZeroHighBits :: NamedIntrinsic where
  "NI_BMI2_X64_ZeroHighBits \<equiv> NI InstructionSet_BMI2_X64 ''ZeroHighBits''"

abbreviation NI_BMI1_BitFieldExtract :: NamedIntrinsic where
  "NI_BMI1_BitFieldExtract \<equiv> NI InstructionSet_BMI1 ''BitFieldExtract''"

abbreviation NI_BMI1_X64_BitFieldExtract :: NamedIntrinsic where
  "NI_BMI1_X64_BitFieldExtract \<equiv> NI InstructionSet_BMI1_X64 ''BitFieldExtract''"

text \<open>
  The per-intrinsic table (category and flags) is declared outside this file; it is a
  parameter. The source names one category, \<^verbatim>\<open>HW_Category_IMM\<close>;
  \<open>HW_Category_Other\<close> stands for every other one.
\<close>

datatype HWIntrinsicCategory = HW_Category_IMM | HW_Category_Other

record HWIntrinsicInfo =
  lookupCategory :: "NamedIntrinsic \<Rightarrow> HWIntrinsicCategory"
  HasFullRangeImm :: "NamedIntrinsic \<Rightarrow> bool"
  NoJmpTableImm :: "NamedIntrinsic \<Rightarrow> bool"
  IsMultiReg :: "NamedIntrinsic \<Rightarrow> bool"
  BaseTypeFromFirstArg :: "NamedIntrinsic \<Rightarrow> bool"
  lookupIval :: "NamedIntrinsic \<Rightarrow> bool \<Rightarrow> int"

text \<open>An \<^verbatim>\<open>assert(cond)\<close> aborts exactly in a checked build where \<open>cond\<close> is false.\<close>

definition assert_fails :: "build \<Rightarrow> bool \<Rightarrow> bool" where
  "assert_fails b cond \<longleftrightarrow> b = Debug \<and> \<not> cond"



text \<open>
  \<^verbatim>\<open>FloatComparisonMode\<close> has 32 values, the 32 case labels of the switch below;
  its \<^verbatim>\<open>default: unreached()\<close> has no value left to take.
\<close>

datatype (plugins only: code) FloatComparisonMode =
    OrderedEqualNonSignaling
  | UnorderedNonSignaling
  | UnorderedNotEqualNonSignaling
  | OrderedNonSignaling
  | UnorderedEqualNonSignaling
  | OrderedFalseNonSignaling
  | OrderedNotEqualNonSignaling
  | UnorderedTrueNonSignaling
  | OrderedEqualSignaling
  | UnorderedSignaling
  | UnorderedNotEqualSignaling
  | OrderedSignaling
  | UnorderedEqualSignaling
  | OrderedFalseSignaling
  | OrderedNotEqualSignaling
  | UnorderedTrueSignaling
  | OrderedLessThanSignaling
  | OrderedLessThanOrEqualSignaling
  | UnorderedNotLessThanSignaling
  | UnorderedNotLessThanOrEqualSignaling
  | UnorderedNotGreaterThanOrEqualSignaling
  | UnorderedNotGreaterThanSignaling
  | OrderedGreaterThanOrEqualSignaling
  | OrderedGreaterThanSignaling
  | OrderedLessThanNonSignaling
  | OrderedLessThanOrEqualNonSignaling
  | UnorderedNotLessThanNonSignaling
  | UnorderedNotLessThanOrEqualNonSignaling
  | UnorderedNotGreaterThanOrEqualNonSignaling
  | UnorderedNotGreaterThanNonSignaling
  | OrderedGreaterThanOrEqualNonSignaling
  | OrderedGreaterThanNonSignaling

fun lookupFloatComparisonModeForSwappedArgs :: "FloatComparisonMode \<Rightarrow> FloatComparisonMode" where
  "lookupFloatComparisonModeForSwappedArgs OrderedEqualNonSignaling = OrderedEqualNonSignaling"
| "lookupFloatComparisonModeForSwappedArgs UnorderedNonSignaling = UnorderedNonSignaling"
| "lookupFloatComparisonModeForSwappedArgs UnorderedNotEqualNonSignaling = UnorderedNotEqualNonSignaling"
| "lookupFloatComparisonModeForSwappedArgs OrderedNonSignaling = OrderedNonSignaling"
| "lookupFloatComparisonModeForSwappedArgs UnorderedEqualNonSignaling = UnorderedEqualNonSignaling"
| "lookupFloatComparisonModeForSwappedArgs OrderedFalseNonSignaling = OrderedFalseNonSignaling"
| "lookupFloatComparisonModeForSwappedArgs OrderedNotEqualNonSignaling = OrderedNotEqualNonSignaling"
| "lookupFloatComparisonModeForSwappedArgs UnorderedTrueNonSignaling = UnorderedTrueNonSignaling"
| "lookupFloatComparisonModeForSwappedArgs OrderedEqualSignaling = OrderedEqualSignaling"
| "lookupFloatComparisonModeForSwappedArgs UnorderedSignaling = UnorderedSignaling"
| "lookupFloatComparisonModeForSwappedArgs UnorderedNotEqualSignaling = UnorderedNotEqualSignaling"
| "lookupFloatComparisonModeForSwappedArgs OrderedSignaling = OrderedSignaling"
| "lookupFloatComparisonModeForSwappedArgs UnorderedEqualSignaling = UnorderedEqualSignaling"
| "lookupFloatComparisonModeForSwappedArgs OrderedFalseSignaling = OrderedFalseSignaling"
| "lookupFloatComparisonModeForSwappedArgs OrderedNotEqualSignaling = OrderedNotEqualSignaling"
| "lookupFloatComparisonModeForSwappedArgs UnorderedTrueSignaling = UnorderedTrueSignaling"
| "lookupFloatComparisonModeForSwappedArgs OrderedLessThanSignaling = OrderedGreaterThanSignaling"
| "lookupFloatComparisonModeForSwappedArgs OrderedLessThanOrEqualSignaling = OrderedGreaterThanOrEqualSignaling"
| "lookupFloatComparisonModeForSwappedArgs UnorderedNotLessThanSignaling = UnorderedNotGreaterThanSignaling"
| "lookupFloatComparisonModeForSwappedArgs UnorderedNotLessThanOrEqualSignaling = UnorderedNotGreaterThanOrEqualSignaling"
| "lookupFloatComparisonModeForSwappedArgs UnorderedNotGreaterThanOrEqualSignaling = UnorderedNotLessThanOrEqualSignaling"
| "lookupFloatComparisonModeForSwappedArgs UnorderedNotGreaterThanSignaling = UnorderedNotLessThanSignaling"
| "lookupFloatComparisonModeForSwappedArgs OrderedGreaterThanOrEqualSignaling = OrderedLessThanOrEqualSignaling"
| "lookupFloatComparisonModeForSwappedArgs OrderedGreaterThanSignaling = OrderedLessThanSignaling"
| "lookupFloatComparisonModeForSwappedArgs OrderedLessThanNonSignaling = OrderedGreaterThanNonSignaling"
| "lookupFloatComparisonModeForSwappedArgs OrderedLessThanOrEqualNonSignaling = OrderedGreaterThanOrEqualNonSignaling"
| "lookupFloatComparisonModeForSwappedArgs UnorderedNotLessThanNonSignaling = UnorderedNotGreaterThanNonSignaling"
| "lookupFloatComparisonModeForSwappedArgs UnorderedNotLessThanOrEqualNonSignaling = UnorderedNotGreaterThanOrEqualNonSignaling"
| "lookupFloatComparisonModeForSwappedArgs UnorderedNotGreaterThanOrEqualNonSignaling = UnorderedNotLessThanOrEqualNonSignaling"
| "lookupFloatComparisonModeForSwappedArgs UnorderedNotGreaterThanNonSignaling = UnorderedNotLessThanNonSignaling"
| "lookupFloatComparisonModeForSwappedArgs OrderedGreaterThanOrEqualNonSignaling = OrderedLessThanOrEqualNonSignaling"
| "lookupFloatComparisonModeForSwappedArgs OrderedGreaterThanNonSignaling = OrderedLessThanNonSignaling"

definition all_FloatComparisonModes :: "FloatComparisonMode list" where
  "all_FloatComparisonModes =
     [OrderedEqualNonSignaling,
      UnorderedNonSignaling,
      UnorderedNotEqualNonSignaling,
      OrderedNonSignaling,
      UnorderedEqualNonSignaling,
      OrderedFalseNonSignaling,
      OrderedNotEqualNonSignaling,
      UnorderedTrueNonSignaling,
      OrderedEqualSignaling,
      UnorderedSignaling,
      UnorderedNotEqualSignaling,
      OrderedSignaling,
      UnorderedEqualSignaling,
      OrderedFalseSignaling,
      OrderedNotEqualSignaling,
      UnorderedTrueSignaling,
      OrderedLessThanSignaling,
      OrderedLessThanOrEqualSignaling,
      UnorderedNotLessThanSignaling,
      UnorderedNotLessThanOrEqualSignaling,
      UnorderedNotGreaterThanOrEqualSignaling,
      UnorderedNotGreaterThanSignaling,
      OrderedGreaterThanOrEqualSignaling,
      OrderedGreaterThanSignaling,
      OrderedLessThanNonSignaling,
      OrderedLessThanOrEqualNonSignaling,
      UnorderedNotLessThanNonSignaling,
      UnorderedNotLessThanOrEqualNonSignaling,
      UnorderedNotGreaterThanOrEqualNonSignaling,
      UnorderedNotGreaterThanNonSignaling,
      OrderedGreaterThanOrEqualNonSignaling,
      OrderedGreaterThanNonSignaling]"

section \<open>Types and trees of the importer\<close>

text \<open>
  The two type enumerations, restricted to the values that the file names, plus the
  2- and 4-byte element kinds that the element-kind switches cover.
\<close>

datatype var_types =
    TYP_UNKNOWN | TYP_VOID
  | TYP_BYTE | TYP_UBYTE | TYP_SHORT | TYP_USHORT
  | TYP_INT | TYP_UINT | TYP_LONG | TYP_ULONG
  | TYP_FLOAT | TYP_DOUBLE
  | TYP_BYREF | TYP_STRUCT
  | TYP_SIMD8 | TYP_SIMD12 | TYP_SIMD16 | TYP_SIMD32 | TYP_SIMD64

datatype CorInfoType =
    CORINFO_TYPE_UNDEF
  | CORINFO_TYPE_BYTE | CORINFO_TYPE_UBYTE | CORINFO_TYPE_SHORT | CORINFO_TYPE_USHORT
  | CORINFO_TYPE_INT | CORINFO_TYPE_UINT | CORINFO_TYPE_LONG | CORINFO_TYPE_ULONG
  | CORINFO_TYPE_FLOAT | CORINFO_TYPE_DOUBLE

text \<open>
  Modelled from the spec: the type-classification macros and \<^verbatim>\<open>genTypeSize\<close> are
  declared outside this file. The spec fixes the element kinds as signed and unsigned
  integers of 1, 2, 4 and 8 bytes and 32- and 64-bit floating point, and the vector
  widths by their byte counts.
\<close>

definition varTypeIsFloating :: "var_types \<Rightarrow> bool" where
  "varTypeIsFloating t \<longleftrightarrow> t \<in> set [TYP_FLOAT, TYP_DOUBLE]"

definition varTypeIsIntegral :: "var_types \<Rightarrow> bool" where
  "varTypeIsIntegral t \<longleftrightarrow>
     t \<in> set [TYP_BYTE, TYP_UBYTE, TYP_SHORT, TYP_USHORT, TYP_INT, TYP_UINT, TYP_LONG, TYP_ULONG]"

definition varTypeIsArithmetic :: "var_types \<Rightarrow> bool" where
  "varTypeIsArithmetic t \<longleftrightarrow> varTypeIsIntegral t \<or> varTypeIsFloating t"

definition varTypeIsUnsigned :: "var_types \<Rightarrow> bool" where
  "varTypeIsUnsigned t \<longleftrightarrow> t \<in> set [TYP_UBYTE, TYP_USHORT, TYP_UINT, TYP_ULONG]"

definition varTypeIsByte :: "var_types \<Rightarrow> bool" where
  "varTypeIsByte t \<longleftrightarrow> t \<in> set [TYP_BYTE, TYP_UBYTE]"

definition varTypeIsLong :: "var_types \<Rightarrow> bool" where
  "varTypeIsLong t \<longleftrightarrow> t \<in> set [TYP_LONG, TYP_ULONG]"

definition varTypeIsSmallInt :: "var_types \<Rightarrow> bool" where
  "varTypeIsSmallInt t \<longleftrightarrow> t \<in> set [TYP_BYTE, TYP_UBYTE, TYP_SHORT, TYP_USHORT]"

definition varTypeIsStruct :: "var_types \<Rightarrow> bool" where
  "varTypeIsStruct t \<longleftrightarrow>
     t \<in> set [TYP_STRUCT, TYP_SIMD8, TYP_SIMD12, TYP_SIMD16, TYP_SIMD32, TYP_SIMD64]"

definition genTypeSize :: "var_types \<Rightarrow> nat" where
  "genTypeSize t =
     (case t of
        TYP_BYTE \<Rightarrow> 1 | TYP_UBYTE \<Rightarrow> 1
      | TYP_SHORT \<Rightarrow> 2 | TYP_USHORT \<Rightarrow> 2
      | TYP_INT \<Rightarrow> 4 | TYP_UINT \<Rightarrow> 4 | TYP_FLOAT \<Rightarrow> 4
      | TYP_LONG \<Rightarrow> 8 | TYP_ULONG \<Rightarrow> 8 | TYP_DOUBLE \<Rightarrow> 8
      | TYP_SIMD8 \<Rightarrow> 8 | TYP_SIMD12 \<Rightarrow> 12 | TYP_SIMD16 \<Rightarrow> 16
      | TYP_SIMD32 \<Rightarrow> 32 | TYP_SIMD64 \<Rightarrow> 64
      | _ \<Rightarrow> 0)"

text \<open>
  Modelled from the spec: \<^verbatim>\<open>getSIMDTypeForSize\<close> is declared outside this file; it
  names the vector type of a byte width and has no answer for any other size.
\<close>

definition getSIMDTypeForSize :: "nat \<Rightarrow> error + var_types" where
  "getSIMDTypeForSize sz =
     (if sz = 8 then Inr TYP_SIMD8
      else if sz = 12 then Inr TYP_SIMD12
      else if sz = 16 then Inr TYP_SIMD16
      else if sz = 32 then Inr TYP_SIMD32
      else if sz = 64 then Inr TYP_SIMD64
      else Inl (AssertFailed ''Unexpected size for SIMD type''))"

text \<open>
  Modelled from the spec: \<^verbatim>\<open>getSIMDVectorLength\<close> is declared outside this file;
  the lane count is the width divided by the element size. The division traps on an
  element size of zero.
\<close>

definition getSIMDVectorLength :: "nat \<Rightarrow> var_types \<Rightarrow> error + nat" where
  "getSIMDVectorLength simdSize baseType =
     (if genTypeSize baseType = 0 then Inl DivideByZero
      else Inr (simdSize div genTypeSize baseType))"

datatype genTreeOps =
    GT_ADD | GT_SUB | GT_MUL | GT_DIV
  | GT_AND | GT_OR | GT_XOR | GT_AND_NOT | GT_NOT | GT_NEG
  | GT_LSH | GT_RSH | GT_RSZ
  | GT_EQ | GT_NE | GT_LT | GT_LE | GT_GT | GT_GE
  | GT_IND

text \<open>
  The node constructors \<^verbatim>\<open>gtNewSimd...Node\<close> are defined outside this file, and the
  file never looks inside what they return. A constructed node is the record of the
  call that made it: which constructor, the node type, the operands, the element kind
  and the width.
\<close>

datatype simd_builder =
    SimdAbs | SimdBinOp genTreeOps | SimdCeil
  | SimdCmpOp genTreeOps | SimdCmpOpAll genTreeOps | SimdCmpOpAny genTreeOps
  | SimdCndSel | SimdCreateBroadcast | SimdCreateScalar | SimdCreateScalarUnsafe
  | SimdDotProd | SimdFloor | SimdGetElement | SimdGetLower | SimdGetUpper
  | SimdLoad | SimdLoadAligned | SimdLoadNonTemporal
  | SimdMax | SimdMin | SimdNarrow | SimdShuffle | SimdSqrt
  | SimdStore | SimdStoreAligned | SimdStoreNonTemporal
  | SimdSum | SimdUnOp genTreeOps | SimdWidenLower | SimdWidenUpper
  | SimdWithElement | SimdWithLower | SimdWithUpper
  | ZeroCon | OneCon var_types | AllBitsSetCon
  | CreateAddress var_types

text \<open>
  A tree is an integer constant (its 64-bit value), a floating constant (the bit
  pattern of its double), a vector constant (the 64 bytes of \<^verbatim>\<open>gtSimdVal\<close>, lowest
  address first), a local variable, a cast, any other tree that the importer has pushed
  (identified by a number), or a node built here. The first component is the node type.
\<close>

datatype GenTree =
    GT_CNS_INT var_types "64 word"
  | GT_CNS_DBL var_types "64 word"
  | GT_CNS_VEC var_types "8 word list"
  | GT_LCL_VAR var_types nat
  | GT_CAST var_types GenTree
  | GT_OTHER var_types nat
  | GT_OPER genTreeOps var_types "GenTree list"
  | GT_SIMD simd_builder var_types "GenTree list" CorInfoType nat
  | GT_HWINTRINSIC var_types "GenTree list" NamedIntrinsic CorInfoType nat CorInfoType

fun TypeGet :: "GenTree \<Rightarrow> var_types" where
  "TypeGet (GT_CNS_INT ty v) = ty"
| "TypeGet (GT_CNS_DBL ty v) = ty"
| "TypeGet (GT_CNS_VEC ty v) = ty"
| "TypeGet (GT_LCL_VAR ty n) = ty"
| "TypeGet (GT_CAST ty t) = ty"
| "TypeGet (GT_OTHER ty n) = ty"
| "TypeGet (GT_OPER oper ty ops) = ty"
| "TypeGet (GT_SIMD k ty ops bt sz) = ty"
| "TypeGet (GT_HWINTRINSIC ty ops ni bt sz aux) = ty"

fun IsIntegralConst :: "GenTree \<Rightarrow> bool" where
  "IsIntegralConst (GT_CNS_INT ty v) = True"
| "IsIntegralConst t = False"

fun IsCnsFltOrDbl :: "GenTree \<Rightarrow> bool" where
  "IsCnsFltOrDbl (GT_CNS_DBL ty v) = True"
| "IsCnsFltOrDbl t = False"

fun IsCnsVec :: "GenTree \<Rightarrow> bool" where
  "IsCnsVec (GT_CNS_VEC ty v) = True"
| "IsCnsVec t = False"

definition IsVectorConst :: "GenTree \<Rightarrow> bool" where
  "IsVectorConst t = IsCnsVec t"

fun OperIsConst :: "GenTree \<Rightarrow> bool" where
  "OperIsConst (GT_CNS_INT ty v) = True"
| "OperIsConst (GT_CNS_DBL ty v) = True"
| "OperIsConst (GT_CNS_VEC ty v) = True"
| "OperIsConst t = False"

text \<open>
  The checked downcasts \<^verbatim>\<open>AsIntCon()\<close>, \<^verbatim>\<open>AsIntConCommon()\<close>, \<^verbatim>\<open>AsDblCon()\<close> and
  \<^verbatim>\<open>AsVecCon()\<close> followed by the read of the constant. On a node of another kind the
  cast is an error.
\<close>

fun IntegralValue :: "GenTree \<Rightarrow> error + 64 word" where
  "IntegralValue (GT_CNS_INT ty v) = Inr v"
| "IntegralValue t = Inl BadNodeCast"

fun IconValue :: "GenTree \<Rightarrow> error + 64 word" where
  "IconValue (GT_CNS_INT ty v) = Inr v"
| "IconValue t = Inl BadNodeCast"

fun DconValue :: "GenTree \<Rightarrow> error + 64 word" where
  "DconValue (GT_CNS_DBL ty v) = Inr v"
| "DconValue t = Inl BadNodeCast"

fun gtSimdVal :: "GenTree \<Rightarrow> error + 8 word list" where
  "gtSimdVal (GT_CNS_VEC ty v) = Inr v"
| "gtSimdVal t = Inl BadNodeCast"

text \<open>
  \<^verbatim>\<open>op->OperIs(GT_CAST) && op->gtGetOp1()->TypeIs(TYP_BYREF)\<close>, and the operand that
  replaces the cast when the test holds.
\<close>

fun IsCastOfByref :: "GenTree \<Rightarrow> bool" where
  "IsCastOfByref (GT_CAST ty t) = (TypeGet t = TYP_BYREF)"
| "IsCastOfByref t = False"

fun gtGetOp1 :: "GenTree \<Rightarrow> GenTree" where
  "gtGetOp1 (GT_CAST ty t) = t"
| "gtGetOp1 t = t"

definition throwAwayCast :: "GenTree \<Rightarrow> GenTree" where
  "throwAwayCast op = (if IsCastOfByref op then gtGetOp1 op else op)"

subsection \<open>Node constructors\<close>

definition gtNewIconNode :: "64 word \<Rightarrow> var_types \<Rightarrow> GenTree" where
  "gtNewIconNode v ty = GT_CNS_INT ty v"

definition gtNewOperNode1 :: "genTreeOps \<Rightarrow> var_types \<Rightarrow> GenTree \<Rightarrow> GenTree" where
  "gtNewOperNode1 oper ty op1 = GT_OPER oper ty [op1]"

definition gtNewOperNode :: "genTreeOps \<Rightarrow> var_types \<Rightarrow> GenTree \<Rightarrow> GenTree \<Rightarrow> GenTree" where
  "gtNewOperNode oper ty op1 op2 = GT_OPER oper ty [op1, op2]"

definition gtNewZeroConNode :: "var_types \<Rightarrow> GenTree" where
  "gtNewZeroConNode ty = GT_SIMD ZeroCon ty [] CORINFO_TYPE_UNDEF 0"

definition gtNewOneConNode :: "var_types \<Rightarrow> var_types \<Rightarrow> GenTree" where
  "gtNewOneConNode ty simdBaseType = GT_SIMD (OneCon simdBaseType) ty [] CORINFO_TYPE_UNDEF 0"

definition gtNewAllBitsSetConNode :: "var_types \<Rightarrow> GenTree" where
  "gtNewAllBitsSetConNode ty = GT_SIMD AllBitsSetCon ty [] CORINFO_TYPE_UNDEF 0"

text \<open>\<^verbatim>\<open>gtNewVconNode\<close> makes a vector constant whose 64 bytes are zero.\<close>

definition gtNewVconNode :: "var_types \<Rightarrow> GenTree" where
  "gtNewVconNode ty = GT_CNS_VEC ty (replicate 64 0)"

definition gtNewSimdNode1 ::
  "simd_builder \<Rightarrow> var_types \<Rightarrow> GenTree \<Rightarrow> CorInfoType \<Rightarrow> nat \<Rightarrow> GenTree" where
  "gtNewSimdNode1 k ty op1 simdBaseJitType simdSize = GT_SIMD k ty [op1] simdBaseJitType simdSize"

definition gtNewSimdNode2 ::
  "simd_builder \<Rightarrow> var_types \<Rightarrow> GenTree \<Rightarrow> GenTree \<Rightarrow> CorInfoType \<Rightarrow> nat \<Rightarrow> GenTree" where
  "gtNewSimdNode2 k ty op1 op2 simdBaseJitType simdSize =
     GT_SIMD k ty [op1, op2] simdBaseJitType simdSize"

definition gtNewSimdNode3 ::
  "simd_builder \<Rightarrow> var_types \<Rightarrow> GenTree \<Rightarrow> GenTree \<Rightarrow> GenTree \<Rightarrow> CorInfoType \<Rightarrow> nat
   \<Rightarrow> GenTree" where
  "gtNewSimdNode3 k ty op1 op2 op3 simdBaseJitType simdSize =
     GT_SIMD k ty [op1, op2, op3] simdBaseJitType simdSize"

abbreviation "gtNewSimdAbsNode \<equiv> gtNewSimdNode1 SimdAbs"
abbreviation "gtNewSimdBinOpNode oper \<equiv> gtNewSimdNode2 (SimdBinOp oper)"
abbreviation "gtNewSimdCeilNode \<equiv> gtNewSimdNode1 SimdCeil"
abbreviation "gtNewSimdCmpOpNode oper \<equiv> gtNewSimdNode2 (SimdCmpOp oper)"
abbreviation "gtNewSimdCmpOpAllNode oper \<equiv> gtNewSimdNode2 (SimdCmpOpAll oper)"
abbreviation "gtNewSimdCmpOpAnyNode oper \<equiv> gtNewSimdNode2 (SimdCmpOpAny oper)"
abbreviation "gtNewSimdCndSelNode \<equiv> gtNewSimdNode3 SimdCndSel"
abbreviation "gtNewSimdCreateBroadcastNode \<equiv> gtNewSimdNode1 SimdCreateBroadcast"
abbreviation "gtNewSimdCreateScalarNode \<equiv> gtNewSimdNode1 SimdCreateScalar"
abbreviation "gtNewSimdCreateScalarUnsafeNode \<equiv> gtNewSimdNode1 SimdCreateScalarUnsafe"
abbreviation "gtNewSimdDotProdNode \<equiv> gtNewSimdNode2 SimdDotProd"
abbreviation "gtNewSimdFloorNode \<equiv> gtNewSimdNode1 SimdFloor"
abbreviation "gtNewSimdGetElementNode \<equiv> gtNewSimdNode2 SimdGetElement"
abbreviation "gtNewSimdGetLowerNode \<equiv> gtNewSimdNode1 SimdGetLower"
abbreviation "gtNewSimdGetUpperNode \<equiv> gtNewSimdNode1 SimdGetUpper"
abbreviation "gtNewSimdLoadNode \<equiv> gtNewSimdNode1 SimdLoad"
abbreviation "gtNewSimdLoadAlignedNode \<equiv> gtNewSimdNode1 SimdLoadAligned"
abbreviation "gtNewSimdLoadNonTemporalNode \<equiv> gtNewSimdNode1 SimdLoadNonTemporal"
abbreviation "gtNewSimdMaxNode \<equiv> gtNewSimdNode2 SimdMax"
abbreviation "gtNewSimdMinNode \<equiv> gtNewSimdNode2 SimdMin"
abbreviation "gtNewSimdNarrowNode \<equiv> gtNewSimdNode2 SimdNarrow"
abbreviation "gtNewSimdShuffleNode \<equiv> gtNewSimdNode2 SimdShuffle"
abbreviation "gtNewSimdSqrtNode \<equiv> gtNewSimdNode1 SimdSqrt"
abbreviation "gtNewSimdStoreNode \<equiv> gtNewSimdNode2 SimdStore TYP_VOID"
abbreviation "gtNewSimdStoreAlignedNode \<equiv> gtNewSimdNode2 SimdStoreAligned TYP_VOID"
abbreviation "gtNewSimdStoreNonTemporalNode \<equiv> gtNewSimdNode2 SimdStoreNonTemporal TYP_VOID"
abbreviation "gtNewSimdSumNode \<equiv> gtNewSimdNode1 SimdSum"
abbreviation "gtNewSimdUnOpNode oper \<equiv> gtNewSimdNode1 (SimdUnOp oper)"
abbreviation "gtNewSimdWidenLowerNode \<equiv> gtNewSimdNode1 SimdWidenLower"
abbreviation "gtNewSimdWidenUpperNode \<equiv> gtNewSimdNode1 SimdWidenUpper"
abbreviation "gtNewSimdWithElementNode \<equiv> gtNewSimdNode3 SimdWithElement"
abbreviation "gtNewSimdWithLowerNode \<equiv> gtNewSimdNode2 SimdWithLower"
abbreviation "gtNewSimdWithUpperNode \<equiv> gtNewSimdNode2 SimdWithUpper"

text \<open>
  \<^verbatim>\<open>gtNewSimdHWIntrinsicNode\<close> and \<^verbatim>\<open>gtNewScalarHWIntrinsicNode\<close>, by operand list.
  The last component is the auxiliary element kind that only the gather case sets.
\<close>

definition gtNewSimdHWIntrinsicNode ::
  "var_types \<Rightarrow> GenTree list \<Rightarrow> NamedIntrinsic \<Rightarrow> CorInfoType \<Rightarrow> nat \<Rightarrow> GenTree" where
  "gtNewSimdHWIntrinsicNode ty ops hwIntrinsicID simdBaseJitType simdSize =
     GT_HWINTRINSIC ty ops hwIntrinsicID simdBaseJitType simdSize CORINFO_TYPE_UNDEF"

definition gtNewScalarHWIntrinsicNode ::
  "var_types \<Rightarrow> GenTree list \<Rightarrow> NamedIntrinsic \<Rightarrow> GenTree" where
  "gtNewScalarHWIntrinsicNode ty ops hwIntrinsicID =
     GT_HWINTRINSIC ty ops hwIntrinsicID CORINFO_TYPE_UNDEF 0 CORINFO_TYPE_UNDEF"

definition SetSimdBaseJitType :: "CorInfoType \<Rightarrow> GenTree \<Rightarrow> GenTree" where
  "SetSimdBaseJitType bt t =
     (case t of GT_HWINTRINSIC ty ops ni bt0 sz aux \<Rightarrow> GT_HWINTRINSIC ty ops ni bt sz aux
      | _ \<Rightarrow> t)"

definition SetAuxiliaryJitType :: "CorInfoType \<Rightarrow> GenTree \<Rightarrow> GenTree" where
  "SetAuxiliaryJitType aux t =
     (case t of GT_HWINTRINSIC ty ops ni bt sz aux0 \<Rightarrow> GT_HWINTRINSIC ty ops ni bt sz aux
      | _ \<Rightarrow> t)"

subsection \<open>The bytes of a vector constant\<close>

text \<open>
  \<^verbatim>\<open>gtSimdVal\<close> is a union of the arrays \<^verbatim>\<open>u8[64]\<close>, \<^verbatim>\<open>u16[32]\<close>, \<^verbatim>\<open>u32[16]\<close>,
  \<^verbatim>\<open>u64[8]\<close>, \<^verbatim>\<open>f32[16]\<close> and \<^verbatim>\<open>f64[8]\<close> over the same 64 bytes. The target is
  little-endian: element \<open>i\<close> of an array of \<open>n\<close>-byte elements is the bytes
  \<open>n * i\<close> to \<open>n * i + n - 1\<close>, least significant first. A floating element is its
  bit pattern. A store past the 64 bytes is an error.
\<close>

definition word_bytes :: "nat \<Rightarrow> 'a::len word \<Rightarrow> 8 word list" where
  "word_bytes n w = map (\<lambda>k. ucast (drop_bit (8 * k) w)) [0..<n]"

definition bytes_word :: "8 word list \<Rightarrow> 'a::len word" where
  "bytes_word bs = word_rcat (rev bs)"

definition store_bytes :: "nat \<Rightarrow> 8 word list \<Rightarrow> 8 word list \<Rightarrow> error + 8 word list" where
  "store_bytes off bs mem =
     (if off + length bs \<le> length mem
      then Inr (map (\<lambda>k. if off \<le> k \<and> k < off + length bs then bs ! (k - off) else mem ! k)
                 [0..<length mem])
      else Inl OutOfBounds)"

definition load_bytes :: "nat \<Rightarrow> nat \<Rightarrow> 8 word list \<Rightarrow> 8 word list" where
  "load_bytes off n mem = take n (drop off mem)"

definition set_u8 :: "nat \<Rightarrow> 8 word \<Rightarrow> 8 word list \<Rightarrow> error + 8 word list" where
  "set_u8 i v mem = store_bytes i (word_bytes 1 v) mem"

definition set_u16 :: "nat \<Rightarrow> 16 word \<Rightarrow> 8 word list \<Rightarrow> error + 8 word list" where
  "set_u16 i v mem = store_bytes (2 * i) (word_bytes 2 v) mem"

definition set_u32 :: "nat \<Rightarrow> 32 word \<Rightarrow> 8 word list \<Rightarrow> error + 8 word list" where
  "set_u32 i v mem = store_bytes (4 * i) (word_bytes 4 v) mem"

definition set_u64 :: "nat \<Rightarrow> 64 word \<Rightarrow> 8 word list \<Rightarrow> error + 8 word list" where
  "set_u64 i v mem = store_bytes (8 * i) (word_bytes 8 v) mem"

abbreviation "set_f32 \<equiv> set_u32"
abbreviation "set_f64 \<equiv> set_u64"

definition get_u8 :: "8 word list \<Rightarrow> nat \<Rightarrow> 8 word" where
  "get_u8 mem i = bytes_word (load_bytes i 1 mem)"

definition get_u16 :: "8 word list \<Rightarrow> nat \<Rightarrow> 16 word" where
  "get_u16 mem i = bytes_word (load_bytes (2 * i) 2 mem)"

definition get_u32 :: "8 word list \<Rightarrow> nat \<Rightarrow> 32 word" where
  "get_u32 mem i = bytes_word (load_bytes (4 * i) 4 mem)"

definition get_u64 :: "8 word list \<Rightarrow> nat \<Rightarrow> 64 word" where
  "get_u64 mem i = bytes_word (load_bytes (8 * i) 8 mem)"

abbreviation "get_f32 \<equiv> get_u32"
abbreviation "get_f64 \<equiv> get_u64"

text \<open>
  The lane index \<^verbatim>\<open>simdLength - 1 - index\<close> is computed in \<^verbatim>\<open>uint32_t\<close> and wraps.
\<close>

definition lane_index :: "nat \<Rightarrow> nat \<Rightarrow> nat" where
  "lane_index simdLength index = unat ((word_of_nat simdLength :: 32 word) - 1 - word_of_nat index)"

text \<open>
  \<^verbatim>\<open>esStackDepth - n\<close> is computed in \<^verbatim>\<open>unsigned\<close> and wraps.
\<close>

definition depth_minus :: "nat \<Rightarrow> nat \<Rightarrow> nat" where
  "depth_minus depth n = unat ((word_of_nat depth :: 32 word) - word_of_nat n)"

section \<open>The importer state and its collaborators\<close>

type_synonym CORINFO_CLASS_HANDLE = nat
type_synonym CORINFO_METHOD_HANDLE = nat
type_synonym CORINFO_ARG_LIST_HANDLE = nat

definition NO_CLASS_HANDLE :: CORINFO_CLASS_HANDLE where
  "NO_CLASS_HANDLE = 0"

record CORINFO_SIG_INFO =
  numArgs :: nat
  sigRetType :: CorInfoType
  retTypeClass :: CORINFO_CLASS_HANDLE
  retTypeSigClass :: CORINFO_CLASS_HANDLE
  sigArgs :: CORINFO_ARG_LIST_HANDLE

text \<open>
  The state that the expansion reads and writes: the expression stack
  (\<^verbatim>\<open>verCurrentState.esStack\<close>, entry 0 at the bottom, \<^verbatim>\<open>esStackDepth\<close> its
  length), the statements appended by spills (a temporary and the tree stored to it),
  the number of the next temporary, and the operands that
  \<^verbatim>\<open>SetOpLclRelatedToSIMDIntrinsic\<close> has marked.
\<close>

record ImportState =
  esStack :: "GenTree list"
  impStmtList :: "(nat \<times> GenTree) list"
  lvaCount :: nat
  lvSIMDRelated :: "GenTree list"

abbreviation esStackDepth :: "ImportState \<Rightarrow> nat" where
  "esStackDepth s \<equiv> length (esStack s)"

text \<open>
  What the compiler instance supplies and this file only consults: the build flavour,
  the target, the capability oracle, the per-intrinsic table, the type conversions,
  the signature queries of the execution engine, and the tree predicates that decide
  spilling, cloning and contiguity. All of it is declared outside this file and is a
  parameter here.
\<close>

record Compiler =
  build :: build
  TARGET_X86 :: bool
  compExactlyDependsOn :: "CORINFO_InstructionSet \<Rightarrow> bool"
  compOpportunisticallyDependsOn :: "CORINFO_InstructionSet \<Rightarrow> bool"
  compIsaSupportedDebugOnly :: "CORINFO_InstructionSet \<Rightarrow> bool"
  IsBaselineVector512IsaSupported :: bool
  IsBaselineVector512IsaSupportedDebugOnly :: bool
  getSIMDVectorRegisterByteLength :: nat
  hwInfo :: HWIntrinsicInfo
  JitType2PreciseVarType :: "CorInfoType \<Rightarrow> var_types"
  JITtype2varType :: "CorInfoType \<Rightarrow> var_types"
  getArgNext :: "CORINFO_ARG_LIST_HANDLE \<Rightarrow> CORINFO_ARG_LIST_HANDLE"
  getArgType :: "CORINFO_SIG_INFO \<Rightarrow> CORINFO_ARG_LIST_HANDLE \<Rightarrow> CorInfoType \<times> CORINFO_CLASS_HANDLE"
  getArgClass :: "CORINFO_SIG_INFO \<Rightarrow> CORINFO_ARG_LIST_HANDLE \<Rightarrow> CORINFO_CLASS_HANDLE"
  getBaseJitTypeAndSizeOfSIMDType :: "CORINFO_CLASS_HANDLE \<Rightarrow> CorInfoType \<times> nat"
  getSIMDTypeSizeInBytes :: "CORINFO_CLASS_HANDLE \<Rightarrow> nat"
  static_cast_float :: "64 word \<Rightarrow> 32 word"
  GetIntegralVectorConstElement :: "GenTree \<Rightarrow> nat \<Rightarrow> var_types \<Rightarrow> 64 word"
  areArgumentsContiguous :: "GenTree \<Rightarrow> GenTree \<Rightarrow> bool"
  gtHasSpillableEffects :: "bool \<Rightarrow> GenTree \<Rightarrow> bool"
  gtIsCloneable :: "GenTree \<Rightarrow> bool"

definition getBaseJitTypeOfSIMDType :: "Compiler \<Rightarrow> CORINFO_CLASS_HANDLE \<Rightarrow> CorInfoType" where
  "getBaseJitTypeOfSIMDType jit cls = fst (getBaseJitTypeAndSizeOfSIMDType jit cls)"

definition XMM_REGSIZE_BYTES :: nat where
  "XMM_REGSIZE_BYTES = 16"

definition YMM_REGSIZE_BYTES :: nat where
  "YMM_REGSIZE_BYTES = 32"

definition CreateAddressNodeForSimdHWIntrinsicCreate ::
  "GenTree \<Rightarrow> var_types \<Rightarrow> nat \<Rightarrow> GenTree" where
  "CreateAddressNodeForSimdHWIntrinsicCreate tree simdBaseType simdSize =
     GT_SIMD (CreateAddress simdBaseType) TYP_BYREF [tree] CORINFO_TYPE_UNDEF simdSize"

subsection \<open>Steps that read or change the state, and may fail\<close>

type_synonym 'a imp = "ImportState \<Rightarrow> error + ('a \<times> ImportState)"

definition returnI :: "'a \<Rightarrow> 'a imp" where
  "returnI x = (\<lambda>s. Inr (x, s))"

definition failI :: "error \<Rightarrow> 'a imp" where
  "failI e = (\<lambda>s. Inl e)"

definition bindI :: "'a imp \<Rightarrow> ('a \<Rightarrow> 'b imp) \<Rightarrow> 'b imp" where
  "bindI m f = (\<lambda>s. case m s of Inl e \<Rightarrow> Inl e | Inr (x, s') \<Rightarrow> f x s')"

definition liftE :: "error + 'a \<Rightarrow> 'a imp" where
  "liftE r = (\<lambda>s. case r of Inl e \<Rightarrow> Inl e | Inr x \<Rightarrow> Inr (x, s))"

text \<open>\<^verbatim>\<open>assert(cond)\<close> followed by the rest of the block.\<close>

definition assertI :: "Compiler \<Rightarrow> bool \<Rightarrow> string \<Rightarrow> 'a imp \<Rightarrow> 'a imp" where
  "assertI jit cond msg rest =
     (if assert_fails (build jit) cond then failI (AssertFailed msg) else rest)"

text \<open>
  Modelled from the spec: the expression stack is an external collaborator with the
  operations \<^verbatim>\<open>pop()\<close>, \<^verbatim>\<open>peek(depthFromTop)\<close>, \<^verbatim>\<open>popTypedVector(shape)\<close>,
  \<^verbatim>\<open>forceSideEffectsToTemporary\<close> and \<^verbatim>\<open>duplicateExpression\<close>; their bodies
  (\<^verbatim>\<open>impPopStack\<close>, \<^verbatim>\<open>impStackTop\<close>, \<^verbatim>\<open>impSIMDPopStack\<close>,
  \<^verbatim>\<open>impSpillSideEffect\<close>, \<^verbatim>\<open>impCloneExpr\<close>) are not in this file. Popping or
  peeking below the bottom of the stack is the importer's stack-underflow failure.
\<close>

definition impPopStack :: "GenTree imp" where
  "impPopStack =
     (\<lambda>s. if esStack s = [] then Inl StackUnderflow
          else Inr (last (esStack s), s\<lparr>esStack := butlast (esStack s)\<rparr>))"

definition impStackTop :: "nat \<Rightarrow> GenTree imp" where
  "impStackTop n =
     (\<lambda>s. if esStackDepth s \<le> n then Inl StackUnderflow
          else Inr (esStack s ! (esStackDepth s - n - 1), s))"

definition impSIMDPopStack :: "var_types \<Rightarrow> GenTree imp" where
  "impSIMDPopStack ty = impPopStack"

text \<open>
  Modelled from the spec: \<^verbatim>\<open>getArgForHWIntrinsic\<close> is not in this file; it consumes
  the operand of one argument, a vector operand by \<^verbatim>\<open>impSIMDPopStack\<close> and any other
  by \<^verbatim>\<open>impPopStack\<close>.
\<close>

definition getArgForHWIntrinsic :: "var_types \<Rightarrow> CORINFO_CLASS_HANDLE \<Rightarrow> GenTree imp" where
  "getArgForHWIntrinsic argType argClass =
     (if varTypeIsStruct argType then impSIMDPopStack argType else impPopStack)"

text \<open>
  Spilling stack entry \<open>i\<close>: when the entry has effects to preserve, its tree is stored
  to a fresh temporary by an appended statement and the entry becomes a read of that
  temporary; otherwise nothing changes. An index outside the stack is an error.
\<close>

definition impSpillSideEffect :: "Compiler \<Rightarrow> bool \<Rightarrow> nat \<Rightarrow> unit imp" where
  "impSpillSideEffect jit spillGlobEffects i =
     (\<lambda>s. if esStackDepth s \<le> i then Inl OutOfBounds
          else if gtHasSpillableEffects jit spillGlobEffects (esStack s ! i) then
            Inr ((), s\<lparr>esStack := (esStack s)[i := GT_LCL_VAR (TypeGet (esStack s ! i)) (lvaCount s)],
                      impStmtList := impStmtList s @ [(lvaCount s, esStack s ! i)],
                      lvaCount := Suc (lvaCount s)\<rparr>)
          else Inr ((), s))"

text \<open>
  Duplicating an expression: a cloneable tree is used twice as it is; any other tree is
  stored to a fresh temporary and both uses read the temporary.
\<close>

definition impCloneExpr :: "Compiler \<Rightarrow> GenTree \<Rightarrow> (GenTree \<times> GenTree) imp" where
  "impCloneExpr jit tree =
     (\<lambda>s. if gtIsCloneable jit tree then Inr ((tree, tree), s)
          else Inr ((GT_LCL_VAR (TypeGet tree) (lvaCount s), GT_LCL_VAR (TypeGet tree) (lvaCount s)),
                    s\<lparr>impStmtList := impStmtList s @ [(lvaCount s, tree)],
                      lvaCount := Suc (lvaCount s)\<rparr>))"

text \<open>
  Modelled from the spec: \<^verbatim>\<open>impAssignMultiRegTypeToVar\<close> is not in this file; it
  stores a multi-register value to a fresh temporary and yields a read of it.
\<close>

definition impAssignMultiRegTypeToVar :: "GenTree \<Rightarrow> CORINFO_CLASS_HANDLE \<Rightarrow> GenTree imp" where
  "impAssignMultiRegTypeToVar op hClass =
     (\<lambda>s. Inr (GT_LCL_VAR (TypeGet op) (lvaCount s),
               s\<lparr>impStmtList := impStmtList s @ [(lvaCount s, op)],
                 lvaCount := Suc (lvaCount s)\<rparr>))"

definition SetOpLclRelatedToSIMDIntrinsic :: "GenTree \<Rightarrow> unit imp" where
  "SetOpLclRelatedToSIMDIntrinsic op =
     (\<lambda>s. Inr ((), s\<lparr>lvSIMDRelated := lvSIMDRelated s @ [op]\<rparr>))"

section \<open>The expansion engine\<close>

definition verCurrentState_esStackDepth :: "nat imp" where
  "verCurrentState_esStackDepth = (\<lambda>s. Inr (esStackDepth s, s))"

text \<open>
  \<^verbatim>\<open>impSIMDPopStack(type, expectAddr, structHandle)\<close> with its optional arguments
  written out; with \<open>expectAddr\<close> the popped address is wrapped in an indirection.
\<close>

definition impSIMDPopStackH ::
  "var_types \<Rightarrow> bool \<Rightarrow> CORINFO_CLASS_HANDLE \<Rightarrow> GenTree imp" where
  "impSIMDPopStackH ty expectAddr structHandle =
     bindI impPopStack (\<lambda>tree.
     returnI (if expectAddr then gtNewOperNode1 GT_IND ty tree else tree))"

text \<open>\<^verbatim>\<open>memcpy(&node->AsVecCon()->gtSimdVal, &simdVal, n)\<close>.\<close>

definition memcpy_gtSimdVal :: "GenTree \<Rightarrow> 8 word list \<Rightarrow> nat \<Rightarrow> GenTree" where
  "memcpy_gtSimdVal node simdVal n =
     (case node of GT_CNS_VEC ty v \<Rightarrow> GT_CNS_VEC ty (take n simdVal @ drop n v) | _ \<Rightarrow> node)"

subsection \<open>Non-constant immediate fallback\<close>


subsection \<open>Loops of the vector-construction case\<close>

text \<open>
  The two loops that decide \<^verbatim>\<open>isConstant\<close>: they look at the \<^verbatim>\<open>numArgs\<close> topmost
  entries, from the top, and stop at the first that is not a constant of the wanted
  kind. The predicate is \<open>IsCnsFltOrDbl\<close> in the floating loop and \<open>IsIntegralConst\<close>
  in the integral one.
\<close>

function isConstantLoop :: "(GenTree \<Rightarrow> bool) \<Rightarrow> nat \<Rightarrow> nat \<Rightarrow> bool imp" where
  "isConstantLoop isCns n index s =
     (if index < n then
        (case impStackTop index s of
           Inl e \<Rightarrow> Inl e
         | Inr (arg, s') \<Rightarrow>
             if \<not> isCns arg then Inr (False, s') else isConstantLoop isCns n (index + 1) s')
      else Inr (True, s))"
  by pat_completeness auto
termination
  by (relation "measure (\<lambda>(isCns, n, index, s). n - index)") auto

declare isConstantLoop.simps [simp del]
text \<open>
  The six folding loops. Each iteration pops one argument, converts its constant to the
  element type and stores it at lane \<^verbatim>\<open>simdLength - 1 - index\<close>. The loop variable
  \<open>cnsVal\<close> is the local declared before the loop; it is returned with the vector so that
  its final value can be stated.
\<close>

function foldLoop_u8 ::
  "nat \<Rightarrow> nat \<Rightarrow> 8 word \<Rightarrow> nat \<Rightarrow> 8 word list \<Rightarrow> (8 word \<times> 8 word list) imp" where
  "foldLoop_u8 n simdLength cnsVal index vec s =
     (if index < n then
        (case impPopStack s of
           Inl e \<Rightarrow> Inl e
         | Inr (arg, s') \<Rightarrow>
             (case IntegralValue arg of
                Inl e \<Rightarrow> Inl e
              | Inr v \<Rightarrow>
                  (case set_u8 (lane_index simdLength index) (ucast v) vec of
                     Inl e \<Rightarrow> Inl e
                   | Inr vec' \<Rightarrow> foldLoop_u8 n simdLength (ucast v) (index + 1) vec' s')))
      else Inr ((cnsVal, vec), s))"
  by pat_completeness auto
termination
  by (relation "measure (\<lambda>(n, simdLength, cnsVal, index, vec, s). n - index)") auto

declare foldLoop_u8.simps [simp del]
function foldLoop_u16 ::
  "nat \<Rightarrow> nat \<Rightarrow> 16 word \<Rightarrow> nat \<Rightarrow> 8 word list \<Rightarrow> (16 word \<times> 8 word list) imp" where
  "foldLoop_u16 n simdLength cnsVal index vec s =
     (if index < n then
        (case impPopStack s of
           Inl e \<Rightarrow> Inl e
         | Inr (arg, s') \<Rightarrow>
             (case IntegralValue arg of
                Inl e \<Rightarrow> Inl e
              | Inr v \<Rightarrow>
                  (case set_u16 (lane_index simdLength index) (ucast v) vec of
                     Inl e \<Rightarrow> Inl e
                   | Inr vec' \<Rightarrow> foldLoop_u16 n simdLength (ucast v) (index + 1) vec' s')))
      else Inr ((cnsVal, vec), s))"
  by pat_completeness auto
termination
  by (relation "measure (\<lambda>(n, simdLength, cnsVal, index, vec, s). n - index)") auto

declare foldLoop_u16.simps [simp del]
function foldLoop_u32 ::
  "nat \<Rightarrow> nat \<Rightarrow> 32 word \<Rightarrow> nat \<Rightarrow> 8 word list \<Rightarrow> (32 word \<times> 8 word list) imp" where
  "foldLoop_u32 n simdLength cnsVal index vec s =
     (if index < n then
        (case impPopStack s of
           Inl e \<Rightarrow> Inl e
         | Inr (arg, s') \<Rightarrow>
             (case IntegralValue arg of
                Inl e \<Rightarrow> Inl e
              | Inr v \<Rightarrow>
                  (case set_u32 (lane_index simdLength index) (ucast v) vec of
                     Inl e \<Rightarrow> Inl e
                   | Inr vec' \<Rightarrow> foldLoop_u32 n simdLength (ucast v) (index + 1) vec' s')))
      else Inr ((cnsVal, vec), s))"
  by pat_completeness auto
termination
  by (relation "measure (\<lambda>(n, simdLength, cnsVal, index, vec, s). n - index)") auto

declare foldLoop_u32.simps [simp del]
function foldLoop_u64 ::
  "nat \<Rightarrow> nat \<Rightarrow> 64 word \<Rightarrow> nat \<Rightarrow> 8 word list \<Rightarrow> (64 word \<times> 8 word list) imp" where
  "foldLoop_u64 n simdLength cnsVal index vec s =
     (if index < n then
        (case impPopStack s of
           Inl e \<Rightarrow> Inl e
         | Inr (arg, s') \<Rightarrow>
             (case IntegralValue arg of
                Inl e \<Rightarrow> Inl e
              | Inr v \<Rightarrow>
                  (case set_u64 (lane_index simdLength index) v vec of
                     Inl e \<Rightarrow> Inl e
                   | Inr vec' \<Rightarrow> foldLoop_u64 n simdLength v (index + 1) vec' s')))
      else Inr ((cnsVal, vec), s))"
  by pat_completeness auto
termination
  by (relation "measure (\<lambda>(n, simdLength, cnsVal, index, vec, s). n - index)") auto

declare foldLoop_u64.simps [simp del]
function foldLoop_f32 ::
  "Compiler \<Rightarrow> nat \<Rightarrow> nat \<Rightarrow> 32 word \<Rightarrow> nat \<Rightarrow> 8 word list \<Rightarrow> (32 word \<times> 8 word list) imp" where
  "foldLoop_f32 jit n simdLength cnsVal index vec s =
     (if index < n then
        (case impPopStack s of
           Inl e \<Rightarrow> Inl e
         | Inr (arg, s') \<Rightarrow>
             (case DconValue arg of
                Inl e \<Rightarrow> Inl e
              | Inr v \<Rightarrow>
                  (case set_f32 (lane_index simdLength index) (static_cast_float jit v) vec of
                     Inl e \<Rightarrow> Inl e
                   | Inr vec' \<Rightarrow>
                       foldLoop_f32 jit n simdLength (static_cast_float jit v) (index + 1) vec' s')))
      else Inr ((cnsVal, vec), s))"
  by pat_completeness auto
termination
  by (relation "measure (\<lambda>(jit, n, simdLength, cnsVal, index, vec, s). n - index)") auto

declare foldLoop_f32.simps [simp del]
text \<open>
  In the double loop the body declares its own \<^verbatim>\<open>double cnsVal\<close>, which hides the
  one declared before the loop: the stored value \<open>v\<close> is the inner variable, and the
  outer \<open>cnsVal\<close> is passed on unchanged. The cast of a double to \<^verbatim>\<open>double\<close> leaves
  the bit pattern as it is.
\<close>

function foldLoop_f64 ::
  "nat \<Rightarrow> nat \<Rightarrow> 64 word \<Rightarrow> nat \<Rightarrow> 8 word list \<Rightarrow> (64 word \<times> 8 word list) imp" where
  "foldLoop_f64 n simdLength cnsVal index vec s =
     (if index < n then
        (case impPopStack s of
           Inl e \<Rightarrow> Inl e
         | Inr (arg, s') \<Rightarrow>
             (case DconValue arg of
                Inl e \<Rightarrow> Inl e
              | Inr v \<Rightarrow>
                  (case set_f64 (lane_index simdLength index) v vec of
                     Inl e \<Rightarrow> Inl e
                   | Inr vec' \<Rightarrow> foldLoop_f64 n simdLength cnsVal (index + 1) vec' s')))
      else Inr ((cnsVal, vec), s))"
  by pat_completeness auto
termination
  by (relation "measure (\<lambda>(n, simdLength, cnsVal, index, vec, s). n - index)") auto

declare foldLoop_f64.simps [simp del]
text \<open>
  The loop that pops the arguments of a non-constant construction, for \<open>i\<close> from
  \<^verbatim>\<open>numArgs - 1\<close> down to 0; the first argument counts the iterations left, so the
  current \<open>i\<close> is one less. \<^verbatim>\<open>AddOperand(i, arg)\<close> with descending \<open>i\<close> fills the
  operand array from the back, so the list of operands grows at the front.
\<close>

fun popOperandsLoop ::
  "Compiler \<Rightarrow> nat \<Rightarrow> GenTree option \<Rightarrow> bool \<Rightarrow> GenTree list \<Rightarrow> (bool \<times> GenTree list) imp" where
  "popOperandsLoop jit 0 prevArg areArgsContiguous operands s =
     Inr ((areArgsContiguous, operands), s)"
| "popOperandsLoop jit (Suc i) prevArg areArgsContiguous operands s =
     (case impPopStack s of
        Inl e \<Rightarrow> Inl e
      | Inr (arg, s') \<Rightarrow>
          popOperandsLoop jit i
            (if areArgsContiguous then Some arg else prevArg)
            (if areArgsContiguous
             then (case prevArg of None \<Rightarrow> areArgsContiguous
                              | Some p \<Rightarrow> areArgumentsContiguous jit arg p)
             else areArgsContiguous)
            (arg # operands) s')"

subsection \<open>The lane-crossing test of the shuffle case\<close>

function crossLaneLoop :: "Compiler \<Rightarrow> GenTree \<Rightarrow> var_types \<Rightarrow> nat \<Rightarrow> nat \<Rightarrow> bool" where
  "crossLaneLoop jit indices simdBaseType elementCount index =
     (if index < elementCount then
        (let val = unat (GetIntegralVectorConstElement jit indices index simdBaseType) in
         if val \<ge> elementCount then
           crossLaneLoop jit indices simdBaseType elementCount (index + 1)
         else if index < elementCount div 2 then
           (if val \<ge> elementCount div 2 then True
            else crossLaneLoop jit indices simdBaseType elementCount (index + 1))
         else if val < elementCount div 2 then True
         else crossLaneLoop jit indices simdBaseType elementCount (index + 1))
      else False)"
  by pat_completeness auto
termination
  by (relation "measure (\<lambda>(jit, indices, simdBaseType, elementCount, index). elementCount - index)") auto

declare crossLaneLoop.simps [simp del]

subsection \<open>The cases of the dispatch\<close>

text \<open>
  One definition for each \<^verbatim>\<open>case\<close> block of the switch in
  \<^verbatim>\<open>impSpecialIntrinsic\<close>, named after the first label of the block. A block that
  ends in \<^verbatim>\<open>break\<close> with \<^verbatim>\<open>retNode\<close> still null, or returns
  \<^verbatim>\<open>nullptr\<close>, yields \<open>None\<close>. The blocks that call
  \<^verbatim>\<open>impSpecialIntrinsic\<close> again are written out in the function itself.
\<close>

definition imp_Vector128_Abs ::
  "Compiler \<Rightarrow> NamedIntrinsic \<Rightarrow> CORINFO_SIG_INFO \<Rightarrow> CorInfoType \<Rightarrow> var_types \<Rightarrow> nat
   \<Rightarrow> var_types \<Rightarrow> GenTree option imp" where
  "imp_Vector128_Abs jit intrinsic sig simdBaseJitType retType simdSize simdBaseType =
    (assertI jit (numArgs sig = 1) ''sig->numArgs == 1'' (
     if simdSize \<noteq> 32 \<or> varTypeIsFloating simdBaseType \<or> varTypeIsUnsigned simdBaseType
        \<or> compExactlyDependsOn jit InstructionSet_AVX2 then
       bindI (impSIMDPopStack retType) (\<lambda>op1.
       returnI (Some (gtNewSimdAbsNode retType op1 simdBaseJitType simdSize)))
     else returnI None))"

definition imp_Vector128_Add ::
  "Compiler \<Rightarrow> NamedIntrinsic \<Rightarrow> CORINFO_SIG_INFO \<Rightarrow> CorInfoType \<Rightarrow> var_types \<Rightarrow> nat
   \<Rightarrow> var_types \<Rightarrow> GenTree option imp" where
  "imp_Vector128_Add jit intrinsic sig simdBaseJitType retType simdSize simdBaseType =
    (assertI jit (numArgs sig = 2) ''sig->numArgs == 2'' (
     if simdSize \<noteq> 32 \<or> varTypeIsFloating simdBaseType \<or> compExactlyDependsOn jit InstructionSet_AVX2 then
       bindI (impSIMDPopStack retType) (\<lambda>op2.
       bindI (impSIMDPopStack retType) (\<lambda>op1.
       returnI (Some (gtNewSimdBinOpNode GT_ADD retType op1 op2 simdBaseJitType simdSize))))
     else returnI None))"

definition imp_Vector128_AndNot ::
  "Compiler \<Rightarrow> NamedIntrinsic \<Rightarrow> CORINFO_SIG_INFO \<Rightarrow> CorInfoType \<Rightarrow> var_types \<Rightarrow> nat
   \<Rightarrow> var_types \<Rightarrow> GenTree option imp" where
  "imp_Vector128_AndNot jit intrinsic sig simdBaseJitType retType simdSize simdBaseType =
    (assertI jit (numArgs sig = 2) ''sig->numArgs == 2'' (
     bindI (verCurrentState_esStackDepth) (\<lambda>depth.
     bindI (impSpillSideEffect jit True (depth_minus depth 2)) (\<lambda>_.
     bindI (impSIMDPopStack retType) (\<lambda>op2.
     bindI (impSIMDPopStack retType) (\<lambda>op1.
     returnI (Some (gtNewSimdBinOpNode GT_AND_NOT retType op1 op2 simdBaseJitType simdSize))))))))"

definition imp_Vector128_As ::
  "Compiler \<Rightarrow> NamedIntrinsic \<Rightarrow> CORINFO_SIG_INFO \<Rightarrow> CorInfoType \<Rightarrow> var_types \<Rightarrow> nat
   \<Rightarrow> var_types \<Rightarrow> GenTree option imp" where
  "imp_Vector128_As jit intrinsic sig simdBaseJitType retType simdSize simdBaseType =
    (assertI jit (numArgs sig = 1) ''sig->numArgs == 1'' (
     bindI (impSIMDPopStackH retType False (retTypeClass sig)) (\<lambda>retNode.
     bindI (SetOpLclRelatedToSIMDIntrinsic retNode) (\<lambda>_.
     assertI jit (getSIMDTypeForSize (getSIMDTypeSizeInBytes jit (retTypeSigClass sig)) = Inr (TypeGet retNode)) ''retNode->gtType == getSIMDTypeForSize(getSIMDTypeSizeInBytes(sig->retTypeSigClass))'' (
     returnI (Some retNode))))))"

definition imp_Vector128_AsVector2 ::
  "Compiler \<Rightarrow> NamedIntrinsic \<Rightarrow> CORINFO_SIG_INFO \<Rightarrow> CorInfoType \<Rightarrow> var_types \<Rightarrow> nat
   \<Rightarrow> var_types \<Rightarrow> GenTree option imp" where
  "imp_Vector128_AsVector2 jit intrinsic sig simdBaseJitType retType simdSize simdBaseType =
    (assertI jit (numArgs sig = 1) ''sig->numArgs == 1'' (
     assertI jit (simdSize = 16 \<and> simdBaseType = TYP_FLOAT) ''(simdSize == 16) && (simdBaseType == TYP_FLOAT)'' (
     assertI jit (retType = TYP_SIMD8 \<or> retType = TYP_SIMD12) ''(retType == TYP_SIMD8) || (retType == TYP_SIMD12)'' (
     bindI (impSIMDPopStack TYP_SIMD16) (\<lambda>op1.
     returnI (Some (gtNewSimdHWIntrinsicNode retType [op1] intrinsic simdBaseJitType simdSize)))))))"

definition imp_Vector128_BitwiseAnd ::
  "Compiler \<Rightarrow> NamedIntrinsic \<Rightarrow> CORINFO_SIG_INFO \<Rightarrow> CorInfoType \<Rightarrow> var_types \<Rightarrow> nat
   \<Rightarrow> var_types \<Rightarrow> GenTree option imp" where
  "imp_Vector128_BitwiseAnd jit intrinsic sig simdBaseJitType retType simdSize simdBaseType =
    (assertI jit (numArgs sig = 2) ''sig->numArgs == 2'' (
     bindI (impSIMDPopStack retType) (\<lambda>op2.
     bindI (impSIMDPopStack retType) (\<lambda>op1.
     returnI (Some (gtNewSimdBinOpNode GT_AND retType op1 op2 simdBaseJitType simdSize))))))"

definition imp_Vector128_BitwiseOr ::
  "Compiler \<Rightarrow> NamedIntrinsic \<Rightarrow> CORINFO_SIG_INFO \<Rightarrow> CorInfoType \<Rightarrow> var_types \<Rightarrow> nat
   \<Rightarrow> var_types \<Rightarrow> GenTree option imp" where
  "imp_Vector128_BitwiseOr jit intrinsic sig simdBaseJitType retType simdSize simdBaseType =
    (assertI jit (numArgs sig = 2) ''sig->numArgs == 2'' (
     bindI (impSIMDPopStack retType) (\<lambda>op2.
     bindI (impSIMDPopStack retType) (\<lambda>op1.
     returnI (Some (gtNewSimdBinOpNode GT_OR retType op1 op2 simdBaseJitType simdSize))))))"

definition imp_Vector128_Ceiling ::
  "Compiler \<Rightarrow> NamedIntrinsic \<Rightarrow> CORINFO_SIG_INFO \<Rightarrow> CorInfoType \<Rightarrow> var_types \<Rightarrow> nat
   \<Rightarrow> var_types \<Rightarrow> GenTree option imp" where
  "imp_Vector128_Ceiling jit intrinsic sig simdBaseJitType retType simdSize simdBaseType =
    (assertI jit (numArgs sig = 1) ''sig->numArgs == 1'' (
     assertI jit (varTypeIsFloating simdBaseType) ''varTypeIsFloating(simdBaseType)'' (
     if simdSize \<noteq> 32 \<and> \<not> compExactlyDependsOn jit InstructionSet_SSE41 then returnI None
     else
       bindI (impSIMDPopStack retType) (\<lambda>op1.
       returnI (Some (gtNewSimdCeilNode retType op1 simdBaseJitType simdSize))))))"

definition imp_Vector128_ConditionalSelect ::
  "Compiler \<Rightarrow> NamedIntrinsic \<Rightarrow> CORINFO_SIG_INFO \<Rightarrow> CorInfoType \<Rightarrow> var_types \<Rightarrow> nat
   \<Rightarrow> var_types \<Rightarrow> GenTree option imp" where
  "imp_Vector128_ConditionalSelect jit intrinsic sig simdBaseJitType retType simdSize simdBaseType =
    (assertI jit (numArgs sig = 3) ''sig->numArgs == 3'' (
     bindI (impSIMDPopStack retType) (\<lambda>op3.
     bindI (impSIMDPopStack retType) (\<lambda>op2.
     bindI (impSIMDPopStack retType) (\<lambda>op1.
     returnI (Some (gtNewSimdCndSelNode retType op1 op2 op3 simdBaseJitType simdSize)))))))"

definition imp_Vector128_ConvertToDouble ::
  "Compiler \<Rightarrow> NamedIntrinsic \<Rightarrow> CORINFO_SIG_INFO \<Rightarrow> CorInfoType \<Rightarrow> var_types \<Rightarrow> nat
   \<Rightarrow> var_types \<Rightarrow> GenTree option imp" where
  "imp_Vector128_ConvertToDouble jit intrinsic sig simdBaseJitType retType simdSize simdBaseType =
    (assertI jit (numArgs sig = 1) ''sig->numArgs == 1'' (
     returnI None))"

definition imp_Vector128_ConvertToInt32 ::
  "Compiler \<Rightarrow> NamedIntrinsic \<Rightarrow> CORINFO_SIG_INFO \<Rightarrow> CorInfoType \<Rightarrow> var_types \<Rightarrow> nat
   \<Rightarrow> var_types \<Rightarrow> GenTree option imp" where
  "imp_Vector128_ConvertToInt32 jit intrinsic sig simdBaseJitType retType simdSize simdBaseType =
    (assertI jit (numArgs sig = 1) ''sig->numArgs == 1'' (
     assertI jit (simdBaseType = TYP_FLOAT) ''simdBaseType == TYP_FLOAT'' (
     bindI (impSIMDPopStack retType) (\<lambda>op1.
     returnI (Some (gtNewSimdHWIntrinsicNode retType [op1]
       (if simdSize = 32 then NI_AVX_ConvertToVector256Int32WithTruncation
        else NI_SSE2_ConvertToVector128Int32WithTruncation)
       simdBaseJitType simdSize))))))"

definition imp_Vector128_ConvertToSingle ::
  "Compiler \<Rightarrow> NamedIntrinsic \<Rightarrow> CORINFO_SIG_INFO \<Rightarrow> CorInfoType \<Rightarrow> var_types \<Rightarrow> nat
   \<Rightarrow> var_types \<Rightarrow> GenTree option imp" where
  "imp_Vector128_ConvertToSingle jit intrinsic sig simdBaseJitType retType simdSize simdBaseType =
    (assertI jit (numArgs sig = 1) ''sig->numArgs == 1'' (
     if simdBaseType = TYP_INT then
       bindI (impSIMDPopStack retType) (\<lambda>op1.
       returnI (Some (gtNewSimdHWIntrinsicNode retType [op1]
         (if simdSize = 32 then NI_AVX_ConvertToVector256Single
          else NI_SSE2_ConvertToVector128Single)
         simdBaseJitType simdSize)))
     else
       assertI jit (simdBaseType = TYP_UINT) ''simdBaseType == TYP_UINT'' (
       returnI None)))"

definition imp_Vector128_Create ::
  "Compiler \<Rightarrow> NamedIntrinsic \<Rightarrow> CORINFO_SIG_INFO \<Rightarrow> CorInfoType \<Rightarrow> var_types \<Rightarrow> nat
   \<Rightarrow> var_types \<Rightarrow> GenTree option imp" where
  "imp_Vector128_Create jit intrinsic sig simdBaseJitType retType simdSize simdBaseType =
    (if numArgs sig = 1 then
       (if TARGET_X86 jit \<and> varTypeIsLong simdBaseType then
         bindI (impStackTop 0) (\<lambda>top.
         if \<not> IsIntegralConst top then returnI None
           else
             bindI (impPopStack) (\<lambda>op1.
             returnI (Some (gtNewSimdCreateBroadcastNode retType op1 simdBaseJitType simdSize))))
        else
         bindI (impPopStack) (\<lambda>op1.
         returnI (Some (gtNewSimdCreateBroadcastNode retType op1 simdBaseJitType simdSize))))
     else
       bindI (liftE (getSIMDVectorLength simdSize simdBaseType)) (\<lambda>simdLength.
       assertI jit (numArgs sig = simdLength) ''sig->numArgs == simdLength'' (
       bindI (if varTypeIsFloating simdBaseType then isConstantLoop IsCnsFltOrDbl (numArgs sig) 0
              else assertI jit (varTypeIsIntegral simdBaseType) ''varTypeIsIntegral(simdBaseType)''
                     (isConstantLoop IsIntegralConst (numArgs sig) 0)) (\<lambda>isConstant.
       if isConstant then
             assertI jit (simdSize = 16 \<or> simdSize = 32 \<or> simdSize = 64) ''(simdSize == 16) || (simdSize == 32) || (simdSize == 64)'' (
             bindI (liftE (gtSimdVal (gtNewVconNode retType))) (\<lambda>vec0.
             if varTypeIsByte simdBaseType then
               bindI (foldLoop_u8 (numArgs sig) simdLength 0 0 vec0) (\<lambda>r.
               returnI (Some (GT_CNS_VEC retType (snd r))))
             else if simdBaseType = TYP_SHORT \<or> simdBaseType = TYP_USHORT then
               bindI (foldLoop_u16 (numArgs sig) simdLength 0 0 vec0) (\<lambda>r.
               returnI (Some (GT_CNS_VEC retType (snd r))))
             else if simdBaseType = TYP_INT \<or> simdBaseType = TYP_UINT then
               bindI (foldLoop_u32 (numArgs sig) simdLength 0 0 vec0) (\<lambda>r.
               returnI (Some (GT_CNS_VEC retType (snd r))))
             else if varTypeIsLong simdBaseType then
               bindI (foldLoop_u64 (numArgs sig) simdLength 0 0 vec0) (\<lambda>r.
               returnI (Some (GT_CNS_VEC retType (snd r))))
             else if simdBaseType = TYP_FLOAT then
               bindI (foldLoop_f32 jit (numArgs sig) simdLength 0 0 vec0) (\<lambda>r.
               returnI (Some (GT_CNS_VEC retType (snd r))))
             else if simdBaseType = TYP_DOUBLE then
               bindI (foldLoop_f64 (numArgs sig) simdLength 0 0 vec0) (\<lambda>r.
               returnI (Some (GT_CNS_VEC retType (snd r))))
             else failI Unreached))
           else
             if TARGET_X86 jit \<and> varTypeIsLong simdBaseType then returnI None
             else
               bindI (popOperandsLoop jit (numArgs sig) None (simdBaseType = TYP_FLOAT) []) (\<lambda>r.
               if fst r then
                 (case snd r of
                    [] \<Rightarrow> failI OutOfBounds
                  | op1 # rest \<Rightarrow>
                      returnI (Some (gtNewOperNode1 GT_IND retType
                        (CreateAddressNodeForSimdHWIntrinsicCreate op1 simdBaseType simdSize))))
               else
                 returnI (Some (gtNewSimdHWIntrinsicNode retType (snd r) intrinsic
                                  simdBaseJitType simdSize)))))))"

definition imp_Vector128_CreateScalar ::
  "Compiler \<Rightarrow> NamedIntrinsic \<Rightarrow> CORINFO_SIG_INFO \<Rightarrow> CorInfoType \<Rightarrow> var_types \<Rightarrow> nat
   \<Rightarrow> var_types \<Rightarrow> GenTree option imp" where
  "imp_Vector128_CreateScalar jit intrinsic sig simdBaseJitType retType simdSize simdBaseType =
    (assertI jit (numArgs sig = 1) ''sig->numArgs == 1'' (
     if TARGET_X86 jit \<and> varTypeIsLong simdBaseType then
       bindI (impStackTop 0) (\<lambda>top.
       if \<not> IsIntegralConst top then returnI None
         else
           bindI (impPopStack) (\<lambda>op1.
           returnI (Some (gtNewSimdCreateScalarNode retType op1 simdBaseJitType simdSize))))
     else
       bindI (impPopStack) (\<lambda>op1.
       returnI (Some (gtNewSimdCreateScalarNode retType op1 simdBaseJitType simdSize)))))"

definition imp_Vector128_CreateScalarUnsafe ::
  "Compiler \<Rightarrow> NamedIntrinsic \<Rightarrow> CORINFO_SIG_INFO \<Rightarrow> CorInfoType \<Rightarrow> var_types \<Rightarrow> nat
   \<Rightarrow> var_types \<Rightarrow> GenTree option imp" where
  "imp_Vector128_CreateScalarUnsafe jit intrinsic sig simdBaseJitType retType simdSize simdBaseType =
    (assertI jit (numArgs sig = 1) ''sig->numArgs == 1'' (
     if TARGET_X86 jit \<and> varTypeIsLong simdBaseType then
       bindI (impStackTop 0) (\<lambda>top.
       if \<not> IsIntegralConst top then returnI None
         else
           bindI (impPopStack) (\<lambda>op1.
           returnI (Some (gtNewSimdCreateScalarUnsafeNode retType op1 simdBaseJitType simdSize))))
     else
       bindI (impPopStack) (\<lambda>op1.
       returnI (Some (gtNewSimdCreateScalarUnsafeNode retType op1 simdBaseJitType simdSize)))))"

definition imp_Vector128_Divide ::
  "Compiler \<Rightarrow> NamedIntrinsic \<Rightarrow> CORINFO_SIG_INFO \<Rightarrow> CorInfoType \<Rightarrow> var_types \<Rightarrow> nat
   \<Rightarrow> var_types \<Rightarrow> GenTree option imp" where
  "imp_Vector128_Divide jit intrinsic sig simdBaseJitType retType simdSize simdBaseType =
    (assertI jit (numArgs sig = 2) ''sig->numArgs == 2'' (
     if \<not> varTypeIsFloating simdBaseType then returnI None
     else
       bindI (getArgForHWIntrinsic (JITtype2varType jit (fst (getArgType jit sig (getArgNext jit (sigArgs sig)))))
              (snd (getArgType jit sig (getArgNext jit (sigArgs sig))))) (\<lambda>op2.
       bindI (getArgForHWIntrinsic (JITtype2varType jit (fst (getArgType jit sig (sigArgs sig))))
              (snd (getArgType jit sig (sigArgs sig)))) (\<lambda>op1.
       returnI (Some (gtNewSimdBinOpNode GT_DIV retType op1 op2 simdBaseJitType simdSize))))))"

definition imp_Vector128_Dot ::
  "Compiler \<Rightarrow> NamedIntrinsic \<Rightarrow> CORINFO_SIG_INFO \<Rightarrow> CorInfoType \<Rightarrow> var_types \<Rightarrow> nat
   \<Rightarrow> var_types \<Rightarrow> GenTree option imp" where
  "imp_Vector128_Dot jit intrinsic sig simdBaseJitType retType simdSize simdBaseType =
    (assertI jit (numArgs sig = 2) ''sig->numArgs == 2'' (
     bindI (liftE (getSIMDTypeForSize simdSize)) (\<lambda>simdType.
     if varTypeIsByte simdBaseType \<or> varTypeIsLong simdBaseType then returnI None
     else if simdSize = 32 \<and> \<not> varTypeIsFloating simdBaseType
             \<and> \<not> compExactlyDependsOn jit InstructionSet_AVX2 then returnI None
     else if simdSize \<noteq> 32 \<and> (simdBaseType = TYP_INT \<or> simdBaseType = TYP_UINT)
             \<and> \<not> compExactlyDependsOn jit InstructionSet_SSE41 then returnI None
     else
       bindI (impSIMDPopStack simdType) (\<lambda>op2.
       bindI (impSIMDPopStack simdType) (\<lambda>op1.
       returnI (Some (gtNewSimdDotProdNode retType op1 op2 simdBaseJitType simdSize)))))))"

definition imp_Vector128_Equals ::
  "Compiler \<Rightarrow> NamedIntrinsic \<Rightarrow> CORINFO_SIG_INFO \<Rightarrow> CorInfoType \<Rightarrow> var_types \<Rightarrow> nat
   \<Rightarrow> var_types \<Rightarrow> GenTree option imp" where
  "imp_Vector128_Equals jit intrinsic sig simdBaseJitType retType simdSize simdBaseType =
    (assertI jit (numArgs sig = 2) ''sig->numArgs == 2'' (
     if simdSize \<noteq> 32 \<or> varTypeIsFloating simdBaseType \<or> compExactlyDependsOn jit InstructionSet_AVX2 then
       bindI (impSIMDPopStack retType) (\<lambda>op2.
       bindI (impSIMDPopStack retType) (\<lambda>op1.
       returnI (Some (gtNewSimdCmpOpNode GT_EQ retType op1 op2 simdBaseJitType simdSize))))
     else returnI None))"

definition imp_Vector512_EqualsAll ::
  "Compiler \<Rightarrow> NamedIntrinsic \<Rightarrow> CORINFO_SIG_INFO \<Rightarrow> CorInfoType \<Rightarrow> var_types \<Rightarrow> nat
   \<Rightarrow> var_types \<Rightarrow> GenTree option imp" where
  "imp_Vector512_EqualsAll jit intrinsic sig simdBaseJitType retType simdSize simdBaseType =
    (assertI jit (numArgs sig = 2) ''sig->numArgs == 2'' (
     assertI jit (IsBaselineVector512IsaSupportedDebugOnly jit) ''IsBaselineVector512IsaSupportedDebugOnly()'' (
     bindI (liftE (getSIMDTypeForSize simdSize)) (\<lambda>simdType.
     bindI (impSIMDPopStack simdType) (\<lambda>op2.
     bindI (impSIMDPopStack simdType) (\<lambda>op1.
     returnI (Some (gtNewSimdCmpOpAllNode GT_EQ retType op1 op2 simdBaseJitType simdSize))))))))"

definition imp_Vector128_EqualsAll ::
  "Compiler \<Rightarrow> NamedIntrinsic \<Rightarrow> CORINFO_SIG_INFO \<Rightarrow> CorInfoType \<Rightarrow> var_types \<Rightarrow> nat
   \<Rightarrow> var_types \<Rightarrow> GenTree option imp" where
  "imp_Vector128_EqualsAll jit intrinsic sig simdBaseJitType retType simdSize simdBaseType =
    (assertI jit (numArgs sig = 2) ''sig->numArgs == 2'' (
     if simdSize \<noteq> 32 \<or> varTypeIsFloating simdBaseType \<or> compExactlyDependsOn jit InstructionSet_AVX2 then
       bindI (liftE (getSIMDTypeForSize simdSize)) (\<lambda>simdType.
       bindI (impSIMDPopStack simdType) (\<lambda>op2.
       bindI (impSIMDPopStack simdType) (\<lambda>op1.
       returnI (Some (gtNewSimdCmpOpAllNode GT_EQ retType op1 op2 simdBaseJitType simdSize)))))
     else returnI None))"

definition imp_Vector512_EqualsAny ::
  "Compiler \<Rightarrow> NamedIntrinsic \<Rightarrow> CORINFO_SIG_INFO \<Rightarrow> CorInfoType \<Rightarrow> var_types \<Rightarrow> nat
   \<Rightarrow> var_types \<Rightarrow> GenTree option imp" where
  "imp_Vector512_EqualsAny jit intrinsic sig simdBaseJitType retType simdSize simdBaseType =
    (assertI jit (numArgs sig = 2) ''sig->numArgs == 2'' (
     assertI jit (simdSize = 64) ''simdSize == 64'' (
     assertI jit (IsBaselineVector512IsaSupportedDebugOnly jit) ''IsBaselineVector512IsaSupportedDebugOnly()'' (
     bindI (liftE (getSIMDTypeForSize simdSize)) (\<lambda>simdType.
     bindI (impSIMDPopStack simdType) (\<lambda>op2.
     bindI (impSIMDPopStack simdType) (\<lambda>op1.
     returnI (Some (gtNewSimdCmpOpAnyNode GT_EQ retType op1 op2 simdBaseJitType simdSize)))))))))"

definition imp_Vector128_EqualsAny ::
  "Compiler \<Rightarrow> NamedIntrinsic \<Rightarrow> CORINFO_SIG_INFO \<Rightarrow> CorInfoType \<Rightarrow> var_types \<Rightarrow> nat
   \<Rightarrow> var_types \<Rightarrow> GenTree option imp" where
  "imp_Vector128_EqualsAny jit intrinsic sig simdBaseJitType retType simdSize simdBaseType =
    (assertI jit (numArgs sig = 2) ''sig->numArgs == 2'' (
     if simdSize \<noteq> 32 \<or> compExactlyDependsOn jit InstructionSet_AVX2 then
       bindI (liftE (getSIMDTypeForSize simdSize)) (\<lambda>simdType.
       bindI (impSIMDPopStack simdType) (\<lambda>op2.
       bindI (impSIMDPopStack simdType) (\<lambda>op1.
       returnI (Some (gtNewSimdCmpOpAnyNode GT_EQ retType op1 op2 simdBaseJitType simdSize)))))
     else returnI None))"

definition imp_Vector512_ExtractMostSignificantBits ::
  "Compiler \<Rightarrow> NamedIntrinsic \<Rightarrow> CORINFO_SIG_INFO \<Rightarrow> CorInfoType \<Rightarrow> var_types \<Rightarrow> nat
   \<Rightarrow> var_types \<Rightarrow> GenTree option imp" where
  "imp_Vector512_ExtractMostSignificantBits jit intrinsic sig simdBaseJitType retType simdSize simdBaseType =
    (if TARGET_X86 jit then returnI None
     else if IsBaselineVector512IsaSupported jit then
       bindI (liftE (getSIMDTypeForSize simdSize)) (\<lambda>simdType.
       bindI (impSIMDPopStack simdType) (\<lambda>op1.
       returnI (Some (gtNewSimdHWIntrinsicNode retType [op1] NI_AVX512F_MoveMaskSpecial simdBaseJitType simdSize))))
     else returnI None)"

definition imp_Vector128_ExtractMostSignificantBits ::
  "Compiler \<Rightarrow> NamedIntrinsic \<Rightarrow> CORINFO_SIG_INFO \<Rightarrow> CorInfoType \<Rightarrow> var_types \<Rightarrow> nat
   \<Rightarrow> var_types \<Rightarrow> GenTree option imp" where
  "imp_Vector128_ExtractMostSignificantBits jit intrinsic sig simdBaseJitType retType simdSize simdBaseType =
    (assertI jit (numArgs sig = 1) ''sig->numArgs == 1'' (
     if simdSize \<noteq> 32 \<or> varTypeIsFloating simdBaseType \<or> compExactlyDependsOn jit InstructionSet_AVX2 then
       bindI (liftE (getSIMDTypeForSize simdSize)) (\<lambda>simdType.
       if varTypeIsByte simdBaseType then
         bindI (impSIMDPopStack simdType) (\<lambda>op1.
         returnI (Some (gtNewSimdHWIntrinsicNode retType [op1]
           (if simdSize = 32 then NI_AVX2_MoveMask else NI_SSE2_MoveMask)
           simdBaseJitType simdSize)))
       else if simdBaseType = TYP_SHORT \<or> simdBaseType = TYP_USHORT then
         assertI jit (simdSize = 16 \<or> simdSize = 32 \<or> simdSize = 64) ''(simdSize == 16) || (simdSize == 32) || (simdSize == 64)'' (
         if simdSize \<noteq> 32 \<and> \<not> compOpportunisticallyDependsOn jit InstructionSet_SSSE3 then returnI None
         else
           bindI (liftE (set_u64 0 0x0F0D0B0907050301 (replicate 64 0))) (\<lambda>simdVal0.
           bindI (liftE (set_u64 1 0x8080808080808080 simdVal0)) (\<lambda>simdVal1.
           bindI (liftE (if simdSize = 32 then set_u64 2 0x0F0D0B0907050301 simdVal1 else Inr simdVal1)) (\<lambda>simdVal2.
           bindI (liftE (if simdSize = 32 then set_u64 3 0x8080808080808080 simdVal2 else Inr simdVal2)) (\<lambda>simdVal.
           bindI (impSIMDPopStack simdType) (\<lambda>op1.
           returnI (Some
             (let msbBaseJitType = (if varTypeIsUnsigned simdBaseType then CORINFO_TYPE_UBYTE
                                    else CORINFO_TYPE_BYTE);
                  shuffleIntrinsic = (if simdSize = 32 then NI_AVX2_Shuffle else NI_SSSE3_Shuffle);
                  op2 = memcpy_gtSimdVal (gtNewVconNode simdType) simdVal simdSize;
                  shuffled = gtNewSimdHWIntrinsicNode simdType [op1, op2] shuffleIntrinsic
                               msbBaseJitType simdSize
              in if simdSize = 32 then
                   gtNewSimdHWIntrinsicNode retType
                     [gtNewSimdGetLowerNode TYP_SIMD16
                        (gtNewSimdHWIntrinsicNode simdType [shuffled, gtNewIconNode 0xD8 TYP_INT]
                           NI_AVX2_Permute4x64
                           (if simdBaseType = TYP_UBYTE then CORINFO_TYPE_ULONG
                            else CORINFO_TYPE_LONG)
                           simdSize)
                        msbBaseJitType simdSize]
                     NI_SSE2_MoveMask msbBaseJitType 16
                 else
                   gtNewSimdHWIntrinsicNode retType [shuffled] NI_SSE2_MoveMask
                     msbBaseJitType simdSize))))))))
       else if simdBaseType \<in> set [TYP_INT, TYP_UINT, TYP_FLOAT] then
         bindI (impSIMDPopStack simdType) (\<lambda>op1.
         returnI (Some (gtNewSimdHWIntrinsicNode retType [op1]
           (if simdSize = 32 then NI_AVX_MoveMask else NI_SSE_MoveMask)
           CORINFO_TYPE_FLOAT simdSize)))
       else if simdBaseType \<in> set [TYP_LONG, TYP_ULONG, TYP_DOUBLE] then
         bindI (impSIMDPopStack simdType) (\<lambda>op1.
         returnI (Some (gtNewSimdHWIntrinsicNode retType [op1]
           (if simdSize = 32 then NI_AVX_MoveMask else NI_SSE2_MoveMask)
           CORINFO_TYPE_DOUBLE simdSize)))
       else failI Unreached)
     else returnI None))"

definition imp_Vector128_Floor ::
  "Compiler \<Rightarrow> NamedIntrinsic \<Rightarrow> CORINFO_SIG_INFO \<Rightarrow> CorInfoType \<Rightarrow> var_types \<Rightarrow> nat
   \<Rightarrow> var_types \<Rightarrow> GenTree option imp" where
  "imp_Vector128_Floor jit intrinsic sig simdBaseJitType retType simdSize simdBaseType =
    (assertI jit (numArgs sig = 1) ''sig->numArgs == 1'' (
     assertI jit (varTypeIsFloating simdBaseType) ''varTypeIsFloating(simdBaseType)'' (
     if simdSize \<noteq> 32 \<and> \<not> compExactlyDependsOn jit InstructionSet_SSE41 then returnI None
     else
       bindI (impSIMDPopStack retType) (\<lambda>op1.
       returnI (Some (gtNewSimdFloorNode retType op1 simdBaseJitType simdSize))))))"

definition imp_Vector128_get_AllBitsSet ::
  "Compiler \<Rightarrow> NamedIntrinsic \<Rightarrow> CORINFO_SIG_INFO \<Rightarrow> CorInfoType \<Rightarrow> var_types \<Rightarrow> nat
   \<Rightarrow> var_types \<Rightarrow> GenTree option imp" where
  "imp_Vector128_get_AllBitsSet jit intrinsic sig simdBaseJitType retType simdSize simdBaseType =
    (assertI jit (numArgs sig = 0) ''sig->numArgs == 0'' (
     returnI (Some (gtNewAllBitsSetConNode retType))))"

definition imp_Vector128_get_One ::
  "Compiler \<Rightarrow> NamedIntrinsic \<Rightarrow> CORINFO_SIG_INFO \<Rightarrow> CorInfoType \<Rightarrow> var_types \<Rightarrow> nat
   \<Rightarrow> var_types \<Rightarrow> GenTree option imp" where
  "imp_Vector128_get_One jit intrinsic sig simdBaseJitType retType simdSize simdBaseType =
    (assertI jit (numArgs sig = 0) ''sig->numArgs == 0'' (
     returnI (Some (gtNewOneConNode retType simdBaseType))))"

definition imp_Vector128_get_Zero ::
  "Compiler \<Rightarrow> NamedIntrinsic \<Rightarrow> CORINFO_SIG_INFO \<Rightarrow> CorInfoType \<Rightarrow> var_types \<Rightarrow> nat
   \<Rightarrow> var_types \<Rightarrow> GenTree option imp" where
  "imp_Vector128_get_Zero jit intrinsic sig simdBaseJitType retType simdSize simdBaseType =
    (assertI jit (numArgs sig = 0) ''sig->numArgs == 0'' (
     returnI (Some (gtNewZeroConNode retType))))"

definition imp_Vector128_GetElement ::
  "Compiler \<Rightarrow> NamedIntrinsic \<Rightarrow> CORINFO_SIG_INFO \<Rightarrow> CorInfoType \<Rightarrow> var_types \<Rightarrow> nat
   \<Rightarrow> var_types \<Rightarrow> GenTree option imp" where
  "imp_Vector128_GetElement jit intrinsic sig simdBaseJitType retType simdSize simdBaseType =
    (assertI jit (numArgs sig = 2) ''sig->numArgs == 2'' (
     if simdBaseType \<in> set [TYP_BYTE, TYP_UBYTE, TYP_INT, TYP_UINT, TYP_LONG, TYP_ULONG]
        \<and> \<not> compExactlyDependsOn jit InstructionSet_SSE41 then returnI None
     else if \<not> varTypeIsArithmetic simdBaseType then failI Unreached
     else
       bindI (impPopStack) (\<lambda>op2.
       bindI (liftE (getSIMDTypeForSize simdSize)) (\<lambda>simdType.
       bindI (impSIMDPopStack simdType) (\<lambda>op1.
       returnI (Some (gtNewSimdGetElementNode retType op1 op2 simdBaseJitType simdSize)))))))"

definition imp_Vector128_GreaterThan ::
  "Compiler \<Rightarrow> NamedIntrinsic \<Rightarrow> CORINFO_SIG_INFO \<Rightarrow> CorInfoType \<Rightarrow> var_types \<Rightarrow> nat
   \<Rightarrow> var_types \<Rightarrow> GenTree option imp" where
  "imp_Vector128_GreaterThan jit intrinsic sig simdBaseJitType retType simdSize simdBaseType =
    (assertI jit (numArgs sig = 2) ''sig->numArgs == 2'' (
     if simdSize \<noteq> 32 \<or> varTypeIsFloating simdBaseType \<or> compExactlyDependsOn jit InstructionSet_AVX2 then
       bindI (impSIMDPopStack retType) (\<lambda>op2.
       bindI (impSIMDPopStack retType) (\<lambda>op1.
       returnI (Some (gtNewSimdCmpOpNode GT_GT retType op1 op2 simdBaseJitType simdSize))))
     else returnI None))"

definition imp_Vector128_GreaterThanAll ::
  "Compiler \<Rightarrow> NamedIntrinsic \<Rightarrow> CORINFO_SIG_INFO \<Rightarrow> CorInfoType \<Rightarrow> var_types \<Rightarrow> nat
   \<Rightarrow> var_types \<Rightarrow> GenTree option imp" where
  "imp_Vector128_GreaterThanAll jit intrinsic sig simdBaseJitType retType simdSize simdBaseType =
    (assertI jit (numArgs sig = 2) ''sig->numArgs == 2'' (
     if simdSize \<noteq> 32 \<or> compExactlyDependsOn jit InstructionSet_AVX2 then
       bindI (liftE (getSIMDTypeForSize simdSize)) (\<lambda>simdType.
       bindI (impSIMDPopStack simdType) (\<lambda>op2.
       bindI (impSIMDPopStack simdType) (\<lambda>op1.
       returnI (Some (gtNewSimdCmpOpAllNode GT_GT retType op1 op2 simdBaseJitType simdSize)))))
     else returnI None))"

definition imp_Vector128_GreaterThanAny ::
  "Compiler \<Rightarrow> NamedIntrinsic \<Rightarrow> CORINFO_SIG_INFO \<Rightarrow> CorInfoType \<Rightarrow> var_types \<Rightarrow> nat
   \<Rightarrow> var_types \<Rightarrow> GenTree option imp" where
  "imp_Vector128_GreaterThanAny jit intrinsic sig simdBaseJitType retType simdSize simdBaseType =
    (assertI jit (numArgs sig = 2) ''sig->numArgs == 2'' (
     if simdSize \<noteq> 32 \<or> compExactlyDependsOn jit InstructionSet_AVX2 then
       bindI (liftE (getSIMDTypeForSize simdSize)) (\<lambda>simdType.
       bindI (impSIMDPopStack simdType) (\<lambda>op2.
       bindI (impSIMDPopStack simdType) (\<lambda>op1.
       returnI (Some (gtNewSimdCmpOpAnyNode GT_GT retType op1 op2 simdBaseJitType simdSize)))))
     else returnI None))"

definition imp_Vector128_GreaterThanOrEqual ::
  "Compiler \<Rightarrow> NamedIntrinsic \<Rightarrow> CORINFO_SIG_INFO \<Rightarrow> CorInfoType \<Rightarrow> var_types \<Rightarrow> nat
   \<Rightarrow> var_types \<Rightarrow> GenTree option imp" where
  "imp_Vector128_GreaterThanOrEqual jit intrinsic sig simdBaseJitType retType simdSize simdBaseType =
    (assertI jit (numArgs sig = 2) ''sig->numArgs == 2'' (
     if simdSize \<noteq> 32 \<or> varTypeIsFloating simdBaseType \<or> compExactlyDependsOn jit InstructionSet_AVX2 then
       bindI (impSIMDPopStack retType) (\<lambda>op2.
       bindI (impSIMDPopStack retType) (\<lambda>op1.
       returnI (Some (gtNewSimdCmpOpNode GT_GE retType op1 op2 simdBaseJitType simdSize))))
     else returnI None))"

definition imp_Vector128_GreaterThanOrEqualAll ::
  "Compiler \<Rightarrow> NamedIntrinsic \<Rightarrow> CORINFO_SIG_INFO \<Rightarrow> CorInfoType \<Rightarrow> var_types \<Rightarrow> nat
   \<Rightarrow> var_types \<Rightarrow> GenTree option imp" where
  "imp_Vector128_GreaterThanOrEqualAll jit intrinsic sig simdBaseJitType retType simdSize simdBaseType =
    (assertI jit (numArgs sig = 2) ''sig->numArgs == 2'' (
     if simdSize \<noteq> 32 \<or> compExactlyDependsOn jit InstructionSet_AVX2 then
       bindI (liftE (getSIMDTypeForSize simdSize)) (\<lambda>simdType.
       bindI (impSIMDPopStack simdType) (\<lambda>op2.
       bindI (impSIMDPopStack simdType) (\<lambda>op1.
       returnI (Some (gtNewSimdCmpOpAllNode GT_GE retType op1 op2 simdBaseJitType simdSize)))))
     else returnI None))"

definition imp_Vector128_GreaterThanOrEqualAny ::
  "Compiler \<Rightarrow> NamedIntrinsic \<Rightarrow> CORINFO_SIG_INFO \<Rightarrow> CorInfoType \<Rightarrow> var_types \<Rightarrow> nat
   \<Rightarrow> var_types \<Rightarrow> GenTree option imp" where
  "imp_Vector128_GreaterThanOrEqualAny jit intrinsic sig simdBaseJitType retType simdSize simdBaseType =
    (assertI jit (numArgs sig = 2) ''sig->numArgs == 2'' (
     if simdSize \<noteq> 32 \<or> compExactlyDependsOn jit InstructionSet_AVX2 then
       bindI (liftE (getSIMDTypeForSize simdSize)) (\<lambda>simdType.
       bindI (impSIMDPopStack simdType) (\<lambda>op2.
       bindI (impSIMDPopStack simdType) (\<lambda>op1.
       returnI (Some (gtNewSimdCmpOpAnyNode GT_GE retType op1 op2 simdBaseJitType simdSize)))))
     else returnI None))"

definition imp_Vector128_LessThan ::
  "Compiler \<Rightarrow> NamedIntrinsic \<Rightarrow> CORINFO_SIG_INFO \<Rightarrow> CorInfoType \<Rightarrow> var_types \<Rightarrow> nat
   \<Rightarrow> var_types \<Rightarrow> GenTree option imp" where
  "imp_Vector128_LessThan jit intrinsic sig simdBaseJitType retType simdSize simdBaseType =
    (assertI jit (numArgs sig = 2) ''sig->numArgs == 2'' (
     if simdSize \<noteq> 32 \<or> varTypeIsFloating simdBaseType \<or> compExactlyDependsOn jit InstructionSet_AVX2 then
       bindI (impSIMDPopStack retType) (\<lambda>op2.
       bindI (impSIMDPopStack retType) (\<lambda>op1.
       returnI (Some (gtNewSimdCmpOpNode GT_LT retType op1 op2 simdBaseJitType simdSize))))
     else returnI None))"

definition imp_Vector128_LessThanAll ::
  "Compiler \<Rightarrow> NamedIntrinsic \<Rightarrow> CORINFO_SIG_INFO \<Rightarrow> CorInfoType \<Rightarrow> var_types \<Rightarrow> nat
   \<Rightarrow> var_types \<Rightarrow> GenTree option imp" where
  "imp_Vector128_LessThanAll jit intrinsic sig simdBaseJitType retType simdSize simdBaseType =
    (assertI jit (numArgs sig = 2) ''sig->numArgs == 2'' (
     if simdSize \<noteq> 32 \<or> compExactlyDependsOn jit InstructionSet_AVX2 then
       bindI (liftE (getSIMDTypeForSize simdSize)) (\<lambda>simdType.
       bindI (impSIMDPopStack simdType) (\<lambda>op2.
       bindI (impSIMDPopStack simdType) (\<lambda>op1.
       returnI (Some (gtNewSimdCmpOpAllNode GT_LT retType op1 op2 simdBaseJitType simdSize)))))
     else returnI None))"

definition imp_Vector128_LessThanAny ::
  "Compiler \<Rightarrow> NamedIntrinsic \<Rightarrow> CORINFO_SIG_INFO \<Rightarrow> CorInfoType \<Rightarrow> var_types \<Rightarrow> nat
   \<Rightarrow> var_types \<Rightarrow> GenTree option imp" where
  "imp_Vector128_LessThanAny jit intrinsic sig simdBaseJitType retType simdSize simdBaseType =
    (assertI jit (numArgs sig = 2) ''sig->numArgs == 2'' (
     if simdSize \<noteq> 32 \<or> compExactlyDependsOn jit InstructionSet_AVX2 then
       bindI (liftE (getSIMDTypeForSize simdSize)) (\<lambda>simdType.
       bindI (impSIMDPopStack simdType) (\<lambda>op2.
       bindI (impSIMDPopStack simdType) (\<lambda>op1.
       returnI (Some (gtNewSimdCmpOpAnyNode GT_LT retType op1 op2 simdBaseJitType simdSize)))))
     else returnI None))"

definition imp_Vector128_LessThanOrEqual ::
  "Compiler \<Rightarrow> NamedIntrinsic \<Rightarrow> CORINFO_SIG_INFO \<Rightarrow> CorInfoType \<Rightarrow> var_types \<Rightarrow> nat
   \<Rightarrow> var_types \<Rightarrow> GenTree option imp" where
  "imp_Vector128_LessThanOrEqual jit intrinsic sig simdBaseJitType retType simdSize simdBaseType =
    (assertI jit (numArgs sig = 2) ''sig->numArgs == 2'' (
     if simdSize \<noteq> 32 \<or> varTypeIsFloating simdBaseType \<or> compExactlyDependsOn jit InstructionSet_AVX2 then
       bindI (impSIMDPopStack retType) (\<lambda>op2.
       bindI (impSIMDPopStack retType) (\<lambda>op1.
       returnI (Some (gtNewSimdCmpOpNode GT_LE retType op1 op2 simdBaseJitType simdSize))))
     else returnI None))"

definition imp_Vector128_LessThanOrEqualAll ::
  "Compiler \<Rightarrow> NamedIntrinsic \<Rightarrow> CORINFO_SIG_INFO \<Rightarrow> CorInfoType \<Rightarrow> var_types \<Rightarrow> nat
   \<Rightarrow> var_types \<Rightarrow> GenTree option imp" where
  "imp_Vector128_LessThanOrEqualAll jit intrinsic sig simdBaseJitType retType simdSize simdBaseType =
    (assertI jit (numArgs sig = 2) ''sig->numArgs == 2'' (
     if simdSize \<noteq> 32 \<or> compExactlyDependsOn jit InstructionSet_AVX2 then
       bindI (liftE (getSIMDTypeForSize simdSize)) (\<lambda>simdType.
       bindI (impSIMDPopStack simdType) (\<lambda>op2.
       bindI (impSIMDPopStack simdType) (\<lambda>op1.
       returnI (Some (gtNewSimdCmpOpAllNode GT_LE retType op1 op2 simdBaseJitType simdSize)))))
     else returnI None))"

definition imp_Vector128_LessThanOrEqualAny ::
  "Compiler \<Rightarrow> NamedIntrinsic \<Rightarrow> CORINFO_SIG_INFO \<Rightarrow> CorInfoType \<Rightarrow> var_types \<Rightarrow> nat
   \<Rightarrow> var_types \<Rightarrow> GenTree option imp" where
  "imp_Vector128_LessThanOrEqualAny jit intrinsic sig simdBaseJitType retType simdSize simdBaseType =
    (assertI jit (numArgs sig = 2) ''sig->numArgs == 2'' (
     if simdSize \<noteq> 32 \<or> compExactlyDependsOn jit InstructionSet_AVX2 then
       bindI (liftE (getSIMDTypeForSize simdSize)) (\<lambda>simdType.
       bindI (impSIMDPopStack simdType) (\<lambda>op2.
       bindI (impSIMDPopStack simdType) (\<lambda>op1.
       returnI (Some (gtNewSimdCmpOpAnyNode GT_LE retType op1 op2 simdBaseJitType simdSize)))))
     else returnI None))"

definition imp_SSE_LoadVector128 ::
  "Compiler \<Rightarrow> NamedIntrinsic \<Rightarrow> CORINFO_SIG_INFO \<Rightarrow> CorInfoType \<Rightarrow> var_types \<Rightarrow> nat
   \<Rightarrow> var_types \<Rightarrow> GenTree option imp" where
  "imp_SSE_LoadVector128 jit intrinsic sig simdBaseJitType retType simdSize simdBaseType =
    (if numArgs sig = 2 then
       bindI (impPopStack) (\<lambda>op2.
       bindI (impPopStack) (\<lambda>op1.
       returnI (Some (gtNewSimdLoadNode retType
         (gtNewOperNode GT_ADD (TypeGet (throwAwayCast op1)) (throwAwayCast op1)
            (gtNewOperNode GT_MUL (TypeGet op2) op2
               (gtNewIconNode (word_of_nat (genTypeSize simdBaseType)) (TypeGet op2))))
         simdBaseJitType simdSize))))
     else
       assertI jit (numArgs sig = 1) ''sig->numArgs == 1'' (
       bindI (impPopStack) (\<lambda>op1.
       returnI (Some (gtNewSimdLoadNode retType (throwAwayCast op1) simdBaseJitType simdSize)))))"

definition imp_Vector128_LoadAligned ::
  "Compiler \<Rightarrow> NamedIntrinsic \<Rightarrow> CORINFO_SIG_INFO \<Rightarrow> CorInfoType \<Rightarrow> var_types \<Rightarrow> nat
   \<Rightarrow> var_types \<Rightarrow> GenTree option imp" where
  "imp_Vector128_LoadAligned jit intrinsic sig simdBaseJitType retType simdSize simdBaseType =
    (assertI jit (numArgs sig = 1) ''sig->numArgs == 1'' (
     bindI (impPopStack) (\<lambda>op1.
     returnI (Some (gtNewSimdLoadAlignedNode retType (throwAwayCast op1) simdBaseJitType simdSize)))))"

definition imp_Vector128_LoadAlignedNonTemporal ::
  "Compiler \<Rightarrow> NamedIntrinsic \<Rightarrow> CORINFO_SIG_INFO \<Rightarrow> CorInfoType \<Rightarrow> var_types \<Rightarrow> nat
   \<Rightarrow> var_types \<Rightarrow> GenTree option imp" where
  "imp_Vector128_LoadAlignedNonTemporal jit intrinsic sig simdBaseJitType retType simdSize simdBaseType =
    (assertI jit (numArgs sig = 1) ''sig->numArgs == 1'' (
     bindI (impPopStack) (\<lambda>op1.
     returnI (Some (gtNewSimdLoadNonTemporalNode retType (throwAwayCast op1) simdBaseJitType simdSize)))))"

definition imp_Vector128_Max ::
  "Compiler \<Rightarrow> NamedIntrinsic \<Rightarrow> CORINFO_SIG_INFO \<Rightarrow> CorInfoType \<Rightarrow> var_types \<Rightarrow> nat
   \<Rightarrow> var_types \<Rightarrow> GenTree option imp" where
  "imp_Vector128_Max jit intrinsic sig simdBaseJitType retType simdSize simdBaseType =
    (assertI jit (numArgs sig = 2) ''sig->numArgs == 2'' (
     if simdSize \<noteq> 32 \<or> varTypeIsFloating simdBaseType \<or> compExactlyDependsOn jit InstructionSet_AVX2 then
       bindI (impSIMDPopStack retType) (\<lambda>op2.
       bindI (impSIMDPopStack retType) (\<lambda>op1.
       returnI (Some (gtNewSimdMaxNode retType op1 op2 simdBaseJitType simdSize))))
     else returnI None))"

definition imp_Vector128_Min ::
  "Compiler \<Rightarrow> NamedIntrinsic \<Rightarrow> CORINFO_SIG_INFO \<Rightarrow> CorInfoType \<Rightarrow> var_types \<Rightarrow> nat
   \<Rightarrow> var_types \<Rightarrow> GenTree option imp" where
  "imp_Vector128_Min jit intrinsic sig simdBaseJitType retType simdSize simdBaseType =
    (assertI jit (numArgs sig = 2) ''sig->numArgs == 2'' (
     if simdSize \<noteq> 32 \<or> varTypeIsFloating simdBaseType \<or> compExactlyDependsOn jit InstructionSet_AVX2 then
       bindI (impSIMDPopStack retType) (\<lambda>op2.
       bindI (impSIMDPopStack retType) (\<lambda>op1.
       returnI (Some (gtNewSimdMinNode retType op1 op2 simdBaseJitType simdSize))))
     else returnI None))"

definition imp_Vector128_Multiply ::
  "Compiler \<Rightarrow> NamedIntrinsic \<Rightarrow> CORINFO_SIG_INFO \<Rightarrow> CorInfoType \<Rightarrow> var_types \<Rightarrow> nat
   \<Rightarrow> var_types \<Rightarrow> GenTree option imp" where
  "imp_Vector128_Multiply jit intrinsic sig simdBaseJitType retType simdSize simdBaseType =
    (assertI jit (numArgs sig = 2) ''sig->numArgs == 2'' (
     if simdSize = 32 \<and> \<not> varTypeIsFloating simdBaseType
        \<and> \<not> compExactlyDependsOn jit InstructionSet_AVX2 then returnI None
     else if simdBaseType = TYP_BYTE \<or> simdBaseType = TYP_UBYTE then returnI None
     else if varTypeIsLong simdBaseType then
       assertI jit (simdSize = 16 \<or> simdSize = 32) ''(simdSize == 16) || (simdSize == 32)'' (
       if \<not> compOpportunisticallyDependsOn jit InstructionSet_AVX512DQ_VL then returnI None
       else if TARGET_X86 jit then returnI None
       else
         bindI (getArgForHWIntrinsic (JITtype2varType jit (fst (getArgType jit sig (getArgNext jit (sigArgs sig)))))
              (snd (getArgType jit sig (getArgNext jit (sigArgs sig))))) (\<lambda>op2.
         bindI (getArgForHWIntrinsic (JITtype2varType jit (fst (getArgType jit sig (sigArgs sig))))
              (snd (getArgType jit sig (sigArgs sig)))) (\<lambda>op1.
         returnI (Some (gtNewSimdBinOpNode GT_MUL retType op1 op2 simdBaseJitType simdSize)))))
     else
       bindI (getArgForHWIntrinsic (JITtype2varType jit (fst (getArgType jit sig (getArgNext jit (sigArgs sig)))))
              (snd (getArgType jit sig (getArgNext jit (sigArgs sig))))) (\<lambda>op2.
       bindI (getArgForHWIntrinsic (JITtype2varType jit (fst (getArgType jit sig (sigArgs sig))))
              (snd (getArgType jit sig (sigArgs sig)))) (\<lambda>op1.
       returnI (Some (gtNewSimdBinOpNode GT_MUL retType op1 op2 simdBaseJitType simdSize))))))"

definition imp_Vector128_Narrow ::
  "Compiler \<Rightarrow> NamedIntrinsic \<Rightarrow> CORINFO_SIG_INFO \<Rightarrow> CorInfoType \<Rightarrow> var_types \<Rightarrow> nat
   \<Rightarrow> var_types \<Rightarrow> GenTree option imp" where
  "imp_Vector128_Narrow jit intrinsic sig simdBaseJitType retType simdSize simdBaseType =
    (assertI jit (numArgs sig = 2) ''sig->numArgs == 2'' (
     if simdSize \<noteq> 32 \<or> varTypeIsFloating simdBaseType \<or> compExactlyDependsOn jit InstructionSet_AVX2 then
       assertI jit (simdSize \<noteq> 64 \<or> IsBaselineVector512IsaSupportedDebugOnly jit) ''(simdSize != 64) || IsBaselineVector512IsaSupportedDebugOnly()'' (
       bindI (impSIMDPopStack retType) (\<lambda>op2.
       bindI (impSIMDPopStack retType) (\<lambda>op1.
       returnI (Some (gtNewSimdNarrowNode retType op1 op2 simdBaseJitType simdSize)))))
     else returnI None))"

definition imp_Vector128_Negate ::
  "Compiler \<Rightarrow> NamedIntrinsic \<Rightarrow> CORINFO_SIG_INFO \<Rightarrow> CorInfoType \<Rightarrow> var_types \<Rightarrow> nat
   \<Rightarrow> var_types \<Rightarrow> GenTree option imp" where
  "imp_Vector128_Negate jit intrinsic sig simdBaseJitType retType simdSize simdBaseType =
    (assertI jit (numArgs sig = 1) ''sig->numArgs == 1'' (
     if simdSize \<noteq> 32 \<or> varTypeIsFloating simdBaseType \<or> compExactlyDependsOn jit InstructionSet_AVX2 then
       bindI (impSIMDPopStack retType) (\<lambda>op1.
       returnI (Some (gtNewSimdUnOpNode GT_NEG retType op1 simdBaseJitType simdSize)))
     else returnI None))"

definition imp_Vector128_OnesComplement ::
  "Compiler \<Rightarrow> NamedIntrinsic \<Rightarrow> CORINFO_SIG_INFO \<Rightarrow> CorInfoType \<Rightarrow> var_types \<Rightarrow> nat
   \<Rightarrow> var_types \<Rightarrow> GenTree option imp" where
  "imp_Vector128_OnesComplement jit intrinsic sig simdBaseJitType retType simdSize simdBaseType =
    (assertI jit (numArgs sig = 1) ''sig->numArgs == 1'' (
     bindI (impSIMDPopStack retType) (\<lambda>op1.
     returnI (Some (gtNewSimdUnOpNode GT_NOT retType op1 simdBaseJitType simdSize)))))"

definition imp_Vector128_op_Inequality ::
  "Compiler \<Rightarrow> NamedIntrinsic \<Rightarrow> CORINFO_SIG_INFO \<Rightarrow> CorInfoType \<Rightarrow> var_types \<Rightarrow> nat
   \<Rightarrow> var_types \<Rightarrow> GenTree option imp" where
  "imp_Vector128_op_Inequality jit intrinsic sig simdBaseJitType retType simdSize simdBaseType =
    (assertI jit (numArgs sig = 2) ''sig->numArgs == 2'' (
     if simdSize \<noteq> 32 \<or> varTypeIsFloating simdBaseType \<or> compExactlyDependsOn jit InstructionSet_AVX2 then
       bindI (liftE (getSIMDTypeForSize simdSize)) (\<lambda>simdType.
       bindI (impSIMDPopStack simdType) (\<lambda>op2.
       bindI (impSIMDPopStack simdType) (\<lambda>op1.
       returnI (Some (gtNewSimdCmpOpAnyNode GT_NE retType op1 op2 simdBaseJitType simdSize)))))
     else returnI None))"

definition imp_Vector512_op_Inequality ::
  "Compiler \<Rightarrow> NamedIntrinsic \<Rightarrow> CORINFO_SIG_INFO \<Rightarrow> CorInfoType \<Rightarrow> var_types \<Rightarrow> nat
   \<Rightarrow> var_types \<Rightarrow> GenTree option imp" where
  "imp_Vector512_op_Inequality jit intrinsic sig simdBaseJitType retType simdSize simdBaseType =
    (assertI jit (numArgs sig = 2) ''sig->numArgs == 2'' (
     if IsBaselineVector512IsaSupported jit then
       bindI (liftE (getSIMDTypeForSize simdSize)) (\<lambda>simdType.
       bindI (impSIMDPopStack simdType) (\<lambda>op2.
       bindI (impSIMDPopStack simdType) (\<lambda>op1.
       returnI (Some (gtNewSimdCmpOpAnyNode GT_NE retType op1 op2 simdBaseJitType simdSize)))))
     else returnI None))"

definition imp_Vector128_op_UnaryPlus ::
  "Compiler \<Rightarrow> NamedIntrinsic \<Rightarrow> CORINFO_SIG_INFO \<Rightarrow> CorInfoType \<Rightarrow> var_types \<Rightarrow> nat
   \<Rightarrow> var_types \<Rightarrow> GenTree option imp" where
  "imp_Vector128_op_UnaryPlus jit intrinsic sig simdBaseJitType retType simdSize simdBaseType =
    (assertI jit (numArgs sig = 1) ''sig->numArgs == 1'' (
     bindI (impSIMDPopStack retType) (\<lambda>retNode.
     returnI (Some retNode))))"

definition imp_Vector128_Subtract ::
  "Compiler \<Rightarrow> NamedIntrinsic \<Rightarrow> CORINFO_SIG_INFO \<Rightarrow> CorInfoType \<Rightarrow> var_types \<Rightarrow> nat
   \<Rightarrow> var_types \<Rightarrow> GenTree option imp" where
  "imp_Vector128_Subtract jit intrinsic sig simdBaseJitType retType simdSize simdBaseType =
    (assertI jit (numArgs sig = 2) ''sig->numArgs == 2'' (
     if simdSize \<noteq> 32 \<or> varTypeIsFloating simdBaseType \<or> compExactlyDependsOn jit InstructionSet_AVX2 then
       bindI (impSIMDPopStack retType) (\<lambda>op2.
       bindI (impSIMDPopStack retType) (\<lambda>op1.
       returnI (Some (gtNewSimdBinOpNode GT_SUB retType op1 op2 simdBaseJitType simdSize))))
     else returnI None))"

definition imp_Vector128_ShiftLeft ::
  "Compiler \<Rightarrow> NamedIntrinsic \<Rightarrow> CORINFO_SIG_INFO \<Rightarrow> CorInfoType \<Rightarrow> var_types \<Rightarrow> nat
   \<Rightarrow> var_types \<Rightarrow> GenTree option imp" where
  "imp_Vector128_ShiftLeft jit intrinsic sig simdBaseJitType retType simdSize simdBaseType =
    (assertI jit (numArgs sig = 2) ''sig->numArgs == 2'' (
     if varTypeIsByte simdBaseType then returnI None
     else if simdSize \<noteq> 32 \<or> compExactlyDependsOn jit InstructionSet_AVX2 then
       bindI (impPopStack) (\<lambda>op2.
       bindI (impSIMDPopStack retType) (\<lambda>op1.
       returnI (Some (gtNewSimdBinOpNode GT_LSH retType op1 op2 simdBaseJitType simdSize))))
     else returnI None))"

definition imp_Vector128_ShiftRightArithmetic ::
  "Compiler \<Rightarrow> NamedIntrinsic \<Rightarrow> CORINFO_SIG_INFO \<Rightarrow> CorInfoType \<Rightarrow> var_types \<Rightarrow> nat
   \<Rightarrow> var_types \<Rightarrow> GenTree option imp" where
  "imp_Vector128_ShiftRightArithmetic jit intrinsic sig simdBaseJitType retType simdSize simdBaseType =
    (assertI jit (numArgs sig = 2) ''sig->numArgs == 2'' (
     if varTypeIsByte simdBaseType then returnI None
     else if (varTypeIsLong simdBaseType \<or> simdBaseType = TYP_DOUBLE)
             \<and> \<not> compOpportunisticallyDependsOn jit InstructionSet_AVX512F_VL then returnI None
     else if simdSize \<noteq> 32 \<or> compExactlyDependsOn jit InstructionSet_AVX2 then
       bindI (impPopStack) (\<lambda>op2.
       bindI (impSIMDPopStack retType) (\<lambda>op1.
       returnI (Some (gtNewSimdBinOpNode (if varTypeIsUnsigned simdBaseType then GT_RSZ else GT_RSH)
         retType op1 op2 simdBaseJitType simdSize))))
     else returnI None))"

definition imp_Vector128_ShiftRightLogical ::
  "Compiler \<Rightarrow> NamedIntrinsic \<Rightarrow> CORINFO_SIG_INFO \<Rightarrow> CorInfoType \<Rightarrow> var_types \<Rightarrow> nat
   \<Rightarrow> var_types \<Rightarrow> GenTree option imp" where
  "imp_Vector128_ShiftRightLogical jit intrinsic sig simdBaseJitType retType simdSize simdBaseType =
    (assertI jit (numArgs sig = 2) ''sig->numArgs == 2'' (
     if varTypeIsByte simdBaseType then returnI None
     else if simdSize \<noteq> 32 \<or> compExactlyDependsOn jit InstructionSet_AVX2 then
       bindI (impPopStack) (\<lambda>op2.
       bindI (impSIMDPopStack retType) (\<lambda>op1.
       returnI (Some (gtNewSimdBinOpNode GT_RSZ retType op1 op2 simdBaseJitType simdSize))))
     else returnI None))"

definition imp_Vector128_Shuffle ::
  "Compiler \<Rightarrow> NamedIntrinsic \<Rightarrow> CORINFO_SIG_INFO \<Rightarrow> CorInfoType \<Rightarrow> var_types \<Rightarrow> nat
   \<Rightarrow> var_types \<Rightarrow> GenTree option imp" where
  "imp_Vector128_Shuffle jit intrinsic sig simdBaseJitType retType simdSize simdBaseType =
    (assertI jit (numArgs sig = 2 \<or> numArgs sig = 3) ''(sig->numArgs == 2) || (sig->numArgs == 3)'' (
     assertI jit (simdSize = 16 \<or> simdSize = 32) ''(simdSize == 16) || (simdSize == 32)'' (
     bindI (impStackTop 0) (\<lambda>indices.
     if \<not> IsVectorConst indices then returnI None
     else if genTypeSize simdBaseType = 0 then failI DivideByZero
     else if simdSize = 32 then
       (if \<not> compExactlyDependsOn jit InstructionSet_AVX2 then returnI None
        else if varTypeIsSmallInt simdBaseType
                \<and> crossLaneLoop jit indices simdBaseType (simdSize div genTypeSize simdBaseType) 0
        then returnI None
        else
          (if numArgs sig = 2 then
             bindI (impSIMDPopStack retType) (\<lambda>op2.
             bindI (impSIMDPopStack retType) (\<lambda>op1.
             returnI (Some (gtNewSimdShuffleNode retType op1 op2 simdBaseJitType simdSize))))
            else returnI None))
     else
       assertI jit (simdSize = 16) ''simdSize == 16'' (
       if varTypeIsSmallInt simdBaseType \<and> \<not> compExactlyDependsOn jit InstructionSet_SSSE3
        then returnI None
        else
          (if numArgs sig = 2 then
             bindI (impSIMDPopStack retType) (\<lambda>op2.
             bindI (impSIMDPopStack retType) (\<lambda>op1.
             returnI (Some (gtNewSimdShuffleNode retType op1 op2 simdBaseJitType simdSize))))
            else returnI None))))))"

definition imp_Vector128_Sqrt ::
  "Compiler \<Rightarrow> NamedIntrinsic \<Rightarrow> CORINFO_SIG_INFO \<Rightarrow> CorInfoType \<Rightarrow> var_types \<Rightarrow> nat
   \<Rightarrow> var_types \<Rightarrow> GenTree option imp" where
  "imp_Vector128_Sqrt jit intrinsic sig simdBaseJitType retType simdSize simdBaseType =
    (assertI jit (numArgs sig = 1) ''sig->numArgs == 1'' (
     if varTypeIsFloating simdBaseType then
       bindI (impSIMDPopStack retType) (\<lambda>op1.
       returnI (Some (gtNewSimdSqrtNode retType op1 simdBaseJitType simdSize)))
     else returnI None))"

definition imp_SSE_Store ::
  "Compiler \<Rightarrow> NamedIntrinsic \<Rightarrow> CORINFO_SIG_INFO \<Rightarrow> CorInfoType \<Rightarrow> var_types \<Rightarrow> nat
   \<Rightarrow> var_types \<Rightarrow> GenTree option imp" where
  "imp_SSE_Store jit intrinsic sig simdBaseJitType retType simdSize simdBaseType =
    (assertI jit (retType = TYP_VOID) ''retType == TYP_VOID'' (
     assertI jit (numArgs sig = 2) ''sig->numArgs == 2'' (
     bindI (liftE (getSIMDTypeForSize simdSize)) (\<lambda>simdType.
     bindI (impSIMDPopStack simdType) (\<lambda>op2.
     bindI (impPopStack) (\<lambda>op1.
     returnI (Some (gtNewSimdStoreNode (throwAwayCast op1) op2 simdBaseJitType simdSize))))))))"

definition imp_Vector128_Store ::
  "Compiler \<Rightarrow> NamedIntrinsic \<Rightarrow> CORINFO_SIG_INFO \<Rightarrow> CorInfoType \<Rightarrow> var_types \<Rightarrow> nat
   \<Rightarrow> var_types \<Rightarrow> GenTree option imp" where
  "imp_Vector128_Store jit intrinsic sig simdBaseJitType retType simdSize simdBaseType =
    (assertI jit (retType = TYP_VOID) ''retType == TYP_VOID'' (
     bindI (liftE (getSIMDTypeForSize simdSize)) (\<lambda>simdType.
     if numArgs sig = 3 then
       bindI (verCurrentState_esStackDepth) (\<lambda>depth.
       bindI (impSpillSideEffect jit True (depth_minus depth 3)) (\<lambda>_.
       bindI (impPopStack) (\<lambda>op3.
       bindI (impPopStack) (\<lambda>op2.
       bindI (impSIMDPopStack simdType) (\<lambda>op1.
       returnI (Some (gtNewSimdStoreNode
         (gtNewOperNode GT_ADD (TypeGet (throwAwayCast op2)) (throwAwayCast op2)
            (gtNewOperNode GT_MUL (TypeGet op3) op3
               (gtNewIconNode (word_of_nat (genTypeSize simdBaseType)) (TypeGet op3))))
         op1 simdBaseJitType simdSize)))))))
     else
       assertI jit (numArgs sig = 2) ''sig->numArgs == 2'' (
       bindI (verCurrentState_esStackDepth) (\<lambda>depth.
       bindI (impSpillSideEffect jit True (depth_minus depth 2)) (\<lambda>_.
       bindI (impPopStack) (\<lambda>op2.
       bindI (impSIMDPopStack simdType) (\<lambda>op1.
       returnI (Some (gtNewSimdStoreNode (throwAwayCast op2) op1 simdBaseJitType simdSize))))))))))"

definition imp_Vector128_StoreAligned ::
  "Compiler \<Rightarrow> NamedIntrinsic \<Rightarrow> CORINFO_SIG_INFO \<Rightarrow> CorInfoType \<Rightarrow> var_types \<Rightarrow> nat
   \<Rightarrow> var_types \<Rightarrow> GenTree option imp" where
  "imp_Vector128_StoreAligned jit intrinsic sig simdBaseJitType retType simdSize simdBaseType =
    (assertI jit (numArgs sig = 2) ''sig->numArgs == 2'' (
     assertI jit (retType = TYP_VOID) ''retType == TYP_VOID'' (
     bindI (liftE (getSIMDTypeForSize simdSize)) (\<lambda>simdType.
     bindI (verCurrentState_esStackDepth) (\<lambda>depth.
     bindI (impSpillSideEffect jit True (depth_minus depth 2)) (\<lambda>_.
     bindI (impPopStack) (\<lambda>op2.
     bindI (impSIMDPopStack simdType) (\<lambda>op1.
     returnI (Some (gtNewSimdStoreAlignedNode (throwAwayCast op2) op1 simdBaseJitType simdSize))))))))))"

definition imp_Vector128_StoreAlignedNonTemporal ::
  "Compiler \<Rightarrow> NamedIntrinsic \<Rightarrow> CORINFO_SIG_INFO \<Rightarrow> CorInfoType \<Rightarrow> var_types \<Rightarrow> nat
   \<Rightarrow> var_types \<Rightarrow> GenTree option imp" where
  "imp_Vector128_StoreAlignedNonTemporal jit intrinsic sig simdBaseJitType retType simdSize simdBaseType =
    (assertI jit (numArgs sig = 2) ''sig->numArgs == 2'' (
     assertI jit (retType = TYP_VOID) ''retType == TYP_VOID'' (
     bindI (liftE (getSIMDTypeForSize simdSize)) (\<lambda>simdType.
     bindI (verCurrentState_esStackDepth) (\<lambda>depth.
     bindI (impSpillSideEffect jit True (depth_minus depth 2)) (\<lambda>_.
     bindI (impPopStack) (\<lambda>op2.
     bindI (impSIMDPopStack simdType) (\<lambda>op1.
     returnI (Some (gtNewSimdStoreNonTemporalNode (throwAwayCast op2) op1 simdBaseJitType simdSize))))))))))"

definition imp_Vector128_Sum ::
  "Compiler \<Rightarrow> NamedIntrinsic \<Rightarrow> CORINFO_SIG_INFO \<Rightarrow> CorInfoType \<Rightarrow> var_types \<Rightarrow> nat
   \<Rightarrow> var_types \<Rightarrow> GenTree option imp" where
  "imp_Vector128_Sum jit intrinsic sig simdBaseJitType retType simdSize simdBaseType =
    (assertI jit (numArgs sig = 1) ''sig->numArgs == 1'' (
     bindI (liftE (getSIMDTypeForSize simdSize)) (\<lambda>simdType.
     if simdSize = 32 \<and> \<not> compOpportunisticallyDependsOn jit InstructionSet_AVX2 then returnI None
     else if varTypeIsFloating simdBaseType
             \<and> \<not> compOpportunisticallyDependsOn jit InstructionSet_SSE3 then returnI None
     else if \<not> varTypeIsFloating simdBaseType
             \<and> \<not> compOpportunisticallyDependsOn jit InstructionSet_SSSE3 then returnI None
     else if \<not> varTypeIsFloating simdBaseType
             \<and> (varTypeIsByte simdBaseType \<or> varTypeIsLong simdBaseType) then returnI None
     else
       bindI (impSIMDPopStack simdType) (\<lambda>op1.
       returnI (Some (gtNewSimdSumNode retType op1 simdBaseJitType simdSize))))))"

definition imp_Vector128_ToScalar ::
  "Compiler \<Rightarrow> NamedIntrinsic \<Rightarrow> CORINFO_SIG_INFO \<Rightarrow> CorInfoType \<Rightarrow> var_types \<Rightarrow> nat
   \<Rightarrow> var_types \<Rightarrow> GenTree option imp" where
  "imp_Vector128_ToScalar jit intrinsic sig simdBaseJitType retType simdSize simdBaseType =
    (assertI jit (numArgs sig = 1) ''sig->numArgs == 1'' (
     if TARGET_X86 jit \<and> varTypeIsLong simdBaseType then returnI None
     else
       bindI (liftE (getSIMDTypeForSize simdSize)) (\<lambda>simdType.
       bindI (impSIMDPopStack simdType) (\<lambda>op1.
       returnI (Some (gtNewSimdHWIntrinsicNode retType [op1] intrinsic simdBaseJitType simdSize))))))"

definition imp_Vector128_ToVector256 ::
  "Compiler \<Rightarrow> NamedIntrinsic \<Rightarrow> CORINFO_SIG_INFO \<Rightarrow> CorInfoType \<Rightarrow> var_types \<Rightarrow> nat
   \<Rightarrow> var_types \<Rightarrow> GenTree option imp" where
  "imp_Vector128_ToVector256 jit intrinsic sig simdBaseJitType retType simdSize simdBaseType =
    (assertI jit (numArgs sig = 1) ''sig->numArgs == 1'' (
     assertI jit (compIsaSupportedDebugOnly jit InstructionSet_AVX) ''compIsaSupportedDebugOnly(InstructionSet_AVX)'' (
     bindI (liftE (getSIMDTypeForSize simdSize)) (\<lambda>simdType.
     bindI (impSIMDPopStack simdType) (\<lambda>op1.
     returnI (Some (gtNewSimdHWIntrinsicNode retType [op1] intrinsic simdBaseJitType simdSize)))))))"

definition imp_Vector256_GetLower ::
  "Compiler \<Rightarrow> NamedIntrinsic \<Rightarrow> CORINFO_SIG_INFO \<Rightarrow> CorInfoType \<Rightarrow> var_types \<Rightarrow> nat
   \<Rightarrow> var_types \<Rightarrow> GenTree option imp" where
  "imp_Vector256_GetLower jit intrinsic sig simdBaseJitType retType simdSize simdBaseType =
    (assertI jit (numArgs sig = 1) ''sig->numArgs == 1'' (
     assertI jit (compIsaSupportedDebugOnly jit InstructionSet_AVX) ''compIsaSupportedDebugOnly(InstructionSet_AVX)'' (
     bindI (liftE (getSIMDTypeForSize simdSize)) (\<lambda>simdType.
     bindI (impSIMDPopStack simdType) (\<lambda>op1.
     returnI (Some (gtNewSimdGetLowerNode retType op1 simdBaseJitType simdSize)))))))"

definition imp_Vector256_GetUpper ::
  "Compiler \<Rightarrow> NamedIntrinsic \<Rightarrow> CORINFO_SIG_INFO \<Rightarrow> CorInfoType \<Rightarrow> var_types \<Rightarrow> nat
   \<Rightarrow> var_types \<Rightarrow> GenTree option imp" where
  "imp_Vector256_GetUpper jit intrinsic sig simdBaseJitType retType simdSize simdBaseType =
    (assertI jit (numArgs sig = 1) ''sig->numArgs == 1'' (
     assertI jit (compIsaSupportedDebugOnly jit InstructionSet_AVX) ''compIsaSupportedDebugOnly(InstructionSet_AVX)'' (
     bindI (liftE (getSIMDTypeForSize simdSize)) (\<lambda>simdType.
     bindI (impSIMDPopStack simdType) (\<lambda>op1.
     returnI (Some (gtNewSimdGetUpperNode retType op1 simdBaseJitType simdSize)))))))"

definition imp_Vector512_GetLower ::
  "Compiler \<Rightarrow> NamedIntrinsic \<Rightarrow> CORINFO_SIG_INFO \<Rightarrow> CorInfoType \<Rightarrow> var_types \<Rightarrow> nat
   \<Rightarrow> var_types \<Rightarrow> GenTree option imp" where
  "imp_Vector512_GetLower jit intrinsic sig simdBaseJitType retType simdSize simdBaseType =
    (assertI jit (numArgs sig = 1) ''sig->numArgs == 1'' (
     assertI jit (IsBaselineVector512IsaSupportedDebugOnly jit) ''IsBaselineVector512IsaSupportedDebugOnly()'' (
     bindI (liftE (getSIMDTypeForSize simdSize)) (\<lambda>simdType.
     bindI (impSIMDPopStack simdType) (\<lambda>op1.
     returnI (Some (gtNewSimdGetLowerNode retType op1 simdBaseJitType simdSize)))))))"

definition imp_Vector512_GetUpper ::
  "Compiler \<Rightarrow> NamedIntrinsic \<Rightarrow> CORINFO_SIG_INFO \<Rightarrow> CorInfoType \<Rightarrow> var_types \<Rightarrow> nat
   \<Rightarrow> var_types \<Rightarrow> GenTree option imp" where
  "imp_Vector512_GetUpper jit intrinsic sig simdBaseJitType retType simdSize simdBaseType =
    (assertI jit (numArgs sig = 1) ''sig->numArgs == 1'' (
     assertI jit (IsBaselineVector512IsaSupportedDebugOnly jit) ''IsBaselineVector512IsaSupportedDebugOnly()'' (
     bindI (liftE (getSIMDTypeForSize simdSize)) (\<lambda>simdType.
     bindI (impSIMDPopStack simdType) (\<lambda>op1.
     returnI (Some (gtNewSimdGetUpperNode retType op1 simdBaseJitType simdSize)))))))"

definition imp_Vector128_ToVector512 ::
  "Compiler \<Rightarrow> NamedIntrinsic \<Rightarrow> CORINFO_SIG_INFO \<Rightarrow> CorInfoType \<Rightarrow> var_types \<Rightarrow> nat
   \<Rightarrow> var_types \<Rightarrow> GenTree option imp" where
  "imp_Vector128_ToVector512 jit intrinsic sig simdBaseJitType retType simdSize simdBaseType =
    (assertI jit (numArgs sig = 1) ''sig->numArgs == 1'' (
     assertI jit (IsBaselineVector512IsaSupportedDebugOnly jit) ''IsBaselineVector512IsaSupportedDebugOnly()'' (
     bindI (liftE (getSIMDTypeForSize simdSize)) (\<lambda>simdType.
     bindI (impSIMDPopStack simdType) (\<lambda>op1.
     returnI (Some (gtNewSimdHWIntrinsicNode retType [op1] intrinsic simdBaseJitType simdSize)))))))"

definition imp_Vector128_WidenLower ::
  "Compiler \<Rightarrow> NamedIntrinsic \<Rightarrow> CORINFO_SIG_INFO \<Rightarrow> CorInfoType \<Rightarrow> var_types \<Rightarrow> nat
   \<Rightarrow> var_types \<Rightarrow> GenTree option imp" where
  "imp_Vector128_WidenLower jit intrinsic sig simdBaseJitType retType simdSize simdBaseType =
    (assertI jit (numArgs sig = 1) ''sig->numArgs == 1'' (
     if simdSize \<noteq> 32 \<or> varTypeIsFloating simdBaseType \<or> compExactlyDependsOn jit InstructionSet_AVX2 then
       assertI jit (simdSize \<noteq> 64 \<or> IsBaselineVector512IsaSupportedDebugOnly jit) ''(simdSize != 64) || IsBaselineVector512IsaSupportedDebugOnly()'' (
       bindI (impSIMDPopStack retType) (\<lambda>op1.
       returnI (Some (gtNewSimdWidenLowerNode retType op1 simdBaseJitType simdSize))))
     else returnI None))"

definition imp_Vector128_WidenUpper ::
  "Compiler \<Rightarrow> NamedIntrinsic \<Rightarrow> CORINFO_SIG_INFO \<Rightarrow> CorInfoType \<Rightarrow> var_types \<Rightarrow> nat
   \<Rightarrow> var_types \<Rightarrow> GenTree option imp" where
  "imp_Vector128_WidenUpper jit intrinsic sig simdBaseJitType retType simdSize simdBaseType =
    (assertI jit (numArgs sig = 1) ''sig->numArgs == 1'' (
     if simdSize \<noteq> 32 \<or> varTypeIsFloating simdBaseType \<or> compExactlyDependsOn jit InstructionSet_AVX2 then
       assertI jit (simdSize \<noteq> 64 \<or> IsBaselineVector512IsaSupportedDebugOnly jit) ''(simdSize != 64) || IsBaselineVector512IsaSupportedDebugOnly()'' (
       bindI (impSIMDPopStack retType) (\<lambda>op1.
       returnI (Some (gtNewSimdWidenUpperNode retType op1 simdBaseJitType simdSize))))
     else returnI None))"

definition imp_Vector128_WithElement ::
  "Compiler \<Rightarrow> NamedIntrinsic \<Rightarrow> CORINFO_SIG_INFO \<Rightarrow> CorInfoType \<Rightarrow> var_types \<Rightarrow> nat
   \<Rightarrow> var_types \<Rightarrow> GenTree option imp" where
  "imp_Vector128_WithElement jit intrinsic sig simdBaseJitType retType simdSize simdBaseType =
    (assertI jit (numArgs sig = 3) ''sig->numArgs == 3'' (
     bindI (impStackTop 1) (\<lambda>indexOp.
     if \<not> OperIsConst indexOp then returnI None
     else
       bindI (liftE (IconValue indexOp)) (\<lambda>imm8.
       if genTypeSize simdBaseType = 0 then failI DivideByZero
       else if sint imm8 \<ge> int (simdSize div genTypeSize simdBaseType) \<or> sint imm8 < 0
       then returnI None
       else if simdBaseType \<in> set [TYP_BYTE, TYP_UBYTE, TYP_INT, TYP_UINT]
               \<and> \<not> compExactlyDependsOn jit InstructionSet_SSE41 then returnI None
       else if varTypeIsLong simdBaseType
               \<and> \<not> compExactlyDependsOn jit InstructionSet_SSE41_X64 then returnI None
       else if \<not> varTypeIsArithmetic simdBaseType then failI Unreached
       else
         bindI (impPopStack) (\<lambda>valueOp.
         bindI (impPopStack) (\<lambda>_.
         bindI (liftE (getSIMDTypeForSize simdSize)) (\<lambda>simdType.
         bindI (impSIMDPopStack simdType) (\<lambda>vectorOp.
         returnI (Some (gtNewSimdWithElementNode retType vectorOp indexOp valueOp simdBaseJitType simdSize))))))))))"

definition imp_Vector256_WithLower ::
  "Compiler \<Rightarrow> NamedIntrinsic \<Rightarrow> CORINFO_SIG_INFO \<Rightarrow> CorInfoType \<Rightarrow> var_types \<Rightarrow> nat
   \<Rightarrow> var_types \<Rightarrow> GenTree option imp" where
  "imp_Vector256_WithLower jit intrinsic sig simdBaseJitType retType simdSize simdBaseType =
    (assertI jit (numArgs sig = 2) ''sig->numArgs == 2'' (
     assertI jit (compIsaSupportedDebugOnly jit InstructionSet_AVX) ''compIsaSupportedDebugOnly(InstructionSet_AVX)'' (
     bindI (impSIMDPopStack TYP_SIMD16) (\<lambda>op2.
     bindI (impSIMDPopStack TYP_SIMD32) (\<lambda>op1.
     returnI (Some (gtNewSimdWithLowerNode retType op1 op2 simdBaseJitType simdSize)))))))"

definition imp_Vector256_WithUpper ::
  "Compiler \<Rightarrow> NamedIntrinsic \<Rightarrow> CORINFO_SIG_INFO \<Rightarrow> CorInfoType \<Rightarrow> var_types \<Rightarrow> nat
   \<Rightarrow> var_types \<Rightarrow> GenTree option imp" where
  "imp_Vector256_WithUpper jit intrinsic sig simdBaseJitType retType simdSize simdBaseType =
    (assertI jit (numArgs sig = 2) ''sig->numArgs == 2'' (
     assertI jit (compIsaSupportedDebugOnly jit InstructionSet_AVX) ''compIsaSupportedDebugOnly(InstructionSet_AVX)'' (
     bindI (impSIMDPopStack TYP_SIMD16) (\<lambda>op2.
     bindI (impSIMDPopStack TYP_SIMD32) (\<lambda>op1.
     returnI (Some (gtNewSimdWithUpperNode retType op1 op2 simdBaseJitType simdSize)))))))"

definition imp_Vector512_WithLower ::
  "Compiler \<Rightarrow> NamedIntrinsic \<Rightarrow> CORINFO_SIG_INFO \<Rightarrow> CorInfoType \<Rightarrow> var_types \<Rightarrow> nat
   \<Rightarrow> var_types \<Rightarrow> GenTree option imp" where
  "imp_Vector512_WithLower jit intrinsic sig simdBaseJitType retType simdSize simdBaseType =
    (assertI jit (numArgs sig = 2) ''sig->numArgs == 2'' (
     assertI jit (IsBaselineVector512IsaSupportedDebugOnly jit) ''IsBaselineVector512IsaSupportedDebugOnly()'' (
     bindI (impSIMDPopStack TYP_SIMD32) (\<lambda>op2.
     bindI (impSIMDPopStack TYP_SIMD64) (\<lambda>op1.
     returnI (Some (gtNewSimdWithLowerNode retType op1 op2 simdBaseJitType simdSize)))))))"

definition imp_Vector512_WithUpper ::
  "Compiler \<Rightarrow> NamedIntrinsic \<Rightarrow> CORINFO_SIG_INFO \<Rightarrow> CorInfoType \<Rightarrow> var_types \<Rightarrow> nat
   \<Rightarrow> var_types \<Rightarrow> GenTree option imp" where
  "imp_Vector512_WithUpper jit intrinsic sig simdBaseJitType retType simdSize simdBaseType =
    (assertI jit (numArgs sig = 2) ''sig->numArgs == 2'' (
     assertI jit (IsBaselineVector512IsaSupportedDebugOnly jit) ''IsBaselineVector512IsaSupportedDebugOnly()'' (
     bindI (impSIMDPopStack TYP_SIMD32) (\<lambda>op2.
     bindI (impSIMDPopStack TYP_SIMD64) (\<lambda>op1.
     returnI (Some (gtNewSimdWithUpperNode retType op1 op2 simdBaseJitType simdSize)))))))"

definition imp_Vector128_Xor ::
  "Compiler \<Rightarrow> NamedIntrinsic \<Rightarrow> CORINFO_SIG_INFO \<Rightarrow> CorInfoType \<Rightarrow> var_types \<Rightarrow> nat
   \<Rightarrow> var_types \<Rightarrow> GenTree option imp" where
  "imp_Vector128_Xor jit intrinsic sig simdBaseJitType retType simdSize simdBaseType =
    (assertI jit (numArgs sig = 2) ''sig->numArgs == 2'' (
     bindI (impSIMDPopStack retType) (\<lambda>op2.
     bindI (impSIMDPopStack retType) (\<lambda>op1.
     returnI (Some (gtNewSimdBinOpNode GT_XOR retType op1 op2 simdBaseJitType simdSize))))))"

definition imp_X86Base_Pause ::
  "Compiler \<Rightarrow> NamedIntrinsic \<Rightarrow> CORINFO_SIG_INFO \<Rightarrow> CorInfoType \<Rightarrow> var_types \<Rightarrow> nat
   \<Rightarrow> var_types \<Rightarrow> GenTree option imp" where
  "imp_X86Base_Pause jit intrinsic sig simdBaseJitType retType simdSize simdBaseType =
    (assertI jit (numArgs sig = 0) ''sig->numArgs == 0'' (
     assertI jit (JITtype2varType jit (sigRetType sig) = TYP_VOID) ''JITtype2varType(sig->retType) == TYP_VOID'' (
     assertI jit (simdSize = 0) ''simdSize == 0'' (
     returnI (Some (gtNewScalarHWIntrinsicNode TYP_VOID [] intrinsic))))))"

definition imp_X86Base_DivRem ::
  "Compiler \<Rightarrow> NamedIntrinsic \<Rightarrow> CORINFO_SIG_INFO \<Rightarrow> CorInfoType \<Rightarrow> var_types \<Rightarrow> nat
   \<Rightarrow> var_types \<Rightarrow> GenTree option imp" where
  "imp_X86Base_DivRem jit intrinsic sig simdBaseJitType retType simdSize simdBaseType =
    (assertI jit (numArgs sig = 3) ''sig->numArgs == 3'' (
     assertI jit (IsMultiReg (hwInfo jit) intrinsic) ''HWIntrinsicInfo::IsMultiReg(intrinsic)'' (
     assertI jit (retType = TYP_STRUCT) ''retType == TYP_STRUCT'' (
     assertI jit (simdBaseJitType \<noteq> CORINFO_TYPE_UNDEF) ''simdBaseJitType != CORINFO_TYPE_UNDEF'' (
     bindI (impPopStack) (\<lambda>op3.
     bindI (impPopStack) (\<lambda>op2.
     bindI (impPopStack) (\<lambda>op1.
     bindI (impAssignMultiRegTypeToVar
              (SetSimdBaseJitType simdBaseJitType
                 (gtNewScalarHWIntrinsicNode retType [op1, op2, op3] intrinsic))
              (retTypeSigClass sig)) (\<lambda>retNode.
     returnI (Some retNode))))))))))"

definition imp_SSE_CompareScalarGreaterThan ::
  "Compiler \<Rightarrow> NamedIntrinsic \<Rightarrow> CORINFO_SIG_INFO \<Rightarrow> CorInfoType \<Rightarrow> var_types \<Rightarrow> nat
   \<Rightarrow> var_types \<Rightarrow> GenTree option imp" where
  "imp_SSE_CompareScalarGreaterThan jit intrinsic sig simdBaseJitType retType simdSize simdBaseType =
    (assertI jit (numArgs sig = 2) ''sig->numArgs == 2'' (
     if compOpportunisticallyDependsOn jit InstructionSet_AVX then
       bindI (impSIMDPopStack TYP_SIMD16) (\<lambda>op2.
       bindI (impSIMDPopStack TYP_SIMD16) (\<lambda>op1.
       assertI jit (JitType2PreciseVarType jit (getBaseJitTypeOfSIMDType jit (retTypeSigClass sig)) = TYP_FLOAT) ''JitType2PreciseVarType(simdBaseJitType) == TYP_FLOAT'' (
       returnI (Some (gtNewSimdHWIntrinsicNode TYP_SIMD16
         [op1, op2, gtNewIconNode (word_of_int (lookupIval (hwInfo jit) intrinsic True)) TYP_INT]
         NI_AVX_CompareScalar (getBaseJitTypeOfSIMDType jit (retTypeSigClass sig)) simdSize)))))
     else
       bindI (verCurrentState_esStackDepth) (\<lambda>depth.
       bindI (impSpillSideEffect jit True (depth_minus depth 2)) (\<lambda>_.
       bindI (impSIMDPopStack TYP_SIMD16) (\<lambda>op2.
       bindI (impSIMDPopStack TYP_SIMD16) (\<lambda>op1.
       assertI jit (JitType2PreciseVarType jit (getBaseJitTypeOfSIMDType jit (retTypeSigClass sig)) = TYP_FLOAT) ''JitType2PreciseVarType(simdBaseJitType) == TYP_FLOAT'' (
       bindI (impCloneExpr jit op1) (\<lambda>cloned.
       returnI (Some (gtNewSimdHWIntrinsicNode TYP_SIMD16
         [snd cloned,
          gtNewSimdHWIntrinsicNode TYP_SIMD16 [op2, fst cloned] intrinsic (getBaseJitTypeOfSIMDType jit (retTypeSigClass sig)) simdSize]
         NI_SSE_MoveScalar (getBaseJitTypeOfSIMDType jit (retTypeSigClass sig)) simdSize))))))))))"

definition imp_SSE_Prefetch0 ::
  "Compiler \<Rightarrow> NamedIntrinsic \<Rightarrow> CORINFO_SIG_INFO \<Rightarrow> CorInfoType \<Rightarrow> var_types \<Rightarrow> nat
   \<Rightarrow> var_types \<Rightarrow> GenTree option imp" where
  "imp_SSE_Prefetch0 jit intrinsic sig simdBaseJitType retType simdSize simdBaseType =
    (assertI jit (numArgs sig = 1) ''sig->numArgs == 1'' (
     assertI jit (JITtype2varType jit (sigRetType sig) = TYP_VOID) ''JITtype2varType(sig->retType) == TYP_VOID'' (
     bindI (impPopStack) (\<lambda>op1.
     returnI (Some (gtNewSimdHWIntrinsicNode TYP_VOID [op1] intrinsic CORINFO_TYPE_UBYTE 0))))))"

definition imp_SSE_StoreFence ::
  "Compiler \<Rightarrow> NamedIntrinsic \<Rightarrow> CORINFO_SIG_INFO \<Rightarrow> CorInfoType \<Rightarrow> var_types \<Rightarrow> nat
   \<Rightarrow> var_types \<Rightarrow> GenTree option imp" where
  "imp_SSE_StoreFence jit intrinsic sig simdBaseJitType retType simdSize simdBaseType =
    (assertI jit (numArgs sig = 0) ''sig->numArgs == 0'' (
     assertI jit (JITtype2varType jit (sigRetType sig) = TYP_VOID) ''JITtype2varType(sig->retType) == TYP_VOID'' (
     returnI (Some (gtNewScalarHWIntrinsicNode TYP_VOID [] intrinsic)))))"

definition imp_SSE2_CompareScalarGreaterThan ::
  "Compiler \<Rightarrow> NamedIntrinsic \<Rightarrow> CORINFO_SIG_INFO \<Rightarrow> CorInfoType \<Rightarrow> var_types \<Rightarrow> nat
   \<Rightarrow> var_types \<Rightarrow> GenTree option imp" where
  "imp_SSE2_CompareScalarGreaterThan jit intrinsic sig simdBaseJitType retType simdSize simdBaseType =
    (assertI jit (numArgs sig = 2) ''sig->numArgs == 2'' (
     if compOpportunisticallyDependsOn jit InstructionSet_AVX then
       bindI (impSIMDPopStack TYP_SIMD16) (\<lambda>op2.
       bindI (impSIMDPopStack TYP_SIMD16) (\<lambda>op1.
       assertI jit (JitType2PreciseVarType jit simdBaseJitType = TYP_DOUBLE) ''JitType2PreciseVarType(simdBaseJitType) == TYP_DOUBLE'' (
       returnI (Some (gtNewSimdHWIntrinsicNode TYP_SIMD16
         [op1, op2, gtNewIconNode (word_of_int (lookupIval (hwInfo jit) intrinsic True)) TYP_INT]
         NI_AVX_CompareScalar (simdBaseJitType) simdSize)))))
     else
       bindI (verCurrentState_esStackDepth) (\<lambda>depth.
       bindI (impSpillSideEffect jit True (depth_minus depth 2)) (\<lambda>_.
       bindI (impSIMDPopStack TYP_SIMD16) (\<lambda>op2.
       bindI (impSIMDPopStack TYP_SIMD16) (\<lambda>op1.
       assertI jit (JitType2PreciseVarType jit simdBaseJitType = TYP_DOUBLE) ''JitType2PreciseVarType(simdBaseJitType) == TYP_DOUBLE'' (
       bindI (impCloneExpr jit op1) (\<lambda>cloned.
       returnI (Some (gtNewSimdHWIntrinsicNode TYP_SIMD16
         [snd cloned,
          gtNewSimdHWIntrinsicNode TYP_SIMD16 [op2, fst cloned] intrinsic (simdBaseJitType) simdSize]
         NI_SSE2_MoveScalar (simdBaseJitType) simdSize))))))))))"

definition imp_SSE2_LoadFence ::
  "Compiler \<Rightarrow> NamedIntrinsic \<Rightarrow> CORINFO_SIG_INFO \<Rightarrow> CorInfoType \<Rightarrow> var_types \<Rightarrow> nat
   \<Rightarrow> var_types \<Rightarrow> GenTree option imp" where
  "imp_SSE2_LoadFence jit intrinsic sig simdBaseJitType retType simdSize simdBaseType =
    (assertI jit (numArgs sig = 0) ''sig->numArgs == 0'' (
     assertI jit (JITtype2varType jit (sigRetType sig) = TYP_VOID) ''JITtype2varType(sig->retType) == TYP_VOID'' (
     assertI jit (simdSize = 0) ''simdSize == 0'' (
     returnI (Some (gtNewScalarHWIntrinsicNode TYP_VOID [] intrinsic))))))"

definition imp_SSE2_StoreNonTemporal ::
  "Compiler \<Rightarrow> NamedIntrinsic \<Rightarrow> CORINFO_SIG_INFO \<Rightarrow> CorInfoType \<Rightarrow> var_types \<Rightarrow> nat
   \<Rightarrow> var_types \<Rightarrow> GenTree option imp" where
  "imp_SSE2_StoreNonTemporal jit intrinsic sig simdBaseJitType retType simdSize simdBaseType =
    (assertI jit (numArgs sig = 2) ''sig->numArgs == 2'' (
     assertI jit (JITtype2varType jit (sigRetType sig) = TYP_VOID) ''JITtype2varType(sig->retType) == TYP_VOID'' (
     bindI (impPopStack) (\<lambda>op2.
     bindI (impPopStack) (\<lambda>op1.
     returnI (Some (gtNewSimdHWIntrinsicNode TYP_VOID [op1, op2] NI_SSE2_StoreNonTemporal
       (fst (getArgType jit sig (getArgNext jit (sigArgs sig)))) 0)))))))"

definition imp_AVX2_PermuteVar8x32 ::
  "Compiler \<Rightarrow> NamedIntrinsic \<Rightarrow> CORINFO_SIG_INFO \<Rightarrow> CorInfoType \<Rightarrow> var_types \<Rightarrow> nat
   \<Rightarrow> var_types \<Rightarrow> GenTree option imp" where
  "imp_AVX2_PermuteVar8x32 jit intrinsic sig simdBaseJitType retType simdSize simdBaseType =
    (bindI (verCurrentState_esStackDepth) (\<lambda>depth.
     bindI (impSpillSideEffect jit True (depth_minus depth 2)) (\<lambda>_.
     bindI (impSIMDPopStack TYP_SIMD32) (\<lambda>indexVector.
     bindI (impSIMDPopStack TYP_SIMD32) (\<lambda>sourceVector.
     returnI (Some (gtNewSimdHWIntrinsicNode TYP_SIMD32 [indexVector, sourceVector] NI_AVX2_PermuteVar8x32
       (getBaseJitTypeOfSIMDType jit (retTypeSigClass sig)) 32)))))))"

definition imp_AVX2_GatherMaskVector128 ::
  "Compiler \<Rightarrow> NamedIntrinsic \<Rightarrow> CORINFO_SIG_INFO \<Rightarrow> CorInfoType \<Rightarrow> var_types \<Rightarrow> nat
   \<Rightarrow> var_types \<Rightarrow> GenTree option imp" where
  "imp_AVX2_GatherMaskVector128 jit intrinsic sig simdBaseJitType retType simdSize simdBaseType =
    (bindI (liftE (getSIMDTypeForSize (snd (getBaseJitTypeAndSizeOfSIMDType jit (retTypeSigClass sig))))) (\<lambda>gatherRetType.
     assertI jit (numArgs sig = 5) ''sig->numArgs == 5'' (
     bindI (getArgForHWIntrinsic (JITtype2varType jit (fst (getArgType jit sig (getArgNext jit (getArgNext jit (getArgNext jit (getArgNext jit (sigArgs sig))))))))
              (snd (getArgType jit sig (getArgNext jit (getArgNext jit (getArgNext jit (getArgNext jit (sigArgs sig)))))))) (\<lambda>op5.
     bindI (SetOpLclRelatedToSIMDIntrinsic op5) (\<lambda>_.
     bindI (getArgForHWIntrinsic (JITtype2varType jit (fst (getArgType jit sig (getArgNext jit (getArgNext jit (getArgNext jit (sigArgs sig)))))))
              (snd (getArgType jit sig (getArgNext jit (getArgNext jit (getArgNext jit (sigArgs sig))))))) (\<lambda>op4.
     bindI (SetOpLclRelatedToSIMDIntrinsic op4) (\<lambda>_.
     bindI (getArgForHWIntrinsic (JITtype2varType jit (fst (getArgType jit sig (getArgNext jit (getArgNext jit (sigArgs sig))))))
              (snd (getArgType jit sig (getArgNext jit (getArgNext jit (sigArgs sig)))))) (\<lambda>op3.
     bindI (SetOpLclRelatedToSIMDIntrinsic op3) (\<lambda>_.
     bindI (getArgForHWIntrinsic (JITtype2varType jit (fst (getArgType jit sig (getArgNext jit (sigArgs sig)))))
              (snd (getArgType jit sig (getArgNext jit (sigArgs sig))))) (\<lambda>op2.
     bindI (SetOpLclRelatedToSIMDIntrinsic op2) (\<lambda>_.
     bindI (getArgForHWIntrinsic (JITtype2varType jit (fst (getArgType jit sig (sigArgs sig))))
              (snd (getArgType jit sig (sigArgs sig)))) (\<lambda>op1.
     bindI (SetOpLclRelatedToSIMDIntrinsic op1) (\<lambda>_.
     returnI (Some (SetAuxiliaryJitType
       (getBaseJitTypeOfSIMDType jit (snd (getArgType jit sig (getArgNext jit (getArgNext jit (sigArgs sig))))))
       (gtNewSimdHWIntrinsicNode gatherRetType [op1, op2, op3, op4, op5] intrinsic
          (fst (getBaseJitTypeAndSizeOfSIMDType jit (retTypeSigClass sig))) simdSize))))))))))))))))"

definition imp_BMI2_ZeroHighBits ::
  "Compiler \<Rightarrow> NamedIntrinsic \<Rightarrow> CORINFO_SIG_INFO \<Rightarrow> CorInfoType \<Rightarrow> var_types \<Rightarrow> nat
   \<Rightarrow> var_types \<Rightarrow> GenTree option imp" where
  "imp_BMI2_ZeroHighBits jit intrinsic sig simdBaseJitType retType simdSize simdBaseType =
    (assertI jit (numArgs sig = 2) ''sig->numArgs == 2'' (
     bindI (impPopStack) (\<lambda>op2.
     bindI (impPopStack) (\<lambda>op1.
     returnI (Some (gtNewScalarHWIntrinsicNode retType [op2, op1] intrinsic))))))"

definition imp_BMI1_BitFieldExtract ::
  "Compiler \<Rightarrow> NamedIntrinsic \<Rightarrow> CORINFO_SIG_INFO \<Rightarrow> CorInfoType \<Rightarrow> var_types \<Rightarrow> nat
   \<Rightarrow> var_types \<Rightarrow> GenTree option imp" where
  "imp_BMI1_BitFieldExtract jit intrinsic sig simdBaseJitType retType simdSize simdBaseType =
    (if numArgs sig = 3 then returnI None
     else
       assertI jit (numArgs sig = 2) ''sig->numArgs == 2'' (
       bindI (impPopStack) (\<lambda>op2.
       bindI (impPopStack) (\<lambda>op1.
       returnI (Some (gtNewScalarHWIntrinsicNode retType [op2, op1] intrinsic))))))"

definition imp_AsVector128_SIMD8 ::
  "Compiler \<Rightarrow> NamedIntrinsic \<Rightarrow> CORINFO_SIG_INFO \<Rightarrow> CorInfoType \<Rightarrow> var_types \<Rightarrow> nat
   \<Rightarrow> var_types \<Rightarrow> GenTree option imp" where
  "imp_AsVector128_SIMD8 jit intrinsic sig simdBaseJitType retType simdSize simdBaseType =
    (assertI jit (simdSize = 8 \<and> simdBaseType = TYP_FLOAT) ''(simdSize == 8) && (simdBaseType == TYP_FLOAT)'' (
     bindI (impSIMDPopStack TYP_SIMD8) (\<lambda>op1.
     if IsCnsVec op1 then
       bindI (liftE (gtSimdVal op1)) (\<lambda>v0.
       bindI (liftE (set_f32 2 0 v0)) (\<lambda>v2.
       bindI (liftE (set_f32 3 0 v2)) (\<lambda>v3.
       returnI (Some (GT_CNS_VEC TYP_SIMD16 v3)))))
     else
       returnI (Some
         (gtNewSimdWithElementNode retType
            (gtNewSimdWithElementNode retType op1 (gtNewIconNode 2 TYP_INT)
               (gtNewZeroConNode TYP_FLOAT) simdBaseJitType 16)
            (gtNewIconNode 3 TYP_INT) (gtNewZeroConNode TYP_FLOAT) simdBaseJitType 16)))))"

definition imp_AsVector128_SIMD12 ::
  "Compiler \<Rightarrow> NamedIntrinsic \<Rightarrow> CORINFO_SIG_INFO \<Rightarrow> CorInfoType \<Rightarrow> var_types \<Rightarrow> nat
   \<Rightarrow> var_types \<Rightarrow> GenTree option imp" where
  "imp_AsVector128_SIMD12 jit intrinsic sig simdBaseJitType retType simdSize simdBaseType =
    (assertI jit (simdSize = 12 \<and> simdBaseType = TYP_FLOAT) ''(simdSize == 12) && (simdBaseType == TYP_FLOAT)'' (
     bindI (impSIMDPopStack TYP_SIMD12) (\<lambda>op1.
     if IsCnsVec op1 then
       bindI (liftE (gtSimdVal op1)) (\<lambda>v0.
       bindI (liftE (set_f32 3 0 v0)) (\<lambda>v3.
       returnI (Some (GT_CNS_VEC TYP_SIMD16 v3))))
     else
       returnI (Some
         (gtNewSimdWithElementNode retType op1 (gtNewIconNode 3 TYP_INT)
            (gtNewZeroConNode TYP_FLOAT) simdBaseJitType 16)))))"

definition imp_foldAwayCast ::
  "Compiler \<Rightarrow> NamedIntrinsic \<Rightarrow> CORINFO_SIG_INFO \<Rightarrow> CorInfoType \<Rightarrow> var_types \<Rightarrow> nat
   \<Rightarrow> var_types \<Rightarrow> GenTree option imp" where
  "imp_foldAwayCast jit intrinsic sig simdBaseJitType retType simdSize simdBaseType =
    (bindI (impSIMDPopStackH retType False (retTypeClass sig)) (\<lambda>retNode.
     bindI (SetOpLclRelatedToSIMDIntrinsic retNode) (\<lambda>_.
     assertI jit (getSIMDTypeForSize (getSIMDTypeSizeInBytes jit (retTypeSigClass sig)) = Inr (TypeGet retNode)) ''retNode->gtType == getSIMDTypeForSize(getSIMDTypeSizeInBytes(sig->retTypeSigClass))'' (
     returnI (Some retNode)))))"

subsection \<open>The dispatch\<close>

text \<open>
  The cases that call \<^verbatim>\<open>impSpecialIntrinsic\<close> again do so with an identifier whose
  own case does not: the depth of re-dispatch is at most one.
\<close>

definition redispatchDepth :: "NamedIntrinsic \<Rightarrow> nat" where
  "redispatchDepth intrinsic =
     (if intrinsic \<in> set [NI_Vector128_AsVector, NI_Vector128_AsVector128, NI_Vector256_AsVector,
                          NI_Vector256_AsVector256, NI_Vector512_AsVector, NI_Vector512_AsVector512]
      then 1 else 0)"

function impSpecialIntrinsic ::
  "Compiler \<Rightarrow> NamedIntrinsic \<Rightarrow> CORINFO_CLASS_HANDLE \<Rightarrow> CORINFO_METHOD_HANDLE
   \<Rightarrow> CORINFO_SIG_INFO \<Rightarrow> CorInfoType \<Rightarrow> var_types \<Rightarrow> nat \<Rightarrow> GenTree option imp" where
  "impSpecialIntrinsic jit intrinsic clsHnd method sig simdBaseJitType retType simdSize =
     (let simdBaseType = (if simdSize \<noteq> 0 then JitType2PreciseVarType jit simdBaseJitType
                          else TYP_UNKNOWN) in
      if simdSize \<noteq> 0 \<and> assert_fails (build jit) (varTypeIsArithmetic simdBaseType) then
        failI (AssertFailed ''varTypeIsArithmetic(simdBaseType)'')
      else if intrinsic \<in> set [NI_Vector128_Abs, NI_Vector256_Abs] then
        imp_Vector128_Abs jit intrinsic sig simdBaseJitType retType simdSize simdBaseType
      else if intrinsic \<in> set [NI_Vector128_Add, NI_Vector256_Add,
                                  NI_Vector512_Add, NI_Vector128_op_Addition,
                                  NI_Vector256_op_Addition, NI_Vector512_op_Addition] then
        imp_Vector128_Add jit intrinsic sig simdBaseJitType retType simdSize simdBaseType
      else if intrinsic \<in> set [NI_Vector128_AndNot, NI_Vector256_AndNot,
                                  NI_Vector512_AndNot] then
        imp_Vector128_AndNot jit intrinsic sig simdBaseJitType retType simdSize simdBaseType
      else if intrinsic \<in> set [NI_Vector128_As, NI_Vector128_AsByte,
                                  NI_Vector128_AsDouble, NI_Vector128_AsInt16,
                                  NI_Vector128_AsInt32, NI_Vector128_AsInt64,
                                  NI_Vector128_AsNInt, NI_Vector128_AsNUInt,
                                  NI_Vector128_AsSByte, NI_Vector128_AsSingle,
                                  NI_Vector128_AsUInt16, NI_Vector128_AsUInt32,
                                  NI_Vector128_AsUInt64, NI_Vector128_AsVector4,
                                  NI_Vector256_As, NI_Vector256_AsByte,
                                  NI_Vector256_AsDouble, NI_Vector256_AsInt16,
                                  NI_Vector256_AsInt32, NI_Vector256_AsInt64,
                                  NI_Vector256_AsNInt, NI_Vector256_AsNUInt,
                                  NI_Vector256_AsSByte, NI_Vector256_AsSingle,
                                  NI_Vector256_AsUInt16, NI_Vector256_AsUInt32,
                                  NI_Vector256_AsUInt64, NI_Vector512_As,
                                  NI_Vector512_AsByte, NI_Vector512_AsDouble,
                                  NI_Vector512_AsInt16, NI_Vector512_AsInt32,
                                  NI_Vector512_AsInt64, NI_Vector512_AsNInt,
                                  NI_Vector512_AsNUInt, NI_Vector512_AsSByte,
                                  NI_Vector512_AsSingle, NI_Vector512_AsUInt16,
                                  NI_Vector512_AsUInt32, NI_Vector512_AsUInt64] then
        imp_Vector128_As jit intrinsic sig simdBaseJitType retType simdSize simdBaseType
      else if intrinsic \<in> set [NI_Vector128_AsVector] then
       assertI jit (numArgs sig = 1) ''sig->numArgs == 1'' (
       if getSIMDVectorRegisterByteLength jit = YMM_REGSIZE_BYTES then
         impSpecialIntrinsic jit NI_Vector128_ToVector256 clsHnd method sig simdBaseJitType retType
           simdSize
       else
         assertI jit (getSIMDVectorRegisterByteLength jit = XMM_REGSIZE_BYTES)
           ''getSIMDVectorRegisterByteLength() == XMM_REGSIZE_BYTES''
           (imp_foldAwayCast jit intrinsic sig simdBaseJitType retType simdSize simdBaseType))
      else if intrinsic \<in> set [NI_Vector128_AsVector2, NI_Vector128_AsVector3] then
        imp_Vector128_AsVector2 jit intrinsic sig simdBaseJitType retType simdSize simdBaseType
      else if intrinsic \<in> set [NI_Vector128_AsVector128] then
       assertI jit (numArgs sig = 1) ''sig->numArgs == 1'' (
       assertI jit (retType = TYP_SIMD16) ''retType == TYP_SIMD16'' (
       assertI jit (BaseTypeFromFirstArg (hwInfo jit) intrinsic)
         ''HWIntrinsicInfo::BaseTypeFromFirstArg(intrinsic)'' (
       let op1Info = getBaseJitTypeAndSizeOfSIMDType jit (getArgClass jit sig (sigArgs sig));
           op1Size = snd op1Info in
       assertI jit (simdBaseJitType = fst op1Info) ''simdBaseJitType == op1SimdBaseJitType'' (
       case getSIMDTypeForSize op1Size of
         Inl e \<Rightarrow> failI e
       | Inr op1Type \<Rightarrow>
           if op1Type = TYP_SIMD8 then
             imp_AsVector128_SIMD8 jit intrinsic sig simdBaseJitType retType op1Size simdBaseType
           else if op1Type = TYP_SIMD12 then
             imp_AsVector128_SIMD12 jit intrinsic sig simdBaseJitType retType op1Size simdBaseType
           else if op1Type = TYP_SIMD16 then
             imp_foldAwayCast jit intrinsic sig simdBaseJitType retType op1Size simdBaseType
           else if op1Type = TYP_SIMD32 then
             impSpecialIntrinsic jit NI_Vector256_GetLower clsHnd method sig simdBaseJitType retType
               op1Size
           else failI Unreached))))
      else if intrinsic \<in> set [NI_Vector256_AsVector, NI_Vector256_AsVector256] then
       assertI jit (numArgs sig = 1) ''sig->numArgs == 1'' (
       if getSIMDVectorRegisterByteLength jit = YMM_REGSIZE_BYTES then
         imp_foldAwayCast jit intrinsic sig simdBaseJitType retType simdSize simdBaseType
       else
         assertI jit (getSIMDVectorRegisterByteLength jit = XMM_REGSIZE_BYTES)
           ''getSIMDVectorRegisterByteLength() == XMM_REGSIZE_BYTES'' (
         if compExactlyDependsOn jit InstructionSet_AVX then
           (if intrinsic = NI_Vector256_AsVector then
              impSpecialIntrinsic jit NI_Vector256_GetLower clsHnd method sig simdBaseJitType
                retType simdSize
            else
              assertI jit (intrinsic = NI_Vector256_AsVector256)
                ''intrinsic == NI_Vector256_AsVector256''
                (impSpecialIntrinsic jit NI_Vector128_ToVector256 clsHnd method sig
                   simdBaseJitType retType 16))
         else returnI None))
      else if intrinsic \<in> set [NI_Vector512_AsVector, NI_Vector512_AsVector512] then
       assertI jit (numArgs sig = 1) ''sig->numArgs == 1'' (
       if getSIMDVectorRegisterByteLength jit = YMM_REGSIZE_BYTES then
         assertI jit (IsBaselineVector512IsaSupported jit) ''IsBaselineVector512IsaSupported()'' (
         if intrinsic = NI_Vector512_AsVector then
           impSpecialIntrinsic jit NI_Vector512_GetLower clsHnd method sig simdBaseJitType retType
             simdSize
         else
           assertI jit (intrinsic = NI_Vector512_AsVector512)
             ''intrinsic == NI_Vector512_AsVector512''
             (impSpecialIntrinsic jit NI_Vector256_ToVector512 clsHnd method sig simdBaseJitType
                retType 32))
       else
         assertI jit (getSIMDVectorRegisterByteLength jit = XMM_REGSIZE_BYTES)
           ''getSIMDVectorRegisterByteLength() == XMM_REGSIZE_BYTES'' (
         if compExactlyDependsOn jit InstructionSet_AVX512F then
           (if intrinsic = NI_Vector512_AsVector then
              impSpecialIntrinsic jit NI_Vector512_GetLower128 clsHnd method sig simdBaseJitType
                retType simdSize
            else
              assertI jit (intrinsic = NI_Vector512_AsVector512)
                ''intrinsic == NI_Vector512_AsVector512''
                (impSpecialIntrinsic jit NI_Vector128_ToVector512 clsHnd method sig
                   simdBaseJitType retType 16))
         else returnI None))
      else if intrinsic \<in> set [NI_Vector128_BitwiseAnd, NI_Vector256_BitwiseAnd,
                                  NI_Vector512_BitwiseAnd,
                                  NI_Vector128_op_BitwiseAnd,
                                  NI_Vector256_op_BitwiseAnd,
                                  NI_Vector512_op_BitwiseAnd] then
        imp_Vector128_BitwiseAnd jit intrinsic sig simdBaseJitType retType simdSize simdBaseType
      else if intrinsic \<in> set [NI_Vector128_BitwiseOr, NI_Vector256_BitwiseOr,
                                  NI_Vector512_BitwiseOr,
                                  NI_Vector128_op_BitwiseOr,
                                  NI_Vector256_op_BitwiseOr,
                                  NI_Vector512_op_BitwiseOr] then
        imp_Vector128_BitwiseOr jit intrinsic sig simdBaseJitType retType simdSize simdBaseType
      else if intrinsic \<in> set [NI_Vector128_Ceiling, NI_Vector256_Ceiling] then
        imp_Vector128_Ceiling jit intrinsic sig simdBaseJitType retType simdSize simdBaseType
      else if intrinsic \<in> set [NI_Vector128_ConditionalSelect,
                                  NI_Vector256_ConditionalSelect] then
        imp_Vector128_ConditionalSelect jit intrinsic sig simdBaseJitType retType simdSize simdBaseType
      else if intrinsic \<in> set [NI_Vector128_ConvertToDouble,
                                  NI_Vector256_ConvertToDouble,
                                  NI_Vector128_ConvertToInt64,
                                  NI_Vector256_ConvertToInt64,
                                  NI_Vector128_ConvertToUInt32,
                                  NI_Vector256_ConvertToUInt32,
                                  NI_Vector128_ConvertToUInt64,
                                  NI_Vector256_ConvertToUInt64] then
        imp_Vector128_ConvertToDouble jit intrinsic sig simdBaseJitType retType simdSize simdBaseType
      else if intrinsic \<in> set [NI_Vector128_ConvertToInt32,
                                  NI_Vector256_ConvertToInt32] then
        imp_Vector128_ConvertToInt32 jit intrinsic sig simdBaseJitType retType simdSize simdBaseType
      else if intrinsic \<in> set [NI_Vector128_ConvertToSingle,
                                  NI_Vector256_ConvertToSingle] then
        imp_Vector128_ConvertToSingle jit intrinsic sig simdBaseJitType retType simdSize simdBaseType
      else if intrinsic \<in> set [NI_Vector128_Create, NI_Vector256_Create,
                                  NI_Vector512_Create] then
        imp_Vector128_Create jit intrinsic sig simdBaseJitType retType simdSize simdBaseType
      else if intrinsic \<in> set [NI_Vector128_CreateScalar,
                                  NI_Vector256_CreateScalar,
                                  NI_Vector512_CreateScalar] then
        imp_Vector128_CreateScalar jit intrinsic sig simdBaseJitType retType simdSize simdBaseType
      else if intrinsic \<in> set [NI_Vector128_CreateScalarUnsafe,
                                  NI_Vector256_CreateScalarUnsafe,
                                  NI_Vector512_CreateScalarUnsafe] then
        imp_Vector128_CreateScalarUnsafe jit intrinsic sig simdBaseJitType retType simdSize simdBaseType
      else if intrinsic \<in> set [NI_Vector128_Divide, NI_Vector256_Divide,
                                  NI_Vector128_op_Division, NI_Vector256_op_Division] then
        imp_Vector128_Divide jit intrinsic sig simdBaseJitType retType simdSize simdBaseType
      else if intrinsic \<in> set [NI_Vector128_Dot, NI_Vector256_Dot] then
        imp_Vector128_Dot jit intrinsic sig simdBaseJitType retType simdSize simdBaseType
      else if intrinsic \<in> set [NI_Vector128_Equals, NI_Vector256_Equals,
                                  NI_Vector512_Equals] then
        imp_Vector128_Equals jit intrinsic sig simdBaseJitType retType simdSize simdBaseType
      else if intrinsic \<in> set [NI_Vector512_EqualsAll, NI_Vector512_op_Equality] then
        imp_Vector512_EqualsAll jit intrinsic sig simdBaseJitType retType simdSize simdBaseType
      else if intrinsic \<in> set [NI_Vector128_EqualsAll, NI_Vector256_EqualsAll,
                                  NI_Vector128_op_Equality, NI_Vector256_op_Equality] then
        imp_Vector128_EqualsAll jit intrinsic sig simdBaseJitType retType simdSize simdBaseType
      else if intrinsic \<in> set [NI_Vector512_EqualsAny] then
        imp_Vector512_EqualsAny jit intrinsic sig simdBaseJitType retType simdSize simdBaseType
      else if intrinsic \<in> set [NI_Vector128_EqualsAny, NI_Vector256_EqualsAny] then
        imp_Vector128_EqualsAny jit intrinsic sig simdBaseJitType retType simdSize simdBaseType
      else if intrinsic \<in> set [NI_Vector512_ExtractMostSignificantBits] then
        imp_Vector512_ExtractMostSignificantBits jit intrinsic sig simdBaseJitType retType simdSize simdBaseType
      else if intrinsic \<in> set [NI_Vector128_ExtractMostSignificantBits,
                                  NI_Vector256_ExtractMostSignificantBits] then
        imp_Vector128_ExtractMostSignificantBits jit intrinsic sig simdBaseJitType retType simdSize simdBaseType
      else if intrinsic \<in> set [NI_Vector128_Floor, NI_Vector256_Floor] then
        imp_Vector128_Floor jit intrinsic sig simdBaseJitType retType simdSize simdBaseType
      else if intrinsic \<in> set [NI_Vector128_get_AllBitsSet,
                                  NI_Vector256_get_AllBitsSet,
                                  NI_Vector512_get_AllBitsSet] then
        imp_Vector128_get_AllBitsSet jit intrinsic sig simdBaseJitType retType simdSize simdBaseType
      else if intrinsic \<in> set [NI_Vector128_get_One, NI_Vector256_get_One,
                                  NI_Vector512_get_One] then
        imp_Vector128_get_One jit intrinsic sig simdBaseJitType retType simdSize simdBaseType
      else if intrinsic \<in> set [NI_Vector128_get_Zero, NI_Vector256_get_Zero,
                                  NI_Vector512_get_Zero] then
        imp_Vector128_get_Zero jit intrinsic sig simdBaseJitType retType simdSize simdBaseType
      else if intrinsic \<in> set [NI_Vector128_GetElement, NI_Vector256_GetElement,
                                  NI_Vector512_GetElement] then
        imp_Vector128_GetElement jit intrinsic sig simdBaseJitType retType simdSize simdBaseType
      else if intrinsic \<in> set [NI_Vector128_GreaterThan, NI_Vector256_GreaterThan] then
        imp_Vector128_GreaterThan jit intrinsic sig simdBaseJitType retType simdSize simdBaseType
      else if intrinsic \<in> set [NI_Vector128_GreaterThanAll,
                                  NI_Vector256_GreaterThanAll] then
        imp_Vector128_GreaterThanAll jit intrinsic sig simdBaseJitType retType simdSize simdBaseType
      else if intrinsic \<in> set [NI_Vector128_GreaterThanAny,
                                  NI_Vector256_GreaterThanAny] then
        imp_Vector128_GreaterThanAny jit intrinsic sig simdBaseJitType retType simdSize simdBaseType
      else if intrinsic \<in> set [NI_Vector128_GreaterThanOrEqual,
                                  NI_Vector256_GreaterThanOrEqual] then
        imp_Vector128_GreaterThanOrEqual jit intrinsic sig simdBaseJitType retType simdSize simdBaseType
      else if intrinsic \<in> set [NI_Vector128_GreaterThanOrEqualAll,
                                  NI_Vector256_GreaterThanOrEqualAll] then
        imp_Vector128_GreaterThanOrEqualAll jit intrinsic sig simdBaseJitType retType simdSize simdBaseType
      else if intrinsic \<in> set [NI_Vector128_GreaterThanOrEqualAny,
                                  NI_Vector256_GreaterThanOrEqualAny] then
        imp_Vector128_GreaterThanOrEqualAny jit intrinsic sig simdBaseJitType retType simdSize simdBaseType
      else if intrinsic \<in> set [NI_Vector128_LessThan, NI_Vector256_LessThan] then
        imp_Vector128_LessThan jit intrinsic sig simdBaseJitType retType simdSize simdBaseType
      else if intrinsic \<in> set [NI_Vector128_LessThanAll, NI_Vector256_LessThanAll] then
        imp_Vector128_LessThanAll jit intrinsic sig simdBaseJitType retType simdSize simdBaseType
      else if intrinsic \<in> set [NI_Vector128_LessThanAny, NI_Vector256_LessThanAny] then
        imp_Vector128_LessThanAny jit intrinsic sig simdBaseJitType retType simdSize simdBaseType
      else if intrinsic \<in> set [NI_Vector128_LessThanOrEqual,
                                  NI_Vector256_LessThanOrEqual] then
        imp_Vector128_LessThanOrEqual jit intrinsic sig simdBaseJitType retType simdSize simdBaseType
      else if intrinsic \<in> set [NI_Vector128_LessThanOrEqualAll,
                                  NI_Vector256_LessThanOrEqualAll] then
        imp_Vector128_LessThanOrEqualAll jit intrinsic sig simdBaseJitType retType simdSize simdBaseType
      else if intrinsic \<in> set [NI_Vector128_LessThanOrEqualAny,
                                  NI_Vector256_LessThanOrEqualAny] then
        imp_Vector128_LessThanOrEqualAny jit intrinsic sig simdBaseJitType retType simdSize simdBaseType
      else if intrinsic \<in> set [NI_SSE_LoadVector128, NI_SSE2_LoadVector128,
                                  NI_AVX_LoadVector256, NI_AVX512F_LoadVector512,
                                  NI_AVX512BW_LoadVector512, NI_Vector128_Load,
                                  NI_Vector256_Load, NI_Vector512_Load,
                                  NI_Vector128_LoadUnsafe, NI_Vector256_LoadUnsafe,
                                  NI_Vector512_LoadUnsafe] then
        imp_SSE_LoadVector128 jit intrinsic sig simdBaseJitType retType simdSize simdBaseType
      else if intrinsic \<in> set [NI_Vector128_LoadAligned,
                                  NI_Vector256_LoadAligned, NI_Vector512_LoadAligned] then
        imp_Vector128_LoadAligned jit intrinsic sig simdBaseJitType retType simdSize simdBaseType
      else if intrinsic \<in> set [NI_Vector128_LoadAlignedNonTemporal,
                                  NI_Vector256_LoadAlignedNonTemporal,
                                  NI_Vector512_LoadAlignedNonTemporal] then
        imp_Vector128_LoadAlignedNonTemporal jit intrinsic sig simdBaseJitType retType simdSize simdBaseType
      else if intrinsic \<in> set [NI_Vector128_Max, NI_Vector256_Max] then
        imp_Vector128_Max jit intrinsic sig simdBaseJitType retType simdSize simdBaseType
      else if intrinsic \<in> set [NI_Vector128_Min, NI_Vector256_Min] then
        imp_Vector128_Min jit intrinsic sig simdBaseJitType retType simdSize simdBaseType
      else if intrinsic \<in> set [NI_Vector128_Multiply, NI_Vector256_Multiply,
                                  NI_Vector128_op_Multiply, NI_Vector256_op_Multiply] then
        imp_Vector128_Multiply jit intrinsic sig simdBaseJitType retType simdSize simdBaseType
      else if intrinsic \<in> set [NI_Vector128_Narrow, NI_Vector256_Narrow,
                                  NI_Vector512_Narrow] then
        imp_Vector128_Narrow jit intrinsic sig simdBaseJitType retType simdSize simdBaseType
      else if intrinsic \<in> set [NI_Vector128_Negate, NI_Vector256_Negate,
                                  NI_Vector128_op_UnaryNegation,
                                  NI_Vector256_op_UnaryNegation] then
        imp_Vector128_Negate jit intrinsic sig simdBaseJitType retType simdSize simdBaseType
      else if intrinsic \<in> set [NI_Vector128_OnesComplement,
                                  NI_Vector256_OnesComplement,
                                  NI_Vector512_OnesComplement,
                                  NI_Vector128_op_OnesComplement,
                                  NI_Vector256_op_OnesComplement,
                                  NI_Vector512_op_OnesComplement] then
        imp_Vector128_OnesComplement jit intrinsic sig simdBaseJitType retType simdSize simdBaseType
      else if intrinsic \<in> set [NI_Vector128_op_Inequality,
                                  NI_Vector256_op_Inequality] then
        imp_Vector128_op_Inequality jit intrinsic sig simdBaseJitType retType simdSize simdBaseType
      else if intrinsic \<in> set [NI_Vector512_op_Inequality] then
        imp_Vector512_op_Inequality jit intrinsic sig simdBaseJitType retType simdSize simdBaseType
      else if intrinsic \<in> set [NI_Vector128_op_UnaryPlus,
                                  NI_Vector256_op_UnaryPlus] then
        imp_Vector128_op_UnaryPlus jit intrinsic sig simdBaseJitType retType simdSize simdBaseType
      else if intrinsic \<in> set [NI_Vector128_Subtract, NI_Vector256_Subtract,
                                  NI_Vector512_Subtract,
                                  NI_Vector128_op_Subtraction,
                                  NI_Vector256_op_Subtraction,
                                  NI_Vector512_op_Subtraction] then
        imp_Vector128_Subtract jit intrinsic sig simdBaseJitType retType simdSize simdBaseType
      else if intrinsic \<in> set [NI_Vector128_ShiftLeft, NI_Vector256_ShiftLeft,
                                  NI_Vector128_op_LeftShift,
                                  NI_Vector256_op_LeftShift] then
        imp_Vector128_ShiftLeft jit intrinsic sig simdBaseJitType retType simdSize simdBaseType
      else if intrinsic \<in> set [NI_Vector128_ShiftRightArithmetic,
                                  NI_Vector256_ShiftRightArithmetic,
                                  NI_Vector128_op_RightShift,
                                  NI_Vector256_op_RightShift] then
        imp_Vector128_ShiftRightArithmetic jit intrinsic sig simdBaseJitType retType simdSize simdBaseType
      else if intrinsic \<in> set [NI_Vector128_ShiftRightLogical,
                                  NI_Vector256_ShiftRightLogical,
                                  NI_Vector128_op_UnsignedRightShift,
                                  NI_Vector256_op_UnsignedRightShift] then
        imp_Vector128_ShiftRightLogical jit intrinsic sig simdBaseJitType retType simdSize simdBaseType
      else if intrinsic \<in> set [NI_Vector128_Shuffle, NI_Vector256_Shuffle] then
        imp_Vector128_Shuffle jit intrinsic sig simdBaseJitType retType simdSize simdBaseType
      else if intrinsic \<in> set [NI_Vector128_Sqrt, NI_Vector256_Sqrt] then
        imp_Vector128_Sqrt jit intrinsic sig simdBaseJitType retType simdSize simdBaseType
      else if intrinsic \<in> set [NI_SSE_Store, NI_SSE2_Store, NI_AVX_Store,
                                  NI_AVX512F_Store, NI_AVX512BW_Store] then
        imp_SSE_Store jit intrinsic sig simdBaseJitType retType simdSize simdBaseType
      else if intrinsic \<in> set [NI_Vector128_Store, NI_Vector256_Store,
                                  NI_Vector512_Store, NI_Vector128_StoreUnsafe,
                                  NI_Vector256_StoreUnsafe, NI_Vector512_StoreUnsafe] then
        imp_Vector128_Store jit intrinsic sig simdBaseJitType retType simdSize simdBaseType
      else if intrinsic \<in> set [NI_Vector128_StoreAligned,
                                  NI_Vector256_StoreAligned,
                                  NI_Vector512_StoreAligned] then
        imp_Vector128_StoreAligned jit intrinsic sig simdBaseJitType retType simdSize simdBaseType
      else if intrinsic \<in> set [NI_Vector128_StoreAlignedNonTemporal,
                                  NI_Vector256_StoreAlignedNonTemporal,
                                  NI_Vector512_StoreAlignedNonTemporal] then
        imp_Vector128_StoreAlignedNonTemporal jit intrinsic sig simdBaseJitType retType simdSize simdBaseType
      else if intrinsic \<in> set [NI_Vector128_Sum, NI_Vector256_Sum] then
        imp_Vector128_Sum jit intrinsic sig simdBaseJitType retType simdSize simdBaseType
      else if intrinsic \<in> set [NI_Vector128_ToScalar, NI_Vector256_ToScalar,
                                  NI_Vector512_ToScalar] then
        imp_Vector128_ToScalar jit intrinsic sig simdBaseJitType retType simdSize simdBaseType
      else if intrinsic \<in> set [NI_Vector128_ToVector256,
                                  NI_Vector128_ToVector256Unsafe] then
        imp_Vector128_ToVector256 jit intrinsic sig simdBaseJitType retType simdSize simdBaseType
      else if intrinsic \<in> set [NI_Vector256_GetLower] then
        imp_Vector256_GetLower jit intrinsic sig simdBaseJitType retType simdSize simdBaseType
      else if intrinsic \<in> set [NI_Vector256_GetUpper] then
        imp_Vector256_GetUpper jit intrinsic sig simdBaseJitType retType simdSize simdBaseType
      else if intrinsic \<in> set [NI_Vector512_GetLower] then
        imp_Vector512_GetLower jit intrinsic sig simdBaseJitType retType simdSize simdBaseType
      else if intrinsic \<in> set [NI_Vector512_GetUpper] then
        imp_Vector512_GetUpper jit intrinsic sig simdBaseJitType retType simdSize simdBaseType
      else if intrinsic \<in> set [NI_Vector128_ToVector512,
                                  NI_Vector256_ToVector512,
                                  NI_Vector256_ToVector512Unsafe,
                                  NI_Vector512_GetLower128] then
        imp_Vector128_ToVector512 jit intrinsic sig simdBaseJitType retType simdSize simdBaseType
      else if intrinsic \<in> set [NI_Vector128_WidenLower, NI_Vector256_WidenLower,
                                  NI_Vector512_WidenLower] then
        imp_Vector128_WidenLower jit intrinsic sig simdBaseJitType retType simdSize simdBaseType
      else if intrinsic \<in> set [NI_Vector128_WidenUpper, NI_Vector256_WidenUpper,
                                  NI_Vector512_WidenUpper] then
        imp_Vector128_WidenUpper jit intrinsic sig simdBaseJitType retType simdSize simdBaseType
      else if intrinsic \<in> set [NI_Vector128_WithElement,
                                  NI_Vector256_WithElement, NI_Vector512_WithElement] then
        imp_Vector128_WithElement jit intrinsic sig simdBaseJitType retType simdSize simdBaseType
      else if intrinsic \<in> set [NI_Vector256_WithLower] then
        imp_Vector256_WithLower jit intrinsic sig simdBaseJitType retType simdSize simdBaseType
      else if intrinsic \<in> set [NI_Vector256_WithUpper] then
        imp_Vector256_WithUpper jit intrinsic sig simdBaseJitType retType simdSize simdBaseType
      else if intrinsic \<in> set [NI_Vector512_WithLower] then
        imp_Vector512_WithLower jit intrinsic sig simdBaseJitType retType simdSize simdBaseType
      else if intrinsic \<in> set [NI_Vector512_WithUpper] then
        imp_Vector512_WithUpper jit intrinsic sig simdBaseJitType retType simdSize simdBaseType
      else if intrinsic \<in> set [NI_Vector128_Xor, NI_Vector256_Xor,
                                  NI_Vector512_Xor, NI_Vector128_op_ExclusiveOr,
                                  NI_Vector256_op_ExclusiveOr,
                                  NI_Vector512_op_ExclusiveOr] then
        imp_Vector128_Xor jit intrinsic sig simdBaseJitType retType simdSize simdBaseType
      else if intrinsic \<in> set [NI_X86Base_Pause, NI_X86Serialize_Serialize] then
        imp_X86Base_Pause jit intrinsic sig simdBaseJitType retType simdSize simdBaseType
      else if intrinsic \<in> set [NI_X86Base_DivRem, NI_X86Base_X64_DivRem] then
        imp_X86Base_DivRem jit intrinsic sig simdBaseJitType retType simdSize simdBaseType
      else if intrinsic \<in> set [NI_SSE_CompareScalarGreaterThan,
                                  NI_SSE_CompareScalarGreaterThanOrEqual,
                                  NI_SSE_CompareScalarNotGreaterThan,
                                  NI_SSE_CompareScalarNotGreaterThanOrEqual] then
        imp_SSE_CompareScalarGreaterThan jit intrinsic sig simdBaseJitType retType simdSize simdBaseType
      else if intrinsic \<in> set [NI_SSE_Prefetch0, NI_SSE_Prefetch1,
                                  NI_SSE_Prefetch2, NI_SSE_PrefetchNonTemporal] then
        imp_SSE_Prefetch0 jit intrinsic sig simdBaseJitType retType simdSize simdBaseType
      else if intrinsic \<in> set [NI_SSE_StoreFence] then
        imp_SSE_StoreFence jit intrinsic sig simdBaseJitType retType simdSize simdBaseType
      else if intrinsic \<in> set [NI_SSE2_CompareScalarGreaterThan,
                                  NI_SSE2_CompareScalarGreaterThanOrEqual,
                                  NI_SSE2_CompareScalarNotGreaterThan,
                                  NI_SSE2_CompareScalarNotGreaterThanOrEqual] then
        imp_SSE2_CompareScalarGreaterThan jit intrinsic sig simdBaseJitType retType simdSize simdBaseType
      else if intrinsic \<in> set [NI_SSE2_LoadFence, NI_SSE2_MemoryFence] then
        imp_SSE2_LoadFence jit intrinsic sig simdBaseJitType retType simdSize simdBaseType
      else if intrinsic \<in> set [NI_SSE2_StoreNonTemporal] then
        imp_SSE2_StoreNonTemporal jit intrinsic sig simdBaseJitType retType simdSize simdBaseType
      else if intrinsic \<in> set [NI_AVX2_PermuteVar8x32] then
        imp_AVX2_PermuteVar8x32 jit intrinsic sig simdBaseJitType retType simdSize simdBaseType
      else if intrinsic \<in> set [NI_AVX2_GatherMaskVector128,
                                  NI_AVX2_GatherMaskVector256] then
        imp_AVX2_GatherMaskVector128 jit intrinsic sig simdBaseJitType retType simdSize simdBaseType
      else if intrinsic \<in> set [NI_BMI2_ZeroHighBits, NI_BMI2_X64_ZeroHighBits] then
        imp_BMI2_ZeroHighBits jit intrinsic sig simdBaseJitType retType simdSize simdBaseType
      else if intrinsic \<in> set [NI_BMI1_BitFieldExtract,
                                  NI_BMI1_X64_BitFieldExtract] then
        imp_BMI1_BitFieldExtract jit intrinsic sig simdBaseJitType retType simdSize simdBaseType
      else returnI None)"
  by pat_completeness auto
termination
  by (relation "measure (\<lambda>(jit, intrinsic, clsHnd, method, sig, simdBaseJitType, retType, simdSize).
                          redispatchDepth intrinsic)")
     (auto simp: redispatchDepth_def)

declare impSpecialIntrinsic.simps [simp del]

section \<open>Sample inputs\<close>

text \<open>
  Concrete values of the parameters, for evaluating the functions on concrete inputs: a
  table, a compiler instance for a 64-bit target whose capability set reaches AVX but
  not AVX2, the same with AVX2, and signatures of two and three arguments.
\<close>

definition sample_info :: HWIntrinsicInfo where
  "sample_info =
     \<lparr> lookupCategory = (\<lambda>i. if i \<in> set [NI_AVX_Compare, NI_AVX_CompareScalar,
                 NI_AVX2_GatherVector128, NI_AVX2_GatherVector256,
                 NI_AVX2_GatherMaskVector128, NI_AVX2_GatherMaskVector256,
                 NI_SSE2_ShiftLeftLogical, NI_AVX2_Permute4x64]
               then HW_Category_IMM else HW_Category_Other),
       HasFullRangeImm = (\<lambda>i. i \<in> set [NI_SSE2_ShiftLeftLogical, NI_AVX2_Permute4x64]),
       NoJmpTableImm = (\<lambda>i. i \<in> set [NI_SSE2_ShiftLeftLogical, NI_AVX2_Permute4x64]),
       IsMultiReg = (\<lambda>i. i \<in> set [NI_X86Base_DivRem, NI_X86Base_X64_DivRem]),
       BaseTypeFromFirstArg = (\<lambda>i. i \<in> set [NI_Vector128_AsVector128]),
       lookupIval = (\<lambda>i swapped. -1) \<rparr>"


definition sample_JitType2PreciseVarType :: "CorInfoType \<Rightarrow> var_types" where
  "sample_JitType2PreciseVarType t =
     (case t of
        CORINFO_TYPE_UNDEF \<Rightarrow> TYP_UNKNOWN
      | CORINFO_TYPE_BYTE \<Rightarrow> TYP_BYTE | CORINFO_TYPE_UBYTE \<Rightarrow> TYP_UBYTE
      | CORINFO_TYPE_SHORT \<Rightarrow> TYP_SHORT | CORINFO_TYPE_USHORT \<Rightarrow> TYP_USHORT
      | CORINFO_TYPE_INT \<Rightarrow> TYP_INT | CORINFO_TYPE_UINT \<Rightarrow> TYP_UINT
      | CORINFO_TYPE_LONG \<Rightarrow> TYP_LONG | CORINFO_TYPE_ULONG \<Rightarrow> TYP_ULONG
      | CORINFO_TYPE_FLOAT \<Rightarrow> TYP_FLOAT | CORINFO_TYPE_DOUBLE \<Rightarrow> TYP_DOUBLE)"

text \<open>
  Reading element \<open>i\<close> of a vector constant as an integer of the element kind, widened
  to 64 bits with the sign of a signed kind.
\<close>

definition sample_GetIntegralVectorConstElement :: "GenTree \<Rightarrow> nat \<Rightarrow> var_types \<Rightarrow> 64 word" where
  "sample_GetIntegralVectorConstElement t i simdBaseType =
     (case t of
        GT_CNS_VEC ty v \<Rightarrow>
          (if simdBaseType = TYP_BYTE then scast (get_u8 v i)
           else if simdBaseType = TYP_UBYTE then ucast (get_u8 v i)
           else if simdBaseType = TYP_SHORT then scast (get_u16 v i)
           else if simdBaseType = TYP_USHORT then ucast (get_u16 v i)
           else if simdBaseType = TYP_INT then scast (get_u32 v i)
           else if simdBaseType = TYP_UINT then ucast (get_u32 v i)
           else get_u64 v i)
      | _ \<Rightarrow> 0)"

definition sample_isas :: "CORINFO_InstructionSet list" where
  "sample_isas =
     [InstructionSet_X86Base, InstructionSet_SSE, InstructionSet_SSE2, InstructionSet_SSE3,
      InstructionSet_SSSE3, InstructionSet_SSE41, InstructionSet_SSE42, InstructionSet_AVX,
      InstructionSet_X86Base_X64, InstructionSet_SSE_X64, InstructionSet_SSE2_X64,
      InstructionSet_SSE41_X64]"

definition sample_jit :: Compiler where
  "sample_jit =
     \<lparr> build = Debug,
       TARGET_X86 = False,
       compExactlyDependsOn = (\<lambda>isa. isa \<in> set sample_isas),
       compOpportunisticallyDependsOn = (\<lambda>isa. isa \<in> set sample_isas),
       compIsaSupportedDebugOnly = (\<lambda>isa. isa \<in> set sample_isas),
       IsBaselineVector512IsaSupported = False,
       IsBaselineVector512IsaSupportedDebugOnly = False,
       getSIMDVectorRegisterByteLength = 16,
       hwInfo = sample_info,
       JitType2PreciseVarType = sample_JitType2PreciseVarType,
       JITtype2varType = sample_JitType2PreciseVarType,
       getArgNext = Suc,
       getArgType = (\<lambda>sig h. (CORINFO_TYPE_UNDEF, NO_CLASS_HANDLE)),
       getArgClass = (\<lambda>sig h. NO_CLASS_HANDLE),
       getBaseJitTypeAndSizeOfSIMDType = (\<lambda>cls. (CORINFO_TYPE_UNDEF, 0)),
       getSIMDTypeSizeInBytes = (\<lambda>cls. 16),
       static_cast_float = (\<lambda>d. ucast (drop_bit 32 d)),
       GetIntegralVectorConstElement = sample_GetIntegralVectorConstElement,
       areArgumentsContiguous = (\<lambda>arg prevArg. False),
       gtHasSpillableEffects = (\<lambda>spillGlobEffects t. case t of GT_OTHER ty n \<Rightarrow> True | _ \<Rightarrow> False),
       gtIsCloneable = (\<lambda>t. case t of GT_LCL_VAR ty n \<Rightarrow> True | _ \<Rightarrow> False) \<rparr>"

definition sample_jit_avx2 :: Compiler where
  "sample_jit_avx2 =
     sample_jit\<lparr> compExactlyDependsOn := (\<lambda>isa. isa \<in> set (InstructionSet_AVX2 # sample_isas)) \<rparr>"

definition sample_sig :: "nat \<Rightarrow> CORINFO_SIG_INFO" where
  "sample_sig n =
     \<lparr> numArgs = n, sigRetType = CORINFO_TYPE_UNDEF, retTypeClass = NO_CLASS_HANDLE,
       retTypeSigClass = NO_CLASS_HANDLE, sigArgs = 0 \<rparr>"

definition sample_state :: "GenTree list \<Rightarrow> ImportState" where
  "sample_state stack =
     \<lparr> esStack = stack, impStmtList = [], lvaCount = 0, lvSIMDRelated = [] \<rparr>"

section \<open>Predicates used in the statements and proofs\<close>

text \<open>
  An expansion step declines cleanly when every run that ends with the null result
  leaves the state as it found it; it builds when no run ends with the null result; a
  step is pure when no run changes the state.
\<close>

definition declines_clean :: "'a option imp \<Rightarrow> bool" where
  "declines_clean m \<longleftrightarrow> (\<forall>s s'. m s = Inr (None, s') \<longrightarrow> s' = s)"

definition builds :: "'a option imp \<Rightarrow> bool" where
  "builds m \<longleftrightarrow> (\<forall>s s'. m s \<noteq> Inr (None, s'))"

definition pure_step :: "'a imp \<Rightarrow> bool" where
  "pure_step m \<longleftrightarrow> (\<forall>s x s'. m s = Inr (x, s') \<longrightarrow> s' = s)"

text \<open>
  Element \<open>i\<close> of the index vector is in range and names a source element in the other
  half of an \<open>n\<close>-element vector: the condition under which the loop of the shuffle
  case sets \<^verbatim>\<open>crossLane\<close>.
\<close>

definition crossesLane :: "Compiler \<Rightarrow> GenTree \<Rightarrow> var_types \<Rightarrow> nat \<Rightarrow> nat \<Rightarrow> bool" where
  "crossesLane jit indices bt n i \<longleftrightarrow>
     unat (GetIntegralVectorConstElement jit indices i bt) < n
     \<and> (if i < n div 2 then n div 2 \<le> unat (GetIntegralVectorConstElement jit indices i bt)
         else unat (GetIntegralVectorConstElement jit indices i bt) < n div 2)"

section \<open>Properties of the capability catalog\<close>

lemma strcmp_eq_0_iff: "strcmp s t = 0 \<longleftrightarrow> s = t"
  by (induction s t rule: strcmp.induct) auto

lemma strncmp_eq_0_iff: "strncmp s t n = 0 \<longleftrightarrow> take n s = take n t"
  by (simp add: strncmp_def strcmp_eq_0_iff)

lemma cstr_at_0: "cstr_at s 0 = c \<longleftrightarrow> (s = [] \<and> c = CHR 0x00) \<or> (\<exists>r. s = c # r)"
  by (cases s) (auto simp: cstr_at_def)

lemma lookupInstructionSet_unrec:
  "\<not> recognized_class_name name \<Longrightarrow> lookupInstructionSet Release (Some name) = Inr InstructionSet_ILLEGAL"
  by (simp add: lookupInstructionSet_def recognized_class_name_def exact_class_names_def vector_class_prefixes_def
      strcmp_eq_0_iff strncmp_eq_0_iff)

lemma lookupInstructionSet_dbg:
  "name \<noteq> ''VL'' \<Longrightarrow> lookupInstructionSet Debug (Some name) = lookupInstructionSet Release (Some name)"
  by (simp add: lookupInstructionSet_def strcmp_eq_0_iff strncmp_eq_0_iff)

lemma lookupInstructionSet_tot:
  "\<exists>isa. lookupInstructionSet Release (Some name) = Inr isa"
  by (simp add: lookupInstructionSet_def strcmp_eq_0_iff strncmp_eq_0_iff)

lemma take9: "take 9 name = c # cs \<Longrightarrow> cstr_at name 0 = c"
  by (cases name) (auto simp: cstr_at_def)

lemma take_eq_prefix: "take n name = p \<Longrightarrow> \<exists>r. name = p @ r"
  by (metis append_take_drop_id)

lemma lookupInstructionSet_rec:
  assumes "recognized_class_name name"
  shows "lookupInstructionSet Release (Some name) \<noteq> Inr InstructionSet_ILLEGAL"
proof -
  from assms consider (exact) "name \<in> set exact_class_names"
    | (pre) "take 9 name \<in> set vector_class_prefixes"
    by (auto simp: recognized_class_name_def)
  then show ?thesis
  proof cases
    case exact
    then show ?thesis
      unfolding exact_class_names_def
      by (simp, elim disjE; simp add: lookupInstructionSet_def cstr_at_def strncmp_def)
  next
    case pre
    then obtain p r where "p \<in> set vector_class_prefixes" "name = p @ r"
      using take_eq_prefix by blast
    then show ?thesis
      unfolding vector_class_prefixes_def
      by (simp, elim disjE; simp add: lookupInstructionSet_def cstr_at_def strncmp_def)
  qed
qed

text \<open>
  Claim C9, as the code has it. \<open>lookupInstructionSet\<close> is total on name strings in a
  release build: every name gets a capability, and the illegal sentinel
  \<open>InstructionSet_ILLEGAL\<close> is returned exactly for the names that are none of the 22
  exact class names and do not begin with \<open>Vector128\<close>, \<open>Vector256\<close> or
  \<open>Vector512\<close>; the name \<open>VL\<close> is one of those and gets the same sentinel.
  A checked build behaves the same on every name except \<open>VL\<close>, where it stops on
  the assertion whose message says that VL.X64 is not yet implemented.
\<close>

theorem lookupInstructionSet_total:
  "(\<exists>isa. lookupInstructionSet Release (Some name) = Inr isa)
   \<and> (lookupInstructionSet Release (Some name) = Inr InstructionSet_ILLEGAL
        \<longleftrightarrow> \<not> recognized_class_name name)
   \<and> lookupInstructionSet Debug (Some name) =
       (if name = ''VL'' then Inl (AssertFailed VL_X64_message)
        else lookupInstructionSet Release (Some name))"
proof (intro conjI)
  show "\<exists>isa. lookupInstructionSet Release (Some name) = Inr isa"
    by (rule lookupInstructionSet_tot)
  show "lookupInstructionSet Release (Some name) = Inr InstructionSet_ILLEGAL
        \<longleftrightarrow> \<not> recognized_class_name name"
    using lookupInstructionSet_rec lookupInstructionSet_unrec by blast
  show "lookupInstructionSet Debug (Some name) =
       (if name = ''VL'' then Inl (AssertFailed VL_X64_message)
        else lookupInstructionSet Release (Some name))"
    by (simp add: lookupInstructionSet_dbg) (simp add: lookupInstructionSet_def cstr_at_def strncmp_def)
qed

theorem lookupInstructionSet_total_witness:
  "lookupInstructionSet Release (Some ''Neon'') = Inr InstructionSet_ILLEGAL
   \<and> \<not> recognized_class_name ''Neon''
   \<and> lookupInstructionSet Debug (Some ''Neon'') = Inr InstructionSet_ILLEGAL"
  using lookupInstructionSet_total [of "''Neon''"]
  by (simp add: recognized_class_name_def exact_class_names_def vector_class_prefixes_def)

text \<open>
  Claim C9 as stated fails at the name \<open>VL\<close>: there is no distinguished sentinel.
  A release build returns for \<open>VL\<close> the very sentinel it returns for an unrecognized
  name such as \<open>Neon\<close>, and a checked build does not return at all.
\<close>

theorem lookupInstructionSet_VL_counterexample:
  "lookupInstructionSet Release (Some ''VL'') = Inr InstructionSet_ILLEGAL
   \<and> lookupInstructionSet Release (Some ''Neon'') = Inr InstructionSet_ILLEGAL
   \<and> lookupInstructionSet Debug (Some ''VL'') = Inl (AssertFailed VL_X64_message)"
  by (simp add: lookupInstructionSet_def cstr_at_def strncmp_def)



section \<open>Properties of the intrinsic metadata\<close>

lemma UNIV_FloatComparisonMode: "UNIV = set all_FloatComparisonModes"
proof -
  have "p \<in> set all_FloatComparisonModes" for p
    unfolding all_FloatComparisonModes_def by (cases p) simp_all
  then show ?thesis by blast
qed

lemma fixed_points_list:
  "filter (\<lambda>p. lookupFloatComparisonModeForSwappedArgs p = p) all_FloatComparisonModes =
     [OrderedEqualNonSignaling, UnorderedNonSignaling, UnorderedNotEqualNonSignaling,
      OrderedNonSignaling, UnorderedEqualNonSignaling, OrderedFalseNonSignaling,
      OrderedNotEqualNonSignaling, UnorderedTrueNonSignaling, OrderedEqualSignaling,
      UnorderedSignaling, UnorderedNotEqualSignaling, OrderedSignaling,
      UnorderedEqualSignaling, OrderedFalseSignaling, OrderedNotEqualSignaling,
      UnorderedTrueSignaling]"
  unfolding all_FloatComparisonModes_def by simp

text \<open>
  Claim C2. \<open>lookupFloatComparisonModeForSwappedArgs\<close> is an involution on the 32
  comparison modes, and exactly 16 modes are mapped to themselves.
\<close>

theorem swapped_involution:
  "lookupFloatComparisonModeForSwappedArgs (lookupFloatComparisonModeForSwappedArgs p) = p
   \<and> card {q. lookupFloatComparisonModeForSwappedArgs q = q} = 16"
proof
  show "lookupFloatComparisonModeForSwappedArgs (lookupFloatComparisonModeForSwappedArgs p) = p"
    by (cases p) simp_all
  have "{q. lookupFloatComparisonModeForSwappedArgs q = q} =
        set (filter (\<lambda>p. lookupFloatComparisonModeForSwappedArgs p = p) all_FloatComparisonModes)"
    using UNIV_FloatComparisonMode by auto
  also have "card \<dots> = 16"
    unfolding fixed_points_list by (subst distinct_card) simp_all
  finally show "card {q. lookupFloatComparisonModeForSwappedArgs q = q} = 16" .
qed




section \<open>Properties of the expansion engine\<close>

subsection \<open>The stack and the assertions\<close>

lemma assertI_ok: "(build jit = Debug \<Longrightarrow> c) \<Longrightarrow> assertI jit c msg m = m"
  by (auto simp: assertI_def assert_fails_def)

lemma impPopStack_snoc:
  "esStack s = xs @ [x] \<Longrightarrow> impPopStack s = Inr (x, s\<lparr>esStack := xs\<rparr>)"
  by (simp add: impPopStack_def)

lemma pop_two:
  assumes "esStack s = xs @ [a, b]"
  shows "bindI impPopStack (\<lambda>op2. bindI impPopStack (\<lambda>op1. f op2 op1)) s
         = f b a (s\<lparr>esStack := xs\<rparr>)"
proof -
  have 1: "esStack s = (xs @ [a]) @ [b]" using assms by simp
  have 2: "esStack (s\<lparr>esStack := xs @ [a]\<rparr>) = xs @ [a]" by simp
  show ?thesis
    by (simp add: bindI_def impPopStack_snoc [OF 1] impPopStack_snoc [OF 2])
qed

lemma impStackTop_0:
  "esStack s = xs @ [a] \<Longrightarrow> impStackTop 0 s = Inr (a, s)"
  by (simp add: impStackTop_def nth_append)

lemma impStackTop_1:
  "esStack s = xs @ [a, b] \<Longrightarrow> impStackTop (Suc 0) s = Inr (a, s)"
  by (simp add: impStackTop_def nth_append)


lemma genTypeSize_arith: "varTypeIsArithmetic t \<Longrightarrow> genTypeSize t \<noteq> 0"
  by (auto simp: varTypeIsArithmetic_def varTypeIsIntegral_def varTypeIsFloating_def genTypeSize_def)

subsection \<open>Which case of the dispatch an identifier reaches\<close>

lemma impSpecialIntrinsic_Add_case:
  assumes "intrinsic \<in> {NI_Vector128_Add, NI_Vector256_Add, NI_Vector512_Add,
                        NI_Vector128_op_Addition, NI_Vector256_op_Addition,
                        NI_Vector512_op_Addition}"
    and "simdSize \<noteq> 0"
    and "varTypeIsArithmetic (JitType2PreciseVarType jit simdBaseJitType)"
  shows "impSpecialIntrinsic jit intrinsic clsHnd method sig simdBaseJitType retType simdSize
         = imp_Vector128_Add jit intrinsic sig simdBaseJitType retType simdSize
             (JitType2PreciseVarType jit simdBaseJitType)"
proof -
  from assms(1) have
     "intrinsic = NI_Vector128_Add \<or> intrinsic = NI_Vector256_Add \<or>
      intrinsic = NI_Vector512_Add \<or> intrinsic = NI_Vector128_op_Addition \<or>
      intrinsic = NI_Vector256_op_Addition \<or> intrinsic = NI_Vector512_op_Addition"
    by simp
  then show ?thesis
    using assms(2,3)
    by (elim disjE) (subst impSpecialIntrinsic.simps, simp add: Let_def assert_fails_def)+
qed

lemma impSpecialIntrinsic_Create_case:
  assumes "intrinsic \<in> {NI_Vector128_Create, NI_Vector256_Create, NI_Vector512_Create}"
    and "simdSize \<noteq> 0"
    and "varTypeIsArithmetic (JitType2PreciseVarType jit simdBaseJitType)"
  shows "impSpecialIntrinsic jit intrinsic clsHnd method sig simdBaseJitType retType simdSize
         = imp_Vector128_Create jit intrinsic sig simdBaseJitType retType simdSize
             (JitType2PreciseVarType jit simdBaseJitType)"
proof -
  from assms(1) have
     "intrinsic = NI_Vector128_Create \<or> intrinsic = NI_Vector256_Create \<or>
      intrinsic = NI_Vector512_Create"
    by simp
  then show ?thesis
    using assms(2,3)
    by (elim disjE) (subst impSpecialIntrinsic.simps, simp add: Let_def assert_fails_def)+
qed

lemma impSpecialIntrinsic_GetElement_case:
  assumes "intrinsic \<in> {NI_Vector128_GetElement, NI_Vector256_GetElement,
                        NI_Vector512_GetElement}"
    and "simdSize \<noteq> 0"
    and "varTypeIsArithmetic (JitType2PreciseVarType jit simdBaseJitType)"
  shows "impSpecialIntrinsic jit intrinsic clsHnd method sig simdBaseJitType retType simdSize
         = imp_Vector128_GetElement jit intrinsic sig simdBaseJitType retType simdSize
             (JitType2PreciseVarType jit simdBaseJitType)"
proof -
  from assms(1) have
     "intrinsic = NI_Vector128_GetElement \<or>
      intrinsic = NI_Vector256_GetElement \<or> intrinsic = NI_Vector512_GetElement"
    by simp
  then show ?thesis
    using assms(2,3)
    by (elim disjE) (subst impSpecialIntrinsic.simps, simp add: Let_def assert_fails_def)+
qed

lemma impSpecialIntrinsic_Shuffle_case:
  assumes "intrinsic \<in> {NI_Vector128_Shuffle, NI_Vector256_Shuffle}"
    and "simdSize \<noteq> 0"
    and "varTypeIsArithmetic (JitType2PreciseVarType jit simdBaseJitType)"
  shows "impSpecialIntrinsic jit intrinsic clsHnd method sig simdBaseJitType retType simdSize
         = imp_Vector128_Shuffle jit intrinsic sig simdBaseJitType retType simdSize
             (JitType2PreciseVarType jit simdBaseJitType)"
proof -
  from assms(1) have
     "intrinsic = NI_Vector128_Shuffle \<or> intrinsic = NI_Vector256_Shuffle"
    by simp
  then show ?thesis
    using assms(2,3)
    by (elim disjE) (subst impSpecialIntrinsic.simps, simp add: Let_def assert_fails_def)+
qed

lemma impSpecialIntrinsic_WithElement_case:
  assumes "intrinsic \<in> {NI_Vector128_WithElement, NI_Vector256_WithElement,
                        NI_Vector512_WithElement}"
    and "simdSize \<noteq> 0"
    and "varTypeIsArithmetic (JitType2PreciseVarType jit simdBaseJitType)"
  shows "impSpecialIntrinsic jit intrinsic clsHnd method sig simdBaseJitType retType simdSize
         = imp_Vector128_WithElement jit intrinsic sig simdBaseJitType retType simdSize
             (JitType2PreciseVarType jit simdBaseJitType)"
proof -
  from assms(1) have
     "intrinsic = NI_Vector128_WithElement \<or>
      intrinsic = NI_Vector256_WithElement \<or> intrinsic = NI_Vector512_WithElement"
    by simp
  then show ?thesis
    using assms(2,3)
    by (elim disjE) (subst impSpecialIntrinsic.simps, simp add: Let_def assert_fails_def)+
qed

subsection \<open>A decline leaves the state as it was\<close>

lemma builds_returnI_Some: "builds (returnI (Some x))"
  by (simp add: builds_def returnI_def)

lemma builds_failI: "builds (failI e)"
  by (simp add: builds_def failI_def)

lemma builds_bindI: "(\<And>x. builds (f x)) \<Longrightarrow> builds (bindI m f)"
  by (auto simp: builds_def bindI_def split: sum.splits)

lemma builds_assertI: "builds m \<Longrightarrow> builds (assertI jit c msg m)"
  by (simp add: assertI_def builds_failI)

lemma builds_if: "builds a \<Longrightarrow> builds b \<Longrightarrow> builds (if c then a else b)"
  by simp

lemma builds_case_list: "builds a \<Longrightarrow> (\<And>x xs. builds (f x xs)) \<Longrightarrow> builds (case l of [] \<Rightarrow> a | x # xs \<Rightarrow> f x xs)"
  by (cases l) simp_all

lemma clean_builds: "builds m \<Longrightarrow> declines_clean m"
  by (simp add: builds_def declines_clean_def)

lemma clean_returnI_None: "declines_clean (returnI None)"
  by (simp add: declines_clean_def returnI_def)

lemma clean_if: "declines_clean a \<Longrightarrow> declines_clean b \<Longrightarrow> declines_clean (if c then a else b)"
  by simp

lemma clean_assertI: "declines_clean m \<Longrightarrow> declines_clean (assertI jit c msg m)"
  by (simp add: assertI_def clean_builds builds_failI)

lemma clean_bind_pure: "pure_step m \<Longrightarrow> (\<And>x. declines_clean (f x)) \<Longrightarrow> declines_clean (bindI m f)"
  by (fastforce simp: pure_step_def declines_clean_def bindI_def split: sum.splits)

lemma pure_impStackTop: "pure_step (impStackTop n)"
  by (auto simp: pure_step_def impStackTop_def split: if_splits)

lemma pure_liftE: "pure_step (liftE r)"
  by (auto simp: pure_step_def liftE_def split: sum.splits)

lemma pure_depth: "pure_step verCurrentState_esStackDepth"
  by (auto simp: pure_step_def verCurrentState_esStackDepth_def)

lemma pure_if: "pure_step a \<Longrightarrow> pure_step b \<Longrightarrow> pure_step (if c then a else b)"
  by simp

lemma pure_assertI: "pure_step m \<Longrightarrow> pure_step (assertI jit c msg m)"
  by (simp add: assertI_def pure_step_def failI_def)

lemma isConstantLoop_state: "isConstantLoop p n k s = Inr (b, s') \<Longrightarrow> s' = s"
proof (induction p n k s rule: isConstantLoop.induct)
  case (1 isCns n index s)
  show ?case
  proof (cases "index < n")
    case True
    with "1.prems" "1.IH" show ?thesis
      by (subst (asm) isConstantLoop.simps)
         (auto simp: impStackTop_def split: if_splits sum.splits)
  next
    case False
    with "1.prems" show ?thesis
      by (subst (asm) isConstantLoop.simps) simp
  qed
qed

lemma pure_isConstantLoop: "pure_step (isConstantLoop p n k)"
  using isConstantLoop_state by (auto simp: pure_step_def)

lemmas clean_rules = clean_if clean_assertI clean_returnI_None clean_bind_pure
  pure_impStackTop pure_liftE pure_depth pure_if pure_assertI pure_isConstantLoop
  builds_returnI_Some builds_failI builds_bindI builds_assertI builds_if builds_case_list


lemma cases_decline_clean:
  "declines_clean (imp_Vector128_Abs jit intrinsic sig simdBaseJitType retType simdSize simdBaseType)"
  "declines_clean (imp_Vector128_Add jit intrinsic sig simdBaseJitType retType simdSize simdBaseType)"
  "declines_clean (imp_Vector128_AndNot jit intrinsic sig simdBaseJitType retType simdSize simdBaseType)"
  "declines_clean (imp_Vector128_As jit intrinsic sig simdBaseJitType retType simdSize simdBaseType)"
  "declines_clean (imp_Vector128_AsVector2 jit intrinsic sig simdBaseJitType retType simdSize simdBaseType)"
  "declines_clean (imp_Vector128_BitwiseAnd jit intrinsic sig simdBaseJitType retType simdSize simdBaseType)"
  "declines_clean (imp_Vector128_BitwiseOr jit intrinsic sig simdBaseJitType retType simdSize simdBaseType)"
  "declines_clean (imp_Vector128_Ceiling jit intrinsic sig simdBaseJitType retType simdSize simdBaseType)"
  "declines_clean (imp_Vector128_ConditionalSelect jit intrinsic sig simdBaseJitType retType simdSize simdBaseType)"
  "declines_clean (imp_Vector128_ConvertToDouble jit intrinsic sig simdBaseJitType retType simdSize simdBaseType)"
  "declines_clean (imp_Vector128_ConvertToInt32 jit intrinsic sig simdBaseJitType retType simdSize simdBaseType)"
  "declines_clean (imp_Vector128_ConvertToSingle jit intrinsic sig simdBaseJitType retType simdSize simdBaseType)"
  "declines_clean (imp_Vector128_Create jit intrinsic sig simdBaseJitType retType simdSize simdBaseType)"
  "declines_clean (imp_Vector128_CreateScalar jit intrinsic sig simdBaseJitType retType simdSize simdBaseType)"
  "declines_clean (imp_Vector128_CreateScalarUnsafe jit intrinsic sig simdBaseJitType retType simdSize simdBaseType)"
  "declines_clean (imp_Vector128_Divide jit intrinsic sig simdBaseJitType retType simdSize simdBaseType)"
  "declines_clean (imp_Vector128_Dot jit intrinsic sig simdBaseJitType retType simdSize simdBaseType)"
  "declines_clean (imp_Vector128_Equals jit intrinsic sig simdBaseJitType retType simdSize simdBaseType)"
  "declines_clean (imp_Vector512_EqualsAll jit intrinsic sig simdBaseJitType retType simdSize simdBaseType)"
  "declines_clean (imp_Vector128_EqualsAll jit intrinsic sig simdBaseJitType retType simdSize simdBaseType)"
  "declines_clean (imp_Vector512_EqualsAny jit intrinsic sig simdBaseJitType retType simdSize simdBaseType)"
  "declines_clean (imp_Vector128_EqualsAny jit intrinsic sig simdBaseJitType retType simdSize simdBaseType)"
  "declines_clean (imp_Vector512_ExtractMostSignificantBits jit intrinsic sig simdBaseJitType retType simdSize simdBaseType)"
  "declines_clean (imp_Vector128_ExtractMostSignificantBits jit intrinsic sig simdBaseJitType retType simdSize simdBaseType)"
  "declines_clean (imp_Vector128_Floor jit intrinsic sig simdBaseJitType retType simdSize simdBaseType)"
  "declines_clean (imp_Vector128_get_AllBitsSet jit intrinsic sig simdBaseJitType retType simdSize simdBaseType)"
  "declines_clean (imp_Vector128_get_One jit intrinsic sig simdBaseJitType retType simdSize simdBaseType)"
  "declines_clean (imp_Vector128_get_Zero jit intrinsic sig simdBaseJitType retType simdSize simdBaseType)"
  "declines_clean (imp_Vector128_GetElement jit intrinsic sig simdBaseJitType retType simdSize simdBaseType)"
  "declines_clean (imp_Vector128_GreaterThan jit intrinsic sig simdBaseJitType retType simdSize simdBaseType)"
  "declines_clean (imp_Vector128_GreaterThanAll jit intrinsic sig simdBaseJitType retType simdSize simdBaseType)"
  "declines_clean (imp_Vector128_GreaterThanAny jit intrinsic sig simdBaseJitType retType simdSize simdBaseType)"
  "declines_clean (imp_Vector128_GreaterThanOrEqual jit intrinsic sig simdBaseJitType retType simdSize simdBaseType)"
  "declines_clean (imp_Vector128_GreaterThanOrEqualAll jit intrinsic sig simdBaseJitType retType simdSize simdBaseType)"
  "declines_clean (imp_Vector128_GreaterThanOrEqualAny jit intrinsic sig simdBaseJitType retType simdSize simdBaseType)"
  "declines_clean (imp_Vector128_LessThan jit intrinsic sig simdBaseJitType retType simdSize simdBaseType)"
  "declines_clean (imp_Vector128_LessThanAll jit intrinsic sig simdBaseJitType retType simdSize simdBaseType)"
  "declines_clean (imp_Vector128_LessThanAny jit intrinsic sig simdBaseJitType retType simdSize simdBaseType)"
  "declines_clean (imp_Vector128_LessThanOrEqual jit intrinsic sig simdBaseJitType retType simdSize simdBaseType)"
  "declines_clean (imp_Vector128_LessThanOrEqualAll jit intrinsic sig simdBaseJitType retType simdSize simdBaseType)"
  "declines_clean (imp_Vector128_LessThanOrEqualAny jit intrinsic sig simdBaseJitType retType simdSize simdBaseType)"
  "declines_clean (imp_SSE_LoadVector128 jit intrinsic sig simdBaseJitType retType simdSize simdBaseType)"
  "declines_clean (imp_Vector128_LoadAligned jit intrinsic sig simdBaseJitType retType simdSize simdBaseType)"
  "declines_clean (imp_Vector128_LoadAlignedNonTemporal jit intrinsic sig simdBaseJitType retType simdSize simdBaseType)"
  "declines_clean (imp_Vector128_Max jit intrinsic sig simdBaseJitType retType simdSize simdBaseType)"
  "declines_clean (imp_Vector128_Min jit intrinsic sig simdBaseJitType retType simdSize simdBaseType)"
  "declines_clean (imp_Vector128_Multiply jit intrinsic sig simdBaseJitType retType simdSize simdBaseType)"
  "declines_clean (imp_Vector128_Narrow jit intrinsic sig simdBaseJitType retType simdSize simdBaseType)"
  "declines_clean (imp_Vector128_Negate jit intrinsic sig simdBaseJitType retType simdSize simdBaseType)"
  "declines_clean (imp_Vector128_OnesComplement jit intrinsic sig simdBaseJitType retType simdSize simdBaseType)"
  "declines_clean (imp_Vector128_op_Inequality jit intrinsic sig simdBaseJitType retType simdSize simdBaseType)"
  "declines_clean (imp_Vector512_op_Inequality jit intrinsic sig simdBaseJitType retType simdSize simdBaseType)"
  "declines_clean (imp_Vector128_op_UnaryPlus jit intrinsic sig simdBaseJitType retType simdSize simdBaseType)"
  "declines_clean (imp_Vector128_Subtract jit intrinsic sig simdBaseJitType retType simdSize simdBaseType)"
  "declines_clean (imp_Vector128_ShiftLeft jit intrinsic sig simdBaseJitType retType simdSize simdBaseType)"
  "declines_clean (imp_Vector128_ShiftRightArithmetic jit intrinsic sig simdBaseJitType retType simdSize simdBaseType)"
  "declines_clean (imp_Vector128_ShiftRightLogical jit intrinsic sig simdBaseJitType retType simdSize simdBaseType)"
  "declines_clean (imp_Vector128_Shuffle jit intrinsic sig simdBaseJitType retType simdSize simdBaseType)"
  "declines_clean (imp_Vector128_Sqrt jit intrinsic sig simdBaseJitType retType simdSize simdBaseType)"
  "declines_clean (imp_SSE_Store jit intrinsic sig simdBaseJitType retType simdSize simdBaseType)"
  "declines_clean (imp_Vector128_Store jit intrinsic sig simdBaseJitType retType simdSize simdBaseType)"
  "declines_clean (imp_Vector128_StoreAligned jit intrinsic sig simdBaseJitType retType simdSize simdBaseType)"
  "declines_clean (imp_Vector128_StoreAlignedNonTemporal jit intrinsic sig simdBaseJitType retType simdSize simdBaseType)"
  "declines_clean (imp_Vector128_Sum jit intrinsic sig simdBaseJitType retType simdSize simdBaseType)"
  "declines_clean (imp_Vector128_ToScalar jit intrinsic sig simdBaseJitType retType simdSize simdBaseType)"
  "declines_clean (imp_Vector128_ToVector256 jit intrinsic sig simdBaseJitType retType simdSize simdBaseType)"
  "declines_clean (imp_Vector256_GetLower jit intrinsic sig simdBaseJitType retType simdSize simdBaseType)"
  "declines_clean (imp_Vector256_GetUpper jit intrinsic sig simdBaseJitType retType simdSize simdBaseType)"
  "declines_clean (imp_Vector512_GetLower jit intrinsic sig simdBaseJitType retType simdSize simdBaseType)"
  "declines_clean (imp_Vector512_GetUpper jit intrinsic sig simdBaseJitType retType simdSize simdBaseType)"
  "declines_clean (imp_Vector128_ToVector512 jit intrinsic sig simdBaseJitType retType simdSize simdBaseType)"
  "declines_clean (imp_Vector128_WidenLower jit intrinsic sig simdBaseJitType retType simdSize simdBaseType)"
  "declines_clean (imp_Vector128_WidenUpper jit intrinsic sig simdBaseJitType retType simdSize simdBaseType)"
  "declines_clean (imp_Vector128_WithElement jit intrinsic sig simdBaseJitType retType simdSize simdBaseType)"
  "declines_clean (imp_Vector256_WithLower jit intrinsic sig simdBaseJitType retType simdSize simdBaseType)"
  "declines_clean (imp_Vector256_WithUpper jit intrinsic sig simdBaseJitType retType simdSize simdBaseType)"
  "declines_clean (imp_Vector512_WithLower jit intrinsic sig simdBaseJitType retType simdSize simdBaseType)"
  "declines_clean (imp_Vector512_WithUpper jit intrinsic sig simdBaseJitType retType simdSize simdBaseType)"
  "declines_clean (imp_Vector128_Xor jit intrinsic sig simdBaseJitType retType simdSize simdBaseType)"
  "declines_clean (imp_X86Base_Pause jit intrinsic sig simdBaseJitType retType simdSize simdBaseType)"
  "declines_clean (imp_X86Base_DivRem jit intrinsic sig simdBaseJitType retType simdSize simdBaseType)"
  "declines_clean (imp_SSE_CompareScalarGreaterThan jit intrinsic sig simdBaseJitType retType simdSize simdBaseType)"
  "declines_clean (imp_SSE_Prefetch0 jit intrinsic sig simdBaseJitType retType simdSize simdBaseType)"
  "declines_clean (imp_SSE_StoreFence jit intrinsic sig simdBaseJitType retType simdSize simdBaseType)"
  "declines_clean (imp_SSE2_CompareScalarGreaterThan jit intrinsic sig simdBaseJitType retType simdSize simdBaseType)"
  "declines_clean (imp_SSE2_LoadFence jit intrinsic sig simdBaseJitType retType simdSize simdBaseType)"
  "declines_clean (imp_SSE2_StoreNonTemporal jit intrinsic sig simdBaseJitType retType simdSize simdBaseType)"
  "declines_clean (imp_AVX2_PermuteVar8x32 jit intrinsic sig simdBaseJitType retType simdSize simdBaseType)"
  "declines_clean (imp_AVX2_GatherMaskVector128 jit intrinsic sig simdBaseJitType retType simdSize simdBaseType)"
  "declines_clean (imp_BMI2_ZeroHighBits jit intrinsic sig simdBaseJitType retType simdSize simdBaseType)"
  "declines_clean (imp_BMI1_BitFieldExtract jit intrinsic sig simdBaseJitType retType simdSize simdBaseType)"
  "declines_clean (imp_AsVector128_SIMD8 jit intrinsic sig simdBaseJitType retType simdSize simdBaseType)"
  "declines_clean (imp_AsVector128_SIMD12 jit intrinsic sig simdBaseJitType retType simdSize simdBaseType)"
  "declines_clean (imp_foldAwayCast jit intrinsic sig simdBaseJitType retType simdSize simdBaseType)"
  unfolding imp_Vector128_Abs_def
    imp_Vector128_Add_def
    imp_Vector128_AndNot_def
    imp_Vector128_As_def
    imp_Vector128_AsVector2_def
    imp_Vector128_BitwiseAnd_def
    imp_Vector128_BitwiseOr_def
    imp_Vector128_Ceiling_def
    imp_Vector128_ConditionalSelect_def
    imp_Vector128_ConvertToDouble_def
    imp_Vector128_ConvertToInt32_def
    imp_Vector128_ConvertToSingle_def
    imp_Vector128_Create_def
    imp_Vector128_CreateScalar_def
    imp_Vector128_CreateScalarUnsafe_def
    imp_Vector128_Divide_def
    imp_Vector128_Dot_def
    imp_Vector128_Equals_def
    imp_Vector512_EqualsAll_def
    imp_Vector128_EqualsAll_def
    imp_Vector512_EqualsAny_def
    imp_Vector128_EqualsAny_def
    imp_Vector512_ExtractMostSignificantBits_def
    imp_Vector128_ExtractMostSignificantBits_def
    imp_Vector128_Floor_def
    imp_Vector128_get_AllBitsSet_def
    imp_Vector128_get_One_def
    imp_Vector128_get_Zero_def
    imp_Vector128_GetElement_def
    imp_Vector128_GreaterThan_def
    imp_Vector128_GreaterThanAll_def
    imp_Vector128_GreaterThanAny_def
    imp_Vector128_GreaterThanOrEqual_def
    imp_Vector128_GreaterThanOrEqualAll_def
    imp_Vector128_GreaterThanOrEqualAny_def
    imp_Vector128_LessThan_def
    imp_Vector128_LessThanAll_def
    imp_Vector128_LessThanAny_def
    imp_Vector128_LessThanOrEqual_def
    imp_Vector128_LessThanOrEqualAll_def
    imp_Vector128_LessThanOrEqualAny_def
    imp_SSE_LoadVector128_def
    imp_Vector128_LoadAligned_def
    imp_Vector128_LoadAlignedNonTemporal_def
    imp_Vector128_Max_def
    imp_Vector128_Min_def
    imp_Vector128_Multiply_def
    imp_Vector128_Narrow_def
    imp_Vector128_Negate_def
    imp_Vector128_OnesComplement_def
    imp_Vector128_op_Inequality_def
    imp_Vector512_op_Inequality_def
    imp_Vector128_op_UnaryPlus_def
    imp_Vector128_Subtract_def
    imp_Vector128_ShiftLeft_def
    imp_Vector128_ShiftRightArithmetic_def
    imp_Vector128_ShiftRightLogical_def
    imp_Vector128_Shuffle_def
    imp_Vector128_Sqrt_def
    imp_SSE_Store_def
    imp_Vector128_Store_def
    imp_Vector128_StoreAligned_def
    imp_Vector128_StoreAlignedNonTemporal_def
    imp_Vector128_Sum_def
    imp_Vector128_ToScalar_def
    imp_Vector128_ToVector256_def
    imp_Vector256_GetLower_def
    imp_Vector256_GetUpper_def
    imp_Vector512_GetLower_def
    imp_Vector512_GetUpper_def
    imp_Vector128_ToVector512_def
    imp_Vector128_WidenLower_def
    imp_Vector128_WidenUpper_def
    imp_Vector128_WithElement_def
    imp_Vector256_WithLower_def
    imp_Vector256_WithUpper_def
    imp_Vector512_WithLower_def
    imp_Vector512_WithUpper_def
    imp_Vector128_Xor_def
    imp_X86Base_Pause_def
    imp_X86Base_DivRem_def
    imp_SSE_CompareScalarGreaterThan_def
    imp_SSE_Prefetch0_def
    imp_SSE_StoreFence_def
    imp_SSE2_CompareScalarGreaterThan_def
    imp_SSE2_LoadFence_def
    imp_SSE2_StoreNonTemporal_def
    imp_AVX2_PermuteVar8x32_def
    imp_AVX2_GatherMaskVector128_def
    imp_BMI2_ZeroHighBits_def
    imp_BMI1_BitFieldExtract_def
    imp_AsVector128_SIMD8_def
    imp_AsVector128_SIMD12_def
    imp_foldAwayCast_def
  by (intro clean_rules clean_builds)+

lemma targets_build:
  "builds (imp_Vector128_ToVector256 jit intrinsic sig simdBaseJitType retType simdSize simdBaseType)"
  "builds (imp_Vector256_GetLower jit intrinsic sig simdBaseJitType retType simdSize simdBaseType)"
  "builds (imp_Vector512_GetLower jit intrinsic sig simdBaseJitType retType simdSize simdBaseType)"
  "builds (imp_Vector128_ToVector512 jit intrinsic sig simdBaseJitType retType simdSize simdBaseType)"
  unfolding imp_Vector128_ToVector256_def imp_Vector256_GetLower_def imp_Vector512_GetLower_def imp_Vector128_ToVector512_def
  by (intro clean_rules)+


lemma redispatch_builds:
  "builds (impSpecialIntrinsic jit NI_Vector128_ToVector256 clsHnd method sig simdBaseJitType retType simdSize)"
  "builds (impSpecialIntrinsic jit NI_Vector256_GetLower clsHnd method sig simdBaseJitType retType simdSize)"
  "builds (impSpecialIntrinsic jit NI_Vector512_GetLower clsHnd method sig simdBaseJitType retType simdSize)"
  "builds (impSpecialIntrinsic jit NI_Vector256_ToVector512 clsHnd method sig simdBaseJitType retType simdSize)"
  "builds (impSpecialIntrinsic jit NI_Vector512_GetLower128 clsHnd method sig simdBaseJitType retType simdSize)"
  "builds (impSpecialIntrinsic jit NI_Vector128_ToVector512 clsHnd method sig simdBaseJitType retType simdSize)"
  by (subst impSpecialIntrinsic.simps, simp add: Let_def targets_build builds_failI)+

lemma clean_let: "(\<And>x. declines_clean (f x)) \<Longrightarrow> declines_clean (Let v f)"
  by simp

lemma clean_case_sum:
  "(\<And>e. declines_clean (f e)) \<Longrightarrow> (\<And>x. declines_clean (g x))
   \<Longrightarrow> declines_clean (case r of Inl e \<Rightarrow> f e | Inr x \<Rightarrow> g x)"
  by (cases r) simp_all

text \<open>
  Claim C8. Whenever a call of \<open>impSpecialIntrinsic\<close> ends with the null result, the
  importer state after the call is the state before it; in particular the expression
  stack has the same entries and the same depth. No path that declines has popped or
  spilled an operand.
\<close>

theorem impSpecialIntrinsic_decline_leaves_state:
  assumes "impSpecialIntrinsic jit intrinsic clsHnd method sig simdBaseJitType retType simdSize s
             = Inr (None, s')"
  shows "esStack s' = esStack s \<and> esStackDepth s' = esStackDepth s \<and> s' = s"
proof -
  have "declines_clean
          (impSpecialIntrinsic jit intrinsic clsHnd method sig simdBaseJitType retType simdSize)"
    by (subst impSpecialIntrinsic.simps)
       (intro clean_let clean_if clean_assertI clean_case_sum clean_returnI_None
          cases_decline_clean clean_builds redispatch_builds builds_failI)
  with assms have "s' = s"
    by (simp add: declines_clean_def)
  then show ?thesis by simp
qed

theorem impSpecialIntrinsic_decline_leaves_state_witness:
  "impSpecialIntrinsic sample_jit NI_Vector256_Add 0 0 (sample_sig 2) CORINFO_TYPE_INT
       TYP_SIMD32 32 (sample_state [GT_OTHER TYP_SIMD32 1, GT_OTHER TYP_SIMD32 2])
     = Inr (None, sample_state [GT_OTHER TYP_SIMD32 1, GT_OTHER TYP_SIMD32 2])
   \<and> esStack (sample_state [GT_OTHER TYP_SIMD32 1, GT_OTHER TYP_SIMD32 2])
     = [GT_OTHER TYP_SIMD32 1, GT_OTHER TYP_SIMD32 2]"
proof -
  have kind: "varTypeIsArithmetic (JitType2PreciseVarType sample_jit CORINFO_TYPE_INT)"
    by (simp add: sample_jit_def sample_JitType2PreciseVarType_def varTypeIsArithmetic_def
          varTypeIsIntegral_def)
  have run: "impSpecialIntrinsic sample_jit NI_Vector256_Add 0 0 (sample_sig 2) CORINFO_TYPE_INT
       TYP_SIMD32 32 (sample_state [GT_OTHER TYP_SIMD32 1, GT_OTHER TYP_SIMD32 2])
     = Inr (None, sample_state [GT_OTHER TYP_SIMD32 1, GT_OTHER TYP_SIMD32 2])"
    unfolding impSpecialIntrinsic_Add_case [of NI_Vector256_Add 32 sample_jit CORINFO_TYPE_INT,
        OF _ _ kind, simplified] imp_Vector128_Add_def
    by (simp add: sample_jit_def sample_sig_def sample_isas_def sample_JitType2PreciseVarType_def
          assertI_def assert_fails_def varTypeIsFloating_def returnI_def)
  from impSpecialIntrinsic_decline_leaves_state [OF run] run show ?thesis
    by (simp add: sample_state_def)
qed

subsection \<open>Vector addition\<close>

lemma impSIMDPopStack_two:
  assumes "esStack s = xs @ [a, b]"
  shows "bindI (impSIMDPopStack t1) (\<lambda>op2. bindI (impSIMDPopStack t2) (\<lambda>op1. f op2 op1)) s
         = f b a (s\<lparr>esStack := xs\<rparr>)"
  using pop_two [OF assms] by (simp add: impSIMDPopStack_def)

lemma arithmetic_floating_iff:
  "varTypeIsArithmetic t \<Longrightarrow> varTypeIsFloating t \<longleftrightarrow> \<not> varTypeIsIntegral t"
  by (auto simp: varTypeIsArithmetic_def varTypeIsFloating_def varTypeIsIntegral_def)

text \<open>
  Claim C4. A call of vector addition, by the method or by the operator, on any of the
  three widths, with an integer or floating-point element type and the operands
  \<open>arg1\<close> (first argument) and \<open>arg2\<close> (second argument, on top) on the stack. On the
  32-byte width with an integer element type and without a guaranteed AVX2 the engine
  declines and leaves the state alone; in every other case it pops exactly the two
  operands and returns the addition node with \<open>op1 = arg1\<close> and \<open>op2 = arg2\<close>. The
  only other outcome is the assertion on the arity of the call: a checked build stops
  on a signature that does not have the two arguments of an addition.
\<close>

theorem impSpecialIntrinsic_addition:
  assumes intr: "intrinsic \<in> {NI_Vector128_Add, NI_Vector256_Add, NI_Vector512_Add,
                        NI_Vector128_op_Addition, NI_Vector256_op_Addition,
                        NI_Vector512_op_Addition}"
    and size: "simdSize \<in> {16, 32, 64}"
    and kind: "varTypeIsArithmetic (JitType2PreciseVarType jit simdBaseJitType)"
    and stack: "esStack s = rest @ [arg1, arg2]"
  shows "impSpecialIntrinsic jit intrinsic clsHnd method sig simdBaseJitType retType simdSize s =
           (if build jit = Debug \<and> numArgs sig \<noteq> 2
            then Inl (AssertFailed ''sig->numArgs == 2'')
            else if simdSize = 32 \<and> varTypeIsIntegral (JitType2PreciseVarType jit simdBaseJitType)
               \<and> \<not> compExactlyDependsOn jit InstructionSet_AVX2
            then Inr (None, s)
            else Inr (Some (gtNewSimdBinOpNode GT_ADD retType arg1 arg2 simdBaseJitType simdSize),
                      s\<lparr>esStack := rest\<rparr>))"
proof -
  from size have nz: "simdSize \<noteq> 0" by auto
  note fl = arithmetic_floating_iff [OF kind]
  show ?thesis
    unfolding impSpecialIntrinsic_Add_case [OF intr nz kind] imp_Vector128_Add_def
    by (simp add: assertI_def assert_fails_def failI_def impSIMDPopStack_two [OF stack] fl
          returnI_def)
qed

theorem impSpecialIntrinsic_addition_witness:
  "impSpecialIntrinsic sample_jit NI_Vector256_Add 0 0 (sample_sig 2) CORINFO_TYPE_INT
       TYP_SIMD32 32 (sample_state [GT_OTHER TYP_SIMD32 1, GT_OTHER TYP_SIMD32 2])
     = Inr (None, sample_state [GT_OTHER TYP_SIMD32 1, GT_OTHER TYP_SIMD32 2])
   \<and> impSpecialIntrinsic sample_jit_avx2 NI_Vector256_Add 0 0 (sample_sig 2) CORINFO_TYPE_INT
       TYP_SIMD32 32 (sample_state [GT_OTHER TYP_SIMD32 1, GT_OTHER TYP_SIMD32 2])
     = Inr (Some (gtNewSimdBinOpNode GT_ADD TYP_SIMD32 (GT_OTHER TYP_SIMD32 1)
                    (GT_OTHER TYP_SIMD32 2) CORINFO_TYPE_INT 32),
            sample_state [])
   \<and> impSpecialIntrinsic sample_jit NI_Vector256_op_Addition 0 0 (sample_sig 2)
       CORINFO_TYPE_FLOAT TYP_SIMD32 32
       (sample_state [GT_OTHER TYP_SIMD32 1, GT_OTHER TYP_SIMD32 2])
     = Inr (Some (gtNewSimdBinOpNode GT_ADD TYP_SIMD32 (GT_OTHER TYP_SIMD32 1)
                    (GT_OTHER TYP_SIMD32 2) CORINFO_TYPE_FLOAT 32),
            sample_state [])
   \<and> impSpecialIntrinsic sample_jit NI_Vector128_Add 0 0 (sample_sig 2) CORINFO_TYPE_INT
       TYP_SIMD16 16 (sample_state [GT_OTHER TYP_SIMD16 1, GT_OTHER TYP_SIMD16 2])
     = Inr (Some (gtNewSimdBinOpNode GT_ADD TYP_SIMD16 (GT_OTHER TYP_SIMD16 1)
                    (GT_OTHER TYP_SIMD16 2) CORINFO_TYPE_INT 16),
            sample_state [])"
  using impSpecialIntrinsic_addition [of NI_Vector256_Add 32 sample_jit CORINFO_TYPE_INT
          "sample_state [GT_OTHER TYP_SIMD32 1, GT_OTHER TYP_SIMD32 2]" "[]"
          "GT_OTHER TYP_SIMD32 1" "GT_OTHER TYP_SIMD32 2" 0 0 "sample_sig 2" TYP_SIMD32]
        impSpecialIntrinsic_addition [of NI_Vector256_Add 32 sample_jit_avx2 CORINFO_TYPE_INT
          "sample_state [GT_OTHER TYP_SIMD32 1, GT_OTHER TYP_SIMD32 2]" "[]"
          "GT_OTHER TYP_SIMD32 1" "GT_OTHER TYP_SIMD32 2" 0 0 "sample_sig 2" TYP_SIMD32]
        impSpecialIntrinsic_addition [of NI_Vector256_op_Addition 32 sample_jit CORINFO_TYPE_FLOAT
          "sample_state [GT_OTHER TYP_SIMD32 1, GT_OTHER TYP_SIMD32 2]" "[]"
          "GT_OTHER TYP_SIMD32 1" "GT_OTHER TYP_SIMD32 2" 0 0 "sample_sig 2" TYP_SIMD32]
        impSpecialIntrinsic_addition [of NI_Vector128_Add 16 sample_jit CORINFO_TYPE_INT
          "sample_state [GT_OTHER TYP_SIMD16 1, GT_OTHER TYP_SIMD16 2]" "[]"
          "GT_OTHER TYP_SIMD16 1" "GT_OTHER TYP_SIMD16 2" 0 0 "sample_sig 2" TYP_SIMD16]
  by (simp add: sample_jit_def sample_jit_avx2_def sample_sig_def sample_state_def sample_isas_def
        sample_JitType2PreciseVarType_def varTypeIsArithmetic_def varTypeIsIntegral_def
        varTypeIsFloating_def)

subsection \<open>The fallback for a shift count that is not a constant\<close>








subsection \<open>Element access by index\<close>

lemma imp_Vector128_WithElement_index:
  assumes kind: "varTypeIsArithmetic simdBaseType"
    and stack: "esStack s = rest @ [indexOp, valueOp]"
    and bad: "\<not> OperIsConst indexOp
              \<or> (\<exists>ty v. indexOp = GT_CNS_INT ty v
                    \<and> (sint v < 0 \<or> int (simdSize div genTypeSize simdBaseType) \<le> sint v))"
  shows "imp_Vector128_WithElement jit intrinsic sig simdBaseJitType retType simdSize simdBaseType s
           = (if build jit = Debug \<and> numArgs sig \<noteq> 3
              then Inl (AssertFailed ''sig->numArgs == 3'') else Inr (None, s))"
proof -
  note gs = genTypeSize_arith [OF kind]
  from bad show ?thesis
  proof
    assume "\<not> OperIsConst indexOp"
    then show ?thesis
      unfolding imp_Vector128_WithElement_def
      by (simp add: assertI_def assert_fails_def failI_def bindI_def impStackTop_1 [OF stack]
            returnI_def)
  next
    assume "\<exists>ty v. indexOp = GT_CNS_INT ty v
                    \<and> (sint v < 0 \<or> int (simdSize div genTypeSize simdBaseType) \<le> sint v)"
    then obtain ty v where idx: "indexOp = GT_CNS_INT ty v"
      and rng: "sint v < 0 \<or> int (simdSize div genTypeSize simdBaseType) \<le> sint v"
      by blast
    from rng show ?thesis
      unfolding imp_Vector128_WithElement_def
      by (auto simp: assertI_def assert_fails_def failI_def bindI_def impStackTop_1 [OF stack]
            returnI_def idx liftE_def gs)
  qed
qed

lemma imp_Vector128_GetElement_any_index:
  assumes size: "simdSize \<in> {16, 32, 64}"
    and kind: "varTypeIsArithmetic simdBaseType"
    and stack: "esStack s = rest @ [vectorOp, indexOp]"
  shows "imp_Vector128_GetElement jit intrinsic sig simdBaseJitType retType simdSize simdBaseType s
           = (if build jit = Debug \<and> numArgs sig \<noteq> 2
              then Inl (AssertFailed ''sig->numArgs == 2'')
              else if simdBaseType \<in> {TYP_BYTE, TYP_UBYTE, TYP_INT, TYP_UINT, TYP_LONG, TYP_ULONG}
                      \<and> \<not> compExactlyDependsOn jit InstructionSet_SSE41
              then Inr (None, s)
              else Inr (Some (gtNewSimdGetElementNode retType vectorOp indexOp simdBaseJitType
                                simdSize),
                        s\<lparr>esStack := rest\<rparr>))"
proof -
  from size obtain ty where ty: "getSIMDTypeForSize simdSize = Inr ty"
    by (auto simp: getSIMDTypeForSize_def)
  have 1: "esStack s = (rest @ [vectorOp]) @ [indexOp]" using stack by simp
  have 2: "esStack (s\<lparr>esStack := rest @ [vectorOp]\<rparr>) = rest @ [vectorOp]" by simp
  show ?thesis
    unfolding imp_Vector128_GetElement_def
    by (simp add: assertI_def assert_fails_def failI_def bindI_def kind returnI_def liftE_def ty
          impSIMDPopStack_def impPopStack_snoc [OF 1] impPopStack_snoc [OF 2])
qed

text \<open>
  Claim C5, as the code has it. The widths are the three vector widths and the element
  kind is any of the ten arithmetic kinds. For \<open>WithElement\<close>, with the index operand
  second from the top of the stack: when the index is not a constant, or is an integer
  constant below zero or not below the lane count \<open>simdSize / elementSize\<close>, the engine
  returns the null result, builds no node and leaves the state alone. \<open>GetElement\<close>
  does not look at its index operand: it declines only when the element kind is a 1-, 4-
  or 8-byte integer and SSE4.1 is not guaranteed, and otherwise pops both operands and
  hands the index, whatever it is, to \<^verbatim>\<open>gtNewSimdGetElementNode\<close>. The only other
  outcome of either is the assertion on the arity of the call in a checked build.
\<close>

theorem impSpecialIntrinsic_element_index:
  assumes size: "simdSize \<in> {16, 32, 64}"
    and kind: "varTypeIsArithmetic (JitType2PreciseVarType jit simdBaseJitType)"
  shows "(intrinsic \<in> {NI_Vector128_WithElement, NI_Vector256_WithElement,
                       NI_Vector512_WithElement} \<longrightarrow>
          esStack s = rest @ [indexOp, valueOp] \<longrightarrow>
          (\<not> OperIsConst indexOp
             \<or> (\<exists>ty v. indexOp = GT_CNS_INT ty v
                   \<and> (sint v < 0
                      \<or> int (simdSize div genTypeSize (JitType2PreciseVarType jit simdBaseJitType))
                          \<le> sint v))) \<longrightarrow>
          impSpecialIntrinsic jit intrinsic clsHnd methHnd sig simdBaseJitType retType simdSize s
            = (if build jit = Debug \<and> numArgs sig \<noteq> 3
               then Inl (AssertFailed ''sig->numArgs == 3'') else Inr (None, s)))
       \<and> (intrinsic \<in> {NI_Vector128_GetElement, NI_Vector256_GetElement,
                         NI_Vector512_GetElement} \<longrightarrow>
          esStack s = rest @ [vectorOp, indexOp] \<longrightarrow>
          impSpecialIntrinsic jit intrinsic clsHnd methHnd sig simdBaseJitType retType simdSize s
            = (if build jit = Debug \<and> numArgs sig \<noteq> 2
               then Inl (AssertFailed ''sig->numArgs == 2'')
               else if JitType2PreciseVarType jit simdBaseJitType
                         \<in> {TYP_BYTE, TYP_UBYTE, TYP_INT, TYP_UINT, TYP_LONG, TYP_ULONG}
                       \<and> \<not> compExactlyDependsOn jit InstructionSet_SSE41
               then Inr (None, s)
               else Inr (Some (gtNewSimdGetElementNode retType vectorOp indexOp simdBaseJitType
                                 simdSize),
                         s\<lparr>esStack := rest\<rparr>)))"
proof (intro conjI impI)
  from size have nz: "simdSize \<noteq> 0" by auto
  {
    assume intr: "intrinsic \<in> {NI_Vector128_WithElement, NI_Vector256_WithElement,
                       NI_Vector512_WithElement}"
      and stack: "esStack s = rest @ [indexOp, valueOp]"
      and bad: "\<not> OperIsConst indexOp
             \<or> (\<exists>ty v. indexOp = GT_CNS_INT ty v
                   \<and> (sint v < 0
                      \<or> int (simdSize div genTypeSize (JitType2PreciseVarType jit simdBaseJitType))
                          \<le> sint v))"
    show "impSpecialIntrinsic jit intrinsic clsHnd methHnd sig simdBaseJitType retType simdSize s
            = (if build jit = Debug \<and> numArgs sig \<noteq> 3
               then Inl (AssertFailed ''sig->numArgs == 3'') else Inr (None, s))"
      unfolding impSpecialIntrinsic_WithElement_case [OF intr nz kind]
      by (rule imp_Vector128_WithElement_index [OF kind stack bad])
  }
  {
    assume intr: "intrinsic \<in> {NI_Vector128_GetElement, NI_Vector256_GetElement,
                         NI_Vector512_GetElement}"
      and stack: "esStack s = rest @ [vectorOp, indexOp]"
    show "impSpecialIntrinsic jit intrinsic clsHnd methHnd sig simdBaseJitType retType simdSize s
            = (if build jit = Debug \<and> numArgs sig \<noteq> 2
               then Inl (AssertFailed ''sig->numArgs == 2'')
               else if JitType2PreciseVarType jit simdBaseJitType
                         \<in> {TYP_BYTE, TYP_UBYTE, TYP_INT, TYP_UINT, TYP_LONG, TYP_ULONG}
                       \<and> \<not> compExactlyDependsOn jit InstructionSet_SSE41
               then Inr (None, s)
               else Inr (Some (gtNewSimdGetElementNode retType vectorOp indexOp simdBaseJitType
                                 simdSize),
                         s\<lparr>esStack := rest\<rparr>))"
      unfolding impSpecialIntrinsic_GetElement_case [OF intr nz kind]
      by (rule imp_Vector128_GetElement_any_index [OF size kind stack])
  }
qed

theorem impSpecialIntrinsic_element_index_witness:
  "impSpecialIntrinsic sample_jit NI_Vector128_WithElement 0 0 (sample_sig 3) CORINFO_TYPE_SHORT
       TYP_SIMD16 16
       (sample_state [GT_OTHER TYP_SIMD16 1, GT_CNS_INT TYP_INT 8, GT_OTHER TYP_SHORT 2])
     = Inr (None, sample_state [GT_OTHER TYP_SIMD16 1, GT_CNS_INT TYP_INT 8, GT_OTHER TYP_SHORT 2])
   \<and> impSpecialIntrinsic sample_jit NI_Vector256_WithElement 0 0 (sample_sig 3) CORINFO_TYPE_FLOAT
       TYP_SIMD32 32
       (sample_state [GT_OTHER TYP_SIMD32 1, GT_LCL_VAR TYP_INT 5, GT_OTHER TYP_FLOAT 2])
     = Inr (None, sample_state [GT_OTHER TYP_SIMD32 1, GT_LCL_VAR TYP_INT 5, GT_OTHER TYP_FLOAT 2])
   \<and> impSpecialIntrinsic sample_jit NI_Vector128_GetElement 0 0 (sample_sig 2) CORINFO_TYPE_SHORT
       TYP_SHORT 16 (sample_state [GT_OTHER TYP_SIMD16 1, GT_CNS_INT TYP_INT 3])
     = Inr (Some (gtNewSimdGetElementNode TYP_SHORT (GT_OTHER TYP_SIMD16 1) (GT_CNS_INT TYP_INT 3)
                    CORINFO_TYPE_SHORT 16),
            sample_state [])"
  using impSpecialIntrinsic_element_index [where simdSize = 16 and jit = sample_jit
          and simdBaseJitType = CORINFO_TYPE_SHORT and intrinsic = NI_Vector128_WithElement
          and s = "sample_state [GT_OTHER TYP_SIMD16 1, GT_CNS_INT TYP_INT 8, GT_OTHER TYP_SHORT 2]"
          and rest = "[GT_OTHER TYP_SIMD16 1]" and indexOp = "GT_CNS_INT TYP_INT 8"
          and valueOp = "GT_OTHER TYP_SHORT 2" and clsHnd = 0 and methHnd = 0
          and sig = "sample_sig 3" and retType = TYP_SIMD16]
        impSpecialIntrinsic_element_index [where simdSize = 32 and jit = sample_jit
          and simdBaseJitType = CORINFO_TYPE_FLOAT and intrinsic = NI_Vector256_WithElement
          and s = "sample_state [GT_OTHER TYP_SIMD32 1, GT_LCL_VAR TYP_INT 5, GT_OTHER TYP_FLOAT 2]"
          and rest = "[GT_OTHER TYP_SIMD32 1]" and indexOp = "GT_LCL_VAR TYP_INT 5"
          and valueOp = "GT_OTHER TYP_FLOAT 2" and clsHnd = 0 and methHnd = 0
          and sig = "sample_sig 3" and retType = TYP_SIMD32]
        impSpecialIntrinsic_element_index [where simdSize = 16 and jit = sample_jit
          and simdBaseJitType = CORINFO_TYPE_SHORT and intrinsic = NI_Vector128_GetElement
          and s = "sample_state [GT_OTHER TYP_SIMD16 1, GT_CNS_INT TYP_INT 3]"
          and rest = "[]" and vectorOp = "GT_OTHER TYP_SIMD16 1"
          and indexOp = "GT_CNS_INT TYP_INT 3" and clsHnd = 0 and methHnd = 0
          and sig = "sample_sig 2" and retType = TYP_SHORT]
  by (simp add: sample_jit_def sample_sig_def sample_state_def sample_isas_def
        sample_JitType2PreciseVarType_def varTypeIsArithmetic_def varTypeIsIntegral_def
        varTypeIsFloating_def genTypeSize_def)

text \<open>
  Claim C5 as stated fails for \<open>GetElement\<close>: with the constant index 100 on a vector
  of eight 2-byte lanes the engine does not decline; it pops both operands and builds
  the node with that index.
\<close>

theorem impSpecialIntrinsic_GetElement_counterexample:
  "impSpecialIntrinsic sample_jit NI_Vector128_GetElement 0 0 (sample_sig 2) CORINFO_TYPE_SHORT
       TYP_SHORT 16 (sample_state [GT_OTHER TYP_SIMD16 1, GT_CNS_INT TYP_INT 100])
     = Inr (Some (gtNewSimdGetElementNode TYP_SHORT (GT_OTHER TYP_SIMD16 1)
                    (GT_CNS_INT TYP_INT 100) CORINFO_TYPE_SHORT 16),
            sample_state [])"
proof -
  have kind: "varTypeIsArithmetic (JitType2PreciseVarType sample_jit CORINFO_TYPE_SHORT)"
    by (simp add: sample_jit_def sample_JitType2PreciseVarType_def varTypeIsArithmetic_def
          varTypeIsIntegral_def)
  have stack: "esStack (sample_state [GT_OTHER TYP_SIMD16 1, GT_CNS_INT TYP_INT 100])
                 = [] @ [GT_OTHER TYP_SIMD16 1, GT_CNS_INT TYP_INT 100]"
    by (simp add: sample_state_def)
  have "impSpecialIntrinsic sample_jit NI_Vector128_GetElement 0 0 (sample_sig 2)
          CORINFO_TYPE_SHORT TYP_SHORT 16
        = imp_Vector128_GetElement sample_jit NI_Vector128_GetElement (sample_sig 2)
            CORINFO_TYPE_SHORT TYP_SHORT 16 (JitType2PreciseVarType sample_jit CORINFO_TYPE_SHORT)"
    by (rule impSpecialIntrinsic_GetElement_case) (simp_all add: kind)
  then show ?thesis
    using imp_Vector128_GetElement_any_index [where simdSize = 16 and jit = sample_jit
            and intrinsic = NI_Vector128_GetElement and sig = "sample_sig 2"
            and simdBaseJitType = CORINFO_TYPE_SHORT and retType = TYP_SHORT,
            OF _ kind stack]
    by (simp add: sample_jit_def sample_sig_def sample_state_def sample_isas_def
          sample_JitType2PreciseVarType_def)
qed

subsection \<open>Shuffles that cross the halves of a 32-byte vector\<close>

lemma crossLaneLoop_step:
  "crossLaneLoop jit indices bt n k =
     (if k < n then (if crossesLane jit indices bt n k then True
                     else crossLaneLoop jit indices bt n (k + 1))
      else False)"
  by (subst crossLaneLoop.simps) (simp add: Let_def crossesLane_def not_le not_less)

lemma crossLaneLoop_iff:
  "crossLaneLoop jit indices bt n k \<longleftrightarrow> (\<exists>i. k \<le> i \<and> i < n \<and> crossesLane jit indices bt n i)"
proof (induction "n - k" arbitrary: k)
  case 0
  then have "\<not> k < n" by simp
  then show ?case
    by (subst crossLaneLoop_step) auto
next
  case (Suc d)
  then have lt: "k < n" and d: "d = n - (k + 1)" by simp_all
  note IH = Suc.hyps(1) [OF d]
  show ?case
  proof (cases "crossesLane jit indices bt n k")
    case True
    then have "crossLaneLoop jit indices bt n k"
      using lt by (subst crossLaneLoop_step) simp
    with True lt show ?thesis by blast
  next
    case False
    then have "crossLaneLoop jit indices bt n k = crossLaneLoop jit indices bt n (k + 1)"
      using lt by (subst crossLaneLoop_step) simp
    also have "\<dots> \<longleftrightarrow> (\<exists>i. k + 1 \<le> i \<and> i < n \<and> crossesLane jit indices bt n i)"
      by (rule IH)
    also have "\<dots> \<longleftrightarrow> (\<exists>i. k \<le> i \<and> i < n \<and> crossesLane jit indices bt n i)"
    proof
      assume "\<exists>i. k + 1 \<le> i \<and> i < n \<and> crossesLane jit indices bt n i"
      then obtain i where "k + 1 \<le> i" "i < n" "crossesLane jit indices bt n i" by blast
      then have "k \<le> i \<and> i < n \<and> crossesLane jit indices bt n i" by simp
      then show "\<exists>i. k \<le> i \<and> i < n \<and> crossesLane jit indices bt n i" by blast
    next
      assume "\<exists>i. k \<le> i \<and> i < n \<and> crossesLane jit indices bt n i"
      then obtain i where i: "k \<le> i" "i < n" "crossesLane jit indices bt n i" by blast
      with False have "i \<noteq> k" by auto
      with i have "k + 1 \<le> i \<and> i < n \<and> crossesLane jit indices bt n i" by simp
      then show "\<exists>i. k + 1 \<le> i \<and> i < n \<and> crossesLane jit indices bt n i" by blast
    qed
    finally show ?thesis .
  qed
qed

text \<open>
  Claim C6. A shuffle of a 32-byte vector of 1- or 2-byte integer elements whose index
  operand, on top of the stack, is a vector constant. If some position \<open>index\<close> holds
  an in-range value (below the element count) that names a source element in the other
  16-byte half (a position in the low half with a value in the high half, or a position
  in the high half with a value in the low half), the engine returns the null result,
  builds no node and leaves the state alone. The only other outcome is the assertion
  on the arity of the call in a checked build.
\<close>

theorem impSpecialIntrinsic_Shuffle_crossLane:
  assumes intr: "intrinsic \<in> {NI_Vector128_Shuffle, NI_Vector256_Shuffle}"
    and size: "simdSize = 32"
    and small: "varTypeIsSmallInt (JitType2PreciseVarType jit simdBaseJitType)"
    and stack: "esStack s = rest @ [indices]"
    and const: "IsVectorConst indices"
    and index: "index < 32 div genTypeSize (JitType2PreciseVarType jit simdBaseJitType)"
    and inrange: "unat (GetIntegralVectorConstElement jit indices index
                          (JitType2PreciseVarType jit simdBaseJitType))
                  < 32 div genTypeSize (JitType2PreciseVarType jit simdBaseJitType)"
    and cross: "if index < 32 div genTypeSize (JitType2PreciseVarType jit simdBaseJitType) div 2
                then 32 div genTypeSize (JitType2PreciseVarType jit simdBaseJitType) div 2
                       \<le> unat (GetIntegralVectorConstElement jit indices index
                                 (JitType2PreciseVarType jit simdBaseJitType))
                else unat (GetIntegralVectorConstElement jit indices index
                             (JitType2PreciseVarType jit simdBaseJitType))
                       < 32 div genTypeSize (JitType2PreciseVarType jit simdBaseJitType) div 2"
  shows "impSpecialIntrinsic jit intrinsic clsHnd method sig simdBaseJitType retType simdSize s
           = (if build jit = Debug \<and> \<not> (numArgs sig = 2 \<or> numArgs sig = 3)
              then Inl (AssertFailed ''(sig->numArgs == 2) || (sig->numArgs == 3)'')
              else Inr (None, s))"
proof -
  from size have nz: "simdSize \<noteq> 0" by simp
  from small have kind: "varTypeIsArithmetic (JitType2PreciseVarType jit simdBaseJitType)"
    by (auto simp: varTypeIsSmallInt_def varTypeIsArithmetic_def varTypeIsIntegral_def)
  note gs = genTypeSize_arith [OF kind]
  have loop: "crossLaneLoop jit indices (JitType2PreciseVarType jit simdBaseJitType)
                (32 div genTypeSize (JitType2PreciseVarType jit simdBaseJitType)) 0"
    unfolding crossLaneLoop_iff crossesLane_def using index inrange cross by blast
  show ?thesis
    unfolding impSpecialIntrinsic_Shuffle_case [OF intr nz kind] imp_Vector128_Shuffle_def
    by (simp add: assertI_def assert_fails_def failI_def size bindI_def impStackTop_0 [OF stack]
          returnI_def const gs small loop)
qed

lemma sample_index_byte:
  "sample_GetIntegralVectorConstElement (GT_CNS_VEC TYP_SIMD32 (16 # replicate 63 0)) 0 TYP_UBYTE
     = 16"
  by (simp add: sample_GetIntegralVectorConstElement_def get_u8_def load_bytes_def bytes_word_def
        word_rcat_def)

theorem impSpecialIntrinsic_Shuffle_crossLane_witness:
  "impSpecialIntrinsic sample_jit_avx2 NI_Vector256_Shuffle 0 0 (sample_sig 2) CORINFO_TYPE_UBYTE
       TYP_SIMD32 32
       (sample_state [GT_OTHER TYP_SIMD32 1, GT_CNS_VEC TYP_SIMD32 (16 # replicate 63 0)])
     = Inr (None, sample_state [GT_OTHER TYP_SIMD32 1,
                                GT_CNS_VEC TYP_SIMD32 (16 # replicate 63 0)])"
  using impSpecialIntrinsic_Shuffle_crossLane [of NI_Vector256_Shuffle 32 sample_jit_avx2
          CORINFO_TYPE_UBYTE
          "sample_state [GT_OTHER TYP_SIMD32 1, GT_CNS_VEC TYP_SIMD32 (16 # replicate 63 0)]"
          "[GT_OTHER TYP_SIMD32 1]" "GT_CNS_VEC TYP_SIMD32 (16 # replicate 63 0)" 0
          0 0 "sample_sig 2" TYP_SIMD32]
  by (simp add: sample_jit_avx2_def sample_jit_def sample_sig_def sample_state_def
        sample_JitType2PreciseVarType_def varTypeIsSmallInt_def genTypeSize_def IsVectorConst_def
        sample_index_byte)

end
